(* ===== verification/Prelude.thy ===== *)
theory Prelude
  imports Main "HOL-Library.Word" "HOL-Library.Multiset"
begin

text \<open>
  Shared vocabulary of the EchoFiles development: the types that name identifiers,
  owners and timestamps, the proof-rule collections the component theories feed, and
  the list lemmas every component uses.  The central list operation is
  \<open>update_where\<close>, the \<^verbatim>\<open>xs.map(x => p(x) ? f(x) : x)\<close> pattern
  that both the client (\<^verbatim>\<open>setFiles(prev => prev.map(...))\<close>) and the server
  (a per-row \<^verbatim>\<open>UPDATE ... WHERE id = ...\<close>) use to change one row.
\<close>

named_theorems row_simps "field equations of rows after an update"
named_theorems wf_intros "the store invariant is kept by an operation"

type_synonym file_id = nat
type_synonym user_id = string
type_synonym timestamp = nat

subsection \<open>Updating the elements that satisfy a predicate\<close>

definition update_where :: "('a \<Rightarrow> bool) \<Rightarrow> ('a \<Rightarrow> 'a) \<Rightarrow> 'a list \<Rightarrow> 'a list" where
  "update_where P f xs = map (\<lambda>x. if P x then f x else x) xs"

lemma update_where_simps [simp]:
  "update_where P f [] = []"
  "update_where P f (x # xs) = (if P x then f x else x) # update_where P f xs"
  by (simp_all add: update_where_def)

lemma length_update_where [simp]: "length (update_where P f xs) = length xs"
  by (simp add: update_where_def)

lemma update_where_append [simp]:
  "update_where P f (xs @ ys) = update_where P f xs @ update_where P f ys"
  by (simp add: update_where_def)

lemma update_where_id:
  "(\<forall>x \<in> set xs. \<not> P x) \<Longrightarrow> update_where P f xs = xs"
  by (induction xs) auto

lemma update_where_involutive:
  assumes "\<And>x. P x \<Longrightarrow> P (f x)" and "\<And>x. P x \<Longrightarrow> f (f x) = x"
  shows "update_where P f (update_where P f xs) = xs"
  using assms by (induction xs) auto

text \<open>
  A filter commutes with an update that does not change the filter's verdict on the
  updated elements: listing the rows of a folder after a toggle is toggling the
  listed rows.
\<close>

lemma filter_update_where:
  assumes "\<And>x. P x \<Longrightarrow> Q (f x) = Q x"
  shows "filter Q (update_where P f xs) = update_where P f (filter Q xs)"
  using assms by (induction xs) auto

lemma map_update_where_same:
  assumes "\<And>x. P x \<Longrightarrow> g (f x) = g x"
  shows "map g (update_where P f xs) = map g xs"
  using assms by (induction xs) auto

lemma set_update_where_mem:
  "y \<in> set (update_where P f xs) \<longleftrightarrow> (\<exists>x \<in> set xs. y = (if P x then f x else x))"
  by (auto simp: update_where_def)

subsection \<open>Filters\<close>

lemma filter_filter_comm: "filter P (filter Q xs) = filter Q (filter P xs)"
  by (induction xs) auto

lemma length_filter_conj_le: "length (filter (\<lambda>x. P x \<and> Q x) xs) \<le> length (filter Q xs)"
  by (induction xs) auto

lemma find_Some_mem [dest]: "List.find P xs = Some x \<Longrightarrow> x \<in> set xs \<and> P x"
  by (simp add: find_Some_iff) (metis nth_mem)

lemma find_None_iff_all: "List.find P xs = None \<longleftrightarrow> (\<forall>x \<in> set xs. \<not> P x)"
  by (auto simp: find_None_iff)

subsection \<open>Lists that agree under a projection\<close>

text \<open>
  Two lists with the same image under \<open>h\<close> (the client's copy of a listing and the
  server's rows, compared up to the timestamp) stay equal under \<open>h\<close> when both sides
  apply the same filter or the same update, each stated through \<open>h\<close>.
\<close>

lemma map_filter_agree:
  assumes "map h xs = map h ys" and "\<And>x. P x = Q (h x)" and "\<And>y. P' y = Q (h y)"
  shows "map h (filter P xs) = map h (filter P' ys)"
  using assms(1)
proof (induction xs arbitrary: ys)
  case (Cons x xs)
  then obtain y ys' where "ys = y # ys'" "h x = h y" "map h xs = map h ys'" by auto
  with Cons.IH assms(2,3) show ?case by auto
qed simp

lemma map_update_where_agree:
  assumes "map h xs = map h ys" and "\<And>x. P x = Q (h x)" and "\<And>y. P' y = Q (h y)"
    and "\<And>x. h (f x) = g (h x)" and "\<And>y. h (f' y) = g (h y)"
  shows "map h (update_where P f xs) = map h (update_where P' f' ys)"
  using assms(1)
proof (induction xs arbitrary: ys)
  case (Cons x xs)
  then obtain y ys' where "ys = y # ys'" "h x = h y" "map h xs = map h ys'" by auto
  with Cons.IH assms(2-5) show ?case by auto
qed simp

end
