(* ===== verification/Schema.thy ===== *)
theory Schema
  imports Prelude
begin

text \<open>
  The \<^verbatim>\<open>files\<close> table of \<^verbatim>\<open>src/lib/db/schema.ts\<close>: one row per file or
  folder, linked to its parent folder by \<^verbatim>\<open>parentId\<close> (the self relation
  \<^verbatim>\<open>filesRelations\<close>).  A row is the record \<open>file_row\<close>; the insert payload
  (\<^verbatim>\<open>NewFile = typeof files.$inferInsert\<close>) is \<open>new_file\<close>, and
  \<open>insert_row\<close> fills in the column defaults the table declares.  The uuid primary
  key is abstracted to a natural number handed out by the store's allocator
  (\<^verbatim>\<open>defaultRandom()\<close> is assumed collision free); the \<^verbatim>\<open>integer\<close> size column is
  a signed 32-bit Postgres \<^verbatim>\<open>int4\<close>, read here as \<open>int\<close> with the range
  written out in \<open>int4_range\<close> and \<open>to_int4\<close>.
\<close>

record file_row =
  row_id :: file_id
  parentId :: "file_id option"
  name :: string
  path :: string
  file_size :: int
  mime_type :: string
  fileUrl :: string
  thumbnailUrl :: "string option"
  userId :: user_id
  isFolder :: bool
  isStarred :: bool
  isTrash :: bool
  createdAt :: timestamp
  updatedAt :: timestamp

record new_file =
  nf_parentId :: "file_id option"
  nf_name :: string
  nf_path :: string
  nf_size :: int
  nf_type :: string
  nf_fileUrl :: string
  nf_thumbnailUrl :: "string option"
  nf_userId :: user_id
  nf_isFolder :: bool

text \<open>
  Column defaults: \<^verbatim>\<open>isFolder\<close>, \<^verbatim>\<open>isStarred\<close> and \<^verbatim>\<open>isTrash\<close> default to
  false (the payload here always carries \<^verbatim>\<open>isFolder\<close>), both timestamps to
  \<^verbatim>\<open>defaultNow()\<close>.
\<close>

definition insert_row :: "file_id \<Rightarrow> timestamp \<Rightarrow> new_file \<Rightarrow> file_row" where
  "insert_row i now nf =
     \<lparr>row_id = i, parentId = nf_parentId nf, name = nf_name nf, path = nf_path nf,
      file_size = nf_size nf, mime_type = nf_type nf, fileUrl = nf_fileUrl nf,
      thumbnailUrl = nf_thumbnailUrl nf, userId = nf_userId nf, isFolder = nf_isFolder nf,
      isStarred = False, isTrash = False, createdAt = now, updatedAt = now\<rparr>"

subsection \<open>The \<^verbatim>\<open>int4\<close> size column\<close>

definition int4_range :: "int \<Rightarrow> bool" where
  "int4_range x \<longleftrightarrow> - (2 ^ 31) \<le> x \<and> x < 2 ^ 31"

definition to_int4 :: "int \<Rightarrow> 32 word" where
  "to_int4 x = word_of_int x"

text \<open>
  Stripping the timestamp that the server refreshes on every mutation: two rows that
  agree up to \<^verbatim>\<open>updatedAt\<close> show the same thing in the file list.
\<close>

definition strip :: "file_row \<Rightarrow> file_row" where
  "strip r = r\<lparr>updatedAt := 0\<rparr>"

subsection \<open>Field lemmas\<close>

lemma insert_row_fields [row_simps]:
  "row_id (insert_row i now nf) = i"
  "parentId (insert_row i now nf) = nf_parentId nf"
  "name (insert_row i now nf) = nf_name nf"
  "path (insert_row i now nf) = nf_path nf"
  "file_size (insert_row i now nf) = nf_size nf"
  "mime_type (insert_row i now nf) = nf_type nf"
  "userId (insert_row i now nf) = nf_userId nf"
  "isFolder (insert_row i now nf) = nf_isFolder nf"
  "isStarred (insert_row i now nf) = False"
  "isTrash (insert_row i now nf) = False"
  "updatedAt (insert_row i now nf) = now"
  by (simp_all add: insert_row_def)

lemma strip_fields [simp]:
  "row_id (strip r) = row_id r" "parentId (strip r) = parentId r" "name (strip r) = name r"
  "isStarred (strip r) = isStarred r" "isTrash (strip r) = isTrash r"
  "isFolder (strip r) = isFolder r" "userId (strip r) = userId r"
  by (simp_all add: strip_def)

lemma strip_updatedAt [simp]: "strip (r\<lparr>updatedAt := t\<rparr>) = strip r"
  by (simp add: strip_def)

lemma strip_star_toggle [simp]:
  "strip (r\<lparr>isStarred := b\<rparr>) = (strip r)\<lparr>isStarred := b\<rparr>"
  "strip (r\<lparr>isTrash := b\<rparr>) = (strip r)\<lparr>isTrash := b\<rparr>"
  by (simp_all add: strip_def)

end
