(* ===== verification/Store.thy ===== *)
theory Store
  imports Schema
begin

text \<open>
  The server side: the Entity Store, the Hierarchy Validator and the Lifecycle Manager
  of the specification (sections 4.1 to 4.3), behind the routes the client calls
  (\<^verbatim>\<open>GET /api/files\<close>, \<^verbatim>\<open>POST /api/folders/create\<close>, \<^verbatim>\<open>POST /api/files/upload\<close>,
  \<^verbatim>\<open>PATCH /api/files/:id/star\<close>, \<^verbatim>\<open>PATCH /api/files/:id/trash\<close>,
  \<^verbatim>\<open>DELETE /api/files/:id/delete\<close>, \<^verbatim>\<open>DELETE /api/files/empty-trash\<close>).  The route
  handlers are not part of src/, so every operation here is modelled from the
  specification.  The store is the table as a list of rows (the order a listing
  returns them in) and the allocator of fresh identifiers; each operation returns
  its error as \<open>Inl\<close> or its result and the new store as \<open>Inr\<close>.
\<close>

datatype api_error =
    InvalidName | InvalidParent | CycleDetected | NotFound | NotTrashed
  | OwnershipMismatch | StorageUnavailable | InconsistentTree

record store =
  rows :: "file_row list"
  next_id :: file_id

subsection \<open>Entity Store\<close>

definition find_row :: "file_row list \<Rightarrow> file_id \<Rightarrow> file_row option" where
  "find_row rs i = List.find (\<lambda>r. row_id r = i) rs"

definition lookup_owned :: "user_id \<Rightarrow> file_id \<Rightarrow> store \<Rightarrow> file_row option" where
  "lookup_owned uid i st =
     (case find_row (rows st) i of
        None \<Rightarrow> None
      | Some r \<Rightarrow> if userId r = uid then Some r else None)"

definition set_row :: "file_id \<Rightarrow> (file_row \<Rightarrow> file_row) \<Rightarrow> store \<Rightarrow> store" where
  "set_row i f st = st\<lparr>rows := update_where (\<lambda>r. row_id r = i) f (rows st)\<rparr>"

definition list_entries :: "user_id \<Rightarrow> file_id option \<Rightarrow> store \<Rightarrow> file_row list" where
  "list_entries uid pid st = filter (\<lambda>r. userId r = uid \<and> parentId r = pid) (rows st)"

text \<open>\<^verbatim>\<open>GET /api/files?userId=..&parentId=..\<close>: the queried owner must be the caller.\<close>

definition list_files :: "user_id \<Rightarrow> user_id \<Rightarrow> file_id option \<Rightarrow> store \<Rightarrow> api_error + file_row list" where
  "list_files caller uid pid st =
     (if caller \<noteq> uid then Inl OwnershipMismatch else Inr (list_entries uid pid st))"

subsection \<open>Lifecycle Manager\<close>

definition flip_star :: "timestamp \<Rightarrow> file_row \<Rightarrow> file_row" where
  "flip_star now r = r\<lparr>isStarred := \<not> isStarred r, updatedAt := now\<rparr>"

definition flip_trash :: "timestamp \<Rightarrow> file_row \<Rightarrow> file_row" where
  "flip_trash now r = r\<lparr>isTrash := \<not> isTrash r, updatedAt := now\<rparr>"

definition toggle_star :: "timestamp \<Rightarrow> user_id \<Rightarrow> file_id \<Rightarrow> store \<Rightarrow> api_error + file_row \<times> store" where
  "toggle_star now uid i st =
     (case lookup_owned uid i st of
        None \<Rightarrow> Inl NotFound
      | Some r \<Rightarrow> Inr (flip_star now r, set_row i (flip_star now) st))"

definition toggle_trash :: "timestamp \<Rightarrow> user_id \<Rightarrow> file_id \<Rightarrow> store \<Rightarrow> api_error + file_row \<times> store" where
  "toggle_trash now uid i st =
     (case lookup_owned uid i st of
        None \<Rightarrow> Inl NotFound
      | Some r \<Rightarrow> Inr (flip_trash now r, set_row i (flip_trash now) st))"

definition delete_permanently :: "user_id \<Rightarrow> file_id \<Rightarrow> store \<Rightarrow> api_error + store" where
  "delete_permanently uid i st =
     (case lookup_owned uid i st of
        None \<Rightarrow> Inl NotFound
      | Some r \<Rightarrow>
          if \<not> isTrash r then Inl NotTrashed
          else Inr (st\<lparr>rows := filter (\<lambda>r. row_id r \<noteq> i) (rows st)\<rparr>))"

definition owner_trash :: "user_id \<Rightarrow> file_row \<Rightarrow> bool" where
  "owner_trash uid r \<longleftrightarrow> userId r = uid \<and> isTrash r"

definition empty_trash :: "user_id \<Rightarrow> store \<Rightarrow> nat \<times> store" where
  "empty_trash uid st =
     (length (filter (owner_trash uid) (rows st)),
      st\<lparr>rows := filter (\<lambda>r. \<not> owner_trash uid r) (rows st)\<rparr>)"

subsection \<open>Hierarchy Validator\<close>

definition reserved_chars :: string where
  "reserved_chars =
     [CHR 0x5C, CHR ''/'', CHR '':'', CHR ''*'', CHR ''?'', CHR 0x22, CHR ''<'', CHR ''>'', CHR ''|'']"

definition valid_name :: "string \<Rightarrow> bool" where
  "valid_name n \<longleftrightarrow> n \<noteq> [] \<and> list_all (\<lambda>c. c \<notin> set reserved_chars) n"

definition check_parent :: "user_id \<Rightarrow> file_id option \<Rightarrow> store \<Rightarrow> api_error + unit" where
  "check_parent uid pid st =
     (case pid of
        None \<Rightarrow> Inr ()
      | Some p \<Rightarrow>
          (case find_row (rows st) p of
             None \<Rightarrow> Inl InvalidParent
           | Some q \<Rightarrow> if userId q = uid \<and> isFolder q then Inr () else Inl InvalidParent))"

text \<open>
  The walk up the parent chain, with fuel: running out is the internal-consistency
  error the specification asks for instead of a loop, a missing ancestor is
  \<open>InvalidParent\<close>.  The result lists the ancestors' names from the root down.
\<close>

fun ancestor_names :: "nat \<Rightarrow> file_row list \<Rightarrow> file_id option \<Rightarrow> api_error + string list" where
  "ancestor_names n rs None = Inr []"
| "ancestor_names 0 rs (Some p) = Inl InconsistentTree"
| "ancestor_names (Suc n) rs (Some p) =
     (case find_row rs p of
        None \<Rightarrow> Inl InvalidParent
      | Some q \<Rightarrow>
          (case ancestor_names n rs (parentId q) of
             Inl e \<Rightarrow> Inl e
           | Inr ns \<Rightarrow> Inr (ns @ [name q])))"

definition path_sep :: char where
  "path_sep = CHR ''/''"

fun join_path :: "string list \<Rightarrow> string" where
  "join_path [] = []"
| "join_path [n] = n"
| "join_path (n # ns) = n @ path_sep # join_path ns"

subsection \<open>Creating folders and files\<close>

text \<open>
  What the storage collaborator returns for an uploaded file, and the row payload a
  create builds: a folder has size 0, type \<^verbatim>\<open>folder\<close> and no URL (the comments
  of schema.ts), a file the metadata of its upload.
\<close>

record file_meta =
  m_size :: int
  m_type :: string
  m_url :: string
  m_thumb :: "string option"

definition payload :: "user_id \<Rightarrow> file_id option \<Rightarrow> string \<Rightarrow> string \<Rightarrow> file_meta option \<Rightarrow> new_file" where
  "payload uid pid nm p meta =
     (case meta of
        None \<Rightarrow>
          \<lparr>nf_parentId = pid, nf_name = nm, nf_path = p, nf_size = 0, nf_type = ''folder'',
           nf_fileUrl = [], nf_thumbnailUrl = None, nf_userId = uid, nf_isFolder = True\<rparr>
      | Some m \<Rightarrow>
          \<lparr>nf_parentId = pid, nf_name = nm, nf_path = p, nf_size = m_size m, nf_type = m_type m,
           nf_fileUrl = m_url m, nf_thumbnailUrl = m_thumb m, nf_userId = uid, nf_isFolder = False\<rparr>)"

text \<open>
  The validator's checks in the specified order (name, parent, then the walk that
  computes the path), then the insert under a fresh identifier.  A fresh row has no
  descendants, so a create can never close a cycle: \<open>CycleDetected\<close> belongs to
  re-parenting, which no route of the application offers.
\<close>

definition create_entry ::
  "timestamp \<Rightarrow> user_id \<Rightarrow> file_id option \<Rightarrow> string \<Rightarrow> file_meta option \<Rightarrow> store
   \<Rightarrow> api_error + file_row \<times> store" where
  "create_entry now uid pid nm meta st =
     (if \<not> valid_name nm then Inl InvalidName
      else case check_parent uid pid st of
        Inl e \<Rightarrow> Inl e
      | Inr _ \<Rightarrow>
          (case ancestor_names (next_id st) (rows st) pid of
             Inl e \<Rightarrow> Inl e
           | Inr ns \<Rightarrow>
               let r = insert_row (next_id st) now (payload uid pid nm (join_path (ns @ [nm])) meta)
               in Inr (r, \<lparr>rows = rows st @ [r], next_id = Suc (next_id st)\<rparr>)))"

text \<open>
  \<^verbatim>\<open>POST /api/files/upload\<close>: the content goes to the storage collaborator first; if
  it fails nothing is inserted.
\<close>

definition upload_file ::
  "timestamp \<Rightarrow> user_id \<Rightarrow> file_id option \<Rightarrow> string \<Rightarrow> int \<Rightarrow> string
   \<Rightarrow> (string \<times> string option) option \<Rightarrow> store \<Rightarrow> api_error + file_row \<times> store" where
  "upload_file now uid pid nm sz ty stored st =
     (case stored of
        None \<Rightarrow> Inl StorageUnavailable
      | Some (url, thumb) \<Rightarrow>
          create_entry now uid pid nm
            (Some \<lparr>m_size = sz, m_type = ty, m_url = url, m_thumb = thumb\<rparr>) st)"

text \<open>
  The store invariant.  Identifiers are distinct and below the allocator; a parent
  was allocated before its child (so every parent chain strictly descends and the
  walk terminates); a folder has size 0; a parent present in the table belongs to the
  child's owner and is a folder.  Separately, \<open>no_orphans\<close> says every parent is
  present and \<open>paths_ok\<close> that every stored path is the one the walk computes.
\<close>

definition store_wf :: "store \<Rightarrow> bool" where
  "store_wf st \<longleftrightarrow>
     distinct (map row_id (rows st))
   \<and> (\<forall>r \<in> set (rows st). row_id r < next_id st)
   \<and> (\<forall>r \<in> set (rows st). \<forall>p. parentId r = Some p \<longrightarrow> p < row_id r)
   \<and> (\<forall>r \<in> set (rows st). isFolder r \<longrightarrow> file_size r = 0)
   \<and> (\<forall>r \<in> set (rows st). \<forall>q \<in> set (rows st).
        parentId r = Some (row_id q) \<longrightarrow> userId q = userId r \<and> isFolder q)"

definition no_orphans :: "store \<Rightarrow> bool" where
  "no_orphans st \<longleftrightarrow>
     (\<forall>r \<in> set (rows st). \<forall>p. parentId r = Some p \<longrightarrow> p \<in> row_id ` set (rows st))"

definition path_ok :: "store \<Rightarrow> file_row \<Rightarrow> bool" where
  "path_ok st r \<longleftrightarrow>
     (case ancestor_names (next_id st) (rows st) (parentId r) of
        Inl _ \<Rightarrow> False
      | Inr ns \<Rightarrow> path r = join_path (ns @ [name r]))"

definition paths_ok :: "store \<Rightarrow> bool" where
  "paths_ok st \<longleftrightarrow> (\<forall>r \<in> set (rows st). path_ok st r)"

definition empty_store :: store where
  "empty_store = \<lparr>rows = [], next_id = 0\<rparr>"

text \<open>
  The updates a toggle applies change no field the hierarchy depends on.
\<close>

definition keeps_shape :: "(file_row \<Rightarrow> file_row) \<Rightarrow> bool" where
  "keeps_shape f \<longleftrightarrow> (\<forall>r. row_id (f r) = row_id r \<and> parentId (f r) = parentId r \<and> name (f r) = name r
     \<and> path (f r) = path r \<and> isFolder (f r) = isFolder r \<and> file_size (f r) = file_size r
     \<and> userId (f r) = userId r)"

subsection \<open>Example data\<close>

text \<open>
  The scenario of the specification's section 8: owner \<^verbatim>\<open>u\<close> creates the folder
  \<^verbatim>\<open>Docs\<close> at the root, then uploads \<^verbatim>\<open>a.txt\<close> into it.
\<close>

definition demo_meta :: file_meta where
  "demo_meta = \<lparr>m_size = 12, m_type = ''text/plain'', m_url = ''https://cdn.example/a.txt'', m_thumb = None\<rparr>"

definition demo_docs :: file_row where
  "demo_docs = insert_row 0 1 (payload ''u'' None ''Docs'' ''Docs'' None)"

definition demo_file :: file_row where
  "demo_file = insert_row 1 2 (payload ''u'' (Some 0) ''a.txt'' ''Docs/a.txt'' (Some demo_meta))"

definition demo_store :: store where
  "demo_store = \<lparr>rows = [demo_docs, demo_file], next_id = 2\<rparr>"

definition demo_trashed :: store where
  "demo_trashed = \<lparr>rows = [demo_docs, demo_file\<lparr>isTrash := True\<rparr>], next_id = 2\<rparr>"

lemmas demo_defs = demo_meta_def demo_docs_def demo_file_def demo_store_def demo_trashed_def

subsection \<open>Lemmas: lookup and the parent walk\<close>


lemma find_row_Some: "find_row rs i = Some r \<Longrightarrow> r \<in> set rs \<and> row_id r = i"
  unfolding find_row_def by (rule find_Some_mem)

lemma find_row_None: "find_row rs i = None \<longleftrightarrow> i \<notin> row_id ` set rs"
  by (auto simp: find_row_def find_None_iff_all)

lemma find_row_distinct:
  "distinct (map row_id rs) \<Longrightarrow> r \<in> set rs \<Longrightarrow> find_row rs (row_id r) = Some r"
  by (induction rs) (auto simp: find_row_def)

lemma find_row_append:
  "find_row (rs @ [x]) i = (case find_row rs i of None \<Rightarrow> if row_id x = i then Some x else None | Some r \<Rightarrow> Some r)"
  by (induction rs) (auto simp: find_row_def)

lemma keeps_shapeD:
  assumes "keeps_shape f"
  shows "row_id (f r) = row_id r" "parentId (f r) = parentId r" "name (f r) = name r"
    "path (f r) = path r" "isFolder (f r) = isFolder r" "file_size (f r) = file_size r"
    "userId (f r) = userId r"
  using assms by (simp_all add: keeps_shape_def)

lemma keeps_shape_flips: "keeps_shape (flip_star t)" "keeps_shape (flip_trash t)"
  by (simp_all add: keeps_shape_def flip_star_def flip_trash_def)

lemma find_row_update_where:
  assumes "keeps_shape f"
  shows "find_row (update_where (\<lambda>r. row_id r = i) f rs) j =
           map_option (\<lambda>r. if row_id r = i then f r else r) (find_row rs j)"
  using assms by (induction rs) (auto simp: find_row_def keeps_shape_def)

lemma ancestor_names_fuel_enough:
  assumes rank: "\<forall>r \<in> set rs. \<forall>p. parentId r = Some p \<longrightarrow> p < row_id r"
  shows "(\<forall>q. pid = Some q \<longrightarrow> q < n) \<Longrightarrow> ancestor_names n rs pid \<noteq> Inl InconsistentTree"
proof (induction n arbitrary: pid)
  case 0
  then show ?case by (cases pid) auto
next
  case (Suc n)
  show ?case
  proof (cases pid)
    case (Some p)
    show ?thesis
    proof (cases "find_row rs p")
      case (Some q)
      with find_row_Some have q: "q \<in> set rs" "row_id q = p" by auto
      have "\<forall>p'. parentId q = Some p' \<longrightarrow> p' < n"
      proof (intro allI impI)
        fix p' assume "parentId q = Some p'"
        with rank q have "p' < p" by auto
        with Suc.prems \<open>pid = Some p\<close> show "p' < n" by auto
      qed
      with Suc.IH [of "parentId q"] Some \<open>pid = Some p\<close> show ?thesis
        by (auto split: sum.splits)
    qed (simp add: \<open>pid = Some p\<close>)
  qed simp
qed

lemma ancestor_names_Inr:
  assumes rank: "\<forall>r \<in> set rs. \<forall>p. parentId r = Some p \<longrightarrow> p < row_id r"
    and closed: "\<forall>r \<in> set rs. \<forall>p. parentId r = Some p \<longrightarrow> p \<in> row_id ` set rs"
  shows "(\<forall>q. pid = Some q \<longrightarrow> q < n \<and> q \<in> row_id ` set rs) \<Longrightarrow> \<exists>ns. ancestor_names n rs pid = Inr ns"
proof (induction n arbitrary: pid)
  case 0
  then show ?case by (cases pid) auto
next
  case (Suc n)
  show ?case
  proof (cases pid)
    case (Some p)
    with Suc.prems obtain q where "find_row rs p = Some q"
      by (cases "find_row rs p") (auto simp: find_row_None)
    with find_row_Some have q: "q \<in> set rs" "row_id q = p" by auto
    have "\<forall>p'. parentId q = Some p' \<longrightarrow> p' < n \<and> p' \<in> row_id ` set rs"
    proof (intro allI impI)
      fix p' assume "parentId q = Some p'"
      with rank closed q have "p' < p" "p' \<in> row_id ` set rs" by auto
      with Suc.prems \<open>pid = Some p\<close> show "p' < n \<and> p' \<in> row_id ` set rs" by auto
    qed
    with Suc.IH [of "parentId q"] \<open>find_row rs p = Some q\<close> \<open>pid = Some p\<close> show ?thesis
      by auto
  qed simp
qed

lemma ancestor_names_Suc_fuel:
  "ancestor_names n rs pid = Inr ns \<Longrightarrow> ancestor_names (Suc n) rs pid = Inr ns"
proof (induction n arbitrary: pid ns)
  case 0
  then show ?case by (cases pid) auto
next
  case (Suc n)
  then show ?case
    by (cases pid) (auto split: option.splits sum.splits)
qed

lemma ancestor_names_append:
  "ancestor_names n rs pid = Inr ns \<Longrightarrow> ancestor_names n (rs @ [x]) pid = Inr ns"
proof (induction n arbitrary: pid ns)
  case 0
  then show ?case by (cases pid) auto
next
  case (Suc n)
  then show ?case
    by (cases pid) (auto simp: find_row_append split: option.splits sum.splits)
qed

lemma ancestor_names_update_where:
  assumes "keeps_shape f"
  shows "ancestor_names n (update_where (\<lambda>r. row_id r = i) f rs) pid = ancestor_names n rs pid"
proof (induction n arbitrary: pid)
  case (Suc n)
  with assms show ?case
    by (cases pid) (auto simp: find_row_update_where keeps_shapeD[OF assms] split: option.splits sum.splits)
next
  case 0
  show ?case by (cases pid) simp_all
qed

subsection \<open>Lemmas: the store invariant\<close>


lemma payload_fields [row_simps]:
  "nf_parentId (payload uid pid nm p meta) = pid"
  "nf_name (payload uid pid nm p meta) = nm"
  "nf_path (payload uid pid nm p meta) = p"
  "nf_userId (payload uid pid nm p meta) = uid"
  "nf_isFolder (payload uid pid nm p meta) = (meta = None)"
  "nf_isFolder (payload uid pid nm p meta) \<Longrightarrow> nf_size (payload uid pid nm p meta) = 0"
  by (auto simp: payload_def split: option.splits)

lemma join_path_snoc:
  "join_path (ns @ [x]) = (if ns = [] then x else join_path ns @ path_sep # x)"
  by (induction ns rule: join_path.induct) auto

lemma create_entry_Inr:
  assumes "create_entry now uid pid nm meta st = Inr (r, st')"
  shows "valid_name nm \<and> check_parent uid pid st = Inr ()
    \<and> (\<exists>ns. ancestor_names (next_id st) (rows st) pid = Inr ns
         \<and> r = insert_row (next_id st) now (payload uid pid nm (join_path (ns @ [nm])) meta))
    \<and> st' = \<lparr>rows = rows st @ [r], next_id = Suc (next_id st)\<rparr>"
  using assms by (auto simp: create_entry_def Let_def split: if_splits sum.splits)

lemma check_parent_Inr:
  "check_parent uid (Some p) st = Inr () \<Longrightarrow>
     \<exists>q. find_row (rows st) p = Some q \<and> userId q = uid \<and> isFolder q"
  by (auto simp: check_parent_def split: option.splits if_splits)

lemma store_wf_filter [wf_intros]: "store_wf st \<Longrightarrow> store_wf (st\<lparr>rows := filter P (rows st)\<rparr>)"
  by (auto simp: store_wf_def distinct_map_filter)

lemma store_wf_set_row [wf_intros]:
  assumes f: "keeps_shape f" and wf: "store_wf st"
  shows "store_wf (set_row i f st)"
proof -
  define g where "g = (\<lambda>r. if row_id r = i then f r else r)"
  have g: "row_id (g r) = row_id r" "parentId (g r) = parentId r" "isFolder (g r) = isFolder r"
      "file_size (g r) = file_size r" "userId (g r) = userId r" for r
    by (simp_all add: g_def keeps_shapeD [OF f])
  have rows: "rows (set_row i f st) = map g (rows st)"
    by (simp add: set_row_def update_where_def g_def)
  have ids: "row_id \<circ> g = row_id"
    by (simp add: fun_eq_iff g)
  have "next_id (set_row i f st) = next_id st"
    by (simp add: set_row_def)
  with wf show ?thesis
    unfolding store_wf_def rows by (auto simp: g ids)
qed

lemma create_entry_row:
  assumes "create_entry now uid pid nm meta st = Inr (r, st')"
  shows "row_id r = next_id st" "parentId r = pid" "userId r = uid" "name r = nm"
    "isFolder r = (meta = None)" "isFolder r \<Longrightarrow> file_size r = 0"
    "isTrash r = False" "isStarred r = False"
  using create_entry_Inr [OF assms] by (auto simp: row_simps)

lemma create_parent_below:
  assumes wf: "store_wf st" and "check_parent uid pid st = Inr ()" and "pid = Some p"
  obtains q where "q \<in> set (rows st)" "row_id q = p" "userId q = uid" "isFolder q" "p < next_id st"
proof -
  from assms(2,3) check_parent_Inr obtain q where
    "find_row (rows st) p = Some q" "userId q = uid" "isFolder q" by blast
  moreover from this(1) have "q \<in> set (rows st)" "row_id q = p" by (auto dest: find_row_Some)
  moreover from this wf have "p < next_id st" by (auto simp: store_wf_def)
  ultimately show ?thesis using that by blast
qed

lemma store_wf_create [wf_intros]:
  assumes wf: "store_wf st" and c: "create_entry now uid pid nm meta st = Inr (r, st')"
  shows "store_wf st'"
proof -
  note row = create_entry_row [OF c]
  from create_entry_Inr [OF c] have chk: "check_parent uid pid st = Inr ()"
    and st': "st' = \<lparr>rows = rows st @ [r], next_id = Suc (next_id st)\<rparr>" by auto
  from wf have fresh: "next_id st \<notin> row_id ` set (rows st)" by (auto simp: store_wf_def)
  have rank_r: "p < row_id r" if "parentId r = Some p" for p
    using create_parent_below [OF wf chk] that row by metis
  have parent_r: "userId q = userId r \<and> isFolder q"
    if "q \<in> set (rows st)" "parentId r = Some (row_id q)" for q
  proof -
    from that row obtain q' where "q' \<in> set (rows st)" "row_id q' = row_id q" "userId q' = uid" "isFolder q'"
      by (metis create_parent_below [OF wf chk])
    moreover from wf have "distinct (map row_id (rows st))" by (simp add: store_wf_def)
    ultimately have "q' = q" using that(1) by (metis distinct_map inj_onD)
    with \<open>userId q' = uid\<close> \<open>isFolder q'\<close> row show ?thesis by simp
  qed
  have old_not_child: "parentId x \<noteq> Some (row_id r)" if "x \<in> set (rows st)" for x
    using wf that row by (fastforce simp: store_wf_def)
  show ?thesis
    using wf fresh rank_r parent_r old_not_child row(1,6)
    unfolding st' store_wf_def by (auto simp: less_Suc_eq)
qed

lemma no_orphans_create:
  assumes wf: "store_wf st" and no: "no_orphans st"
    and c: "create_entry now uid pid nm meta st = Inr (r, st')"
  shows "no_orphans st'"
proof -
  note row = create_entry_row [OF c]
  from create_entry_Inr [OF c] have chk: "check_parent uid pid st = Inr ()"
    and st': "st' = \<lparr>rows = rows st @ [r], next_id = Suc (next_id st)\<rparr>" by auto
  have "p \<in> row_id ` set (rows st)" if "parentId r = Some p" for p
    using create_parent_below [OF wf chk] that row by (metis image_eqI)
  with no show ?thesis unfolding st' no_orphans_def by auto
qed

lemma keeps_shape_if: "keeps_shape f \<Longrightarrow> keeps_shape (\<lambda>r. if row_id r = i then f r else r)"
  by (simp add: keeps_shape_def)

lemma set_row_rows: "rows (set_row i f st) = map (\<lambda>r. if row_id r = i then f r else r) (rows st)"
  by (simp add: set_row_def update_where_def)

lemma no_orphans_set_row:
  assumes f: "keeps_shape f" and no: "no_orphans st"
  shows "no_orphans (set_row i f st)"
proof -
  define g where "g = (\<lambda>r. if row_id r = i then f r else r)"
  have g: "keeps_shape g" unfolding g_def by (rule keeps_shape_if [OF f])
  have ids: "row_id \<circ> g = row_id" by (simp add: fun_eq_iff keeps_shapeD [OF g])
  have "row_id ` set (rows (set_row i f st)) = row_id ` set (rows st)"
    by (simp add: set_row_rows image_comp ids flip: g_def)
  with no show ?thesis
    by (auto simp: no_orphans_def set_row_rows keeps_shapeD [OF g] simp flip: g_def)
qed

lemma paths_ok_set_row:
  assumes f: "keeps_shape f" and ok: "paths_ok st"
  shows "paths_ok (set_row i f st)"
proof -
  define g where "g = (\<lambda>r. if row_id r = i then f r else r)"
  have g: "keeps_shape g" unfolding g_def by (rule keeps_shape_if [OF f])
  have walk: "ancestor_names n (rows (set_row i f st)) pid = ancestor_names n (rows st) pid" for n pid
    by (simp add: set_row_def ancestor_names_update_where [OF f])
  have "path_ok (set_row i f st) (g y)" if "y \<in> set (rows st)" for y
  proof -
    from ok that have "path_ok st y" by (simp add: paths_ok_def)
    then show ?thesis
      by (simp add: path_ok_def walk keeps_shapeD [OF g] split: sum.splits) (simp add: set_row_def)
  qed
  then show ?thesis by (auto simp: paths_ok_def set_row_rows simp flip: g_def)
qed

lemma path_ok_append:
  "path_ok st x \<Longrightarrow> path_ok \<lparr>rows = rows st @ [r], next_id = Suc (next_id st)\<rparr> x"
  by (auto simp: path_ok_def ancestor_names_append ancestor_names_Suc_fuel split: sum.splits)

lemma paths_ok_create:
  assumes ok: "paths_ok st" and c: "create_entry now uid pid nm meta st = Inr (r, st')"
  shows "paths_ok st'"
proof -
  note row = create_entry_row [OF c]
  from create_entry_Inr [OF c] obtain ns where
    ns: "ancestor_names (next_id st) (rows st) pid = Inr ns"
    and r: "r = insert_row (next_id st) now (payload uid pid nm (join_path (ns @ [nm])) meta)"
    and st': "st' = \<lparr>rows = rows st @ [r], next_id = Suc (next_id st)\<rparr>" by blast
  have "path_ok st' r"
    using ancestor_names_Suc_fuel [OF ancestor_names_append [OF ns]] row
    by (simp add: st' path_ok_def r row_simps)
  with ok show ?thesis
    by (auto simp: paths_ok_def st' path_ok_append [unfolded st'[symmetric]])
qed

subsection \<open>Lemmas: the example data\<close>

lemma demo_facts:
  "store_wf demo_store" "no_orphans demo_store" "store_wf demo_trashed"
  "lookup_owned ''u'' 1 demo_store = Some demo_file"
  "lookup_owned ''u'' 1 demo_trashed = Some (demo_file\<lparr>isTrash := True\<rparr>)"
  "create_entry 1 ''u'' None ''Docs'' None empty_store = Inr (demo_docs, \<lparr>rows = [demo_docs], next_id = 1\<rparr>)"
  "create_entry 2 ''u'' (Some 0) ''a.txt'' (Some demo_meta) \<lparr>rows = [demo_docs], next_id = 1\<rparr> = Inr (demo_file, demo_store)"
  "paths_ok \<lparr>rows = [demo_docs], next_id = 1\<rparr>"
  by (simp_all add: demo_defs store_wf_def no_orphans_def lookup_owned_def find_row_def row_simps
      create_entry_def Let_def numeral_2_eq_2 empty_store_def valid_name_def reserved_chars_def
      check_parent_def path_sep_def paths_ok_def path_ok_def)

subsection \<open>Properties of the operations\<close>


lemma lookup_owned_set_row:
  assumes "keeps_shape f"
  shows "lookup_owned uid j (set_row i f st) =
           map_option (\<lambda>r. if row_id r = i then f r else r) (lookup_owned uid j st)"
  using assms by (auto simp: lookup_owned_def set_row_def find_row_update_where keeps_shapeD
      split: option.splits)

lemma lookup_owned_Some: "lookup_owned uid i st = Some r \<Longrightarrow> r \<in> set (rows st) \<and> row_id r = i \<and> userId r = uid"
  by (auto simp: lookup_owned_def dest: find_row_Some split: option.splits if_splits)

lemma set_row_twice_strip:
  assumes "\<And>x. row_id (f x) = row_id x" and "\<And>x. strip (g (f x)) = strip x"
  shows "map strip (rows (set_row i g (set_row i f st))) = map strip (rows st)"
proof -
  have "map strip (update_where (\<lambda>r. row_id r = i) g (update_where (\<lambda>r. row_id r = i) f xs)) = map strip xs" for xs
    using assms by (induction xs) auto
  then show ?thesis by (simp add: set_row_def)
qed

lemma flip_twice [simp]:
  "strip (flip_star t2 (flip_star t1 x)) = strip x" "strip (flip_trash t2 (flip_trash t1 x)) = strip x"
  "isStarred (flip_star t r) = (\<not> isStarred r)" "isTrash (flip_trash t r) = (\<not> isTrash r)"
  "row_id (flip_star t r) = row_id r" "row_id (flip_trash t r) = row_id r"
  by (simp_all add: strip_def flip_star_def flip_trash_def)

text \<open>
  C32 (toggle_star_involutive). Setting the star twice (the PATCH star route, specification 4.3) succeeds both times on an owned row, the first answer carries the flipped flag, and the second restores the row and the whole table up to updatedAt.
\<close>

theorem toggle_star_involutive:
  assumes "lookup_owned uid i st = Some r"
  shows "\<exists>r1 st1 r2 st2. toggle_star t1 uid i st = Inr (r1, st1) \<and> isStarred r1 = (\<not> isStarred r)
     \<and> toggle_star t2 uid i st1 = Inr (r2, st2) \<and> strip r2 = strip r
     \<and> map strip (rows st2) = map strip (rows st) \<and> next_id st2 = next_id st"
proof -
  from assms have "row_id r = i" by (simp add: lookup_owned_Some)
  with assms have "lookup_owned uid i (set_row i (flip_star t1) st) = Some (flip_star t1 r)"
    by (simp add: lookup_owned_set_row keeps_shape_flips)
  with assms show ?thesis
    by (simp add: toggle_star_def set_row_twice_strip) (simp add: set_row_def)
qed

theorem toggle_star_involutive_witness:
  "lookup_owned ''u'' 1 demo_store = Some demo_file
   \<and> (\<exists>r1 st1 r2 st2. toggle_star 5 ''u'' 1 demo_store = Inr (r1, st1) \<and> isStarred r1 = (\<not> isStarred demo_file)
     \<and> toggle_star 6 ''u'' 1 st1 = Inr (r2, st2) \<and> strip r2 = strip demo_file
     \<and> map strip (rows st2) = map strip (rows demo_store) \<and> next_id st2 = next_id demo_store)"
  using demo_facts(4) toggle_star_involutive [OF demo_facts(4), of 5 6] by simp

text \<open>
  C33 (toggle_trash_involutive). Toggling trash twice succeeds both times on an owned row, the first answer carries the new isTrash value (what the client reads to say moved or restored), and the second restores the row and the table up to updatedAt.
\<close>

theorem toggle_trash_involutive:
  assumes "lookup_owned uid i st = Some r"
  shows "\<exists>r1 st1 r2 st2. toggle_trash t1 uid i st = Inr (r1, st1) \<and> isTrash r1 = (\<not> isTrash r)
     \<and> toggle_trash t2 uid i st1 = Inr (r2, st2) \<and> strip r2 = strip r
     \<and> map strip (rows st2) = map strip (rows st) \<and> next_id st2 = next_id st"
proof -
  from assms have "row_id r = i" by (simp add: lookup_owned_Some)
  with assms have "lookup_owned uid i (set_row i (flip_trash t1) st) = Some (flip_trash t1 r)"
    by (simp add: lookup_owned_set_row keeps_shape_flips)
  with assms show ?thesis
    by (simp add: toggle_trash_def set_row_twice_strip) (simp add: set_row_def)
qed

lemma filter_id_remove1:
  "distinct (map row_id rs) \<Longrightarrow> r \<in> set rs \<Longrightarrow> filter (\<lambda>x. row_id x \<noteq> row_id r) rs = remove1 r rs"
proof (induction rs)
  case (Cons x rs)
  then show ?case
    by (cases "x = r") (auto intro!: filter_True simp: image_iff)
qed simp

theorem toggle_trash_involutive_witness:
  "lookup_owned ''u'' 1 demo_store = Some demo_file
   \<and> (\<exists>r1 st1 r2 st2. toggle_trash 5 ''u'' 1 demo_store = Inr (r1, st1) \<and> isTrash r1 = (\<not> isTrash demo_file)
     \<and> toggle_trash 6 ''u'' 1 st1 = Inr (r2, st2) \<and> strip r2 = strip demo_file
     \<and> map strip (rows st2) = map strip (rows demo_store) \<and> next_id st2 = next_id demo_store)"
  using demo_facts(4) toggle_trash_involutive [OF demo_facts(4), of 5 6] by simp

text \<open>
  C34 (delete_permanently_correct). Permanent delete fails with NotTrashed exactly on an owned row that is not in the trash, and succeeds exactly on an owned trashed row, removing that one row and nothing else.
\<close>

theorem delete_permanently_correct:
  assumes "store_wf st"
  shows "(delete_permanently uid i st = Inl NotTrashed \<longleftrightarrow> (\<exists>r. lookup_owned uid i st = Some r \<and> \<not> isTrash r))
    \<and> (delete_permanently uid i st = Inr st' \<longleftrightarrow>
         (\<exists>r. lookup_owned uid i st = Some r \<and> isTrash r \<and> st' = st\<lparr>rows := remove1 r (rows st)\<rparr>))"
proof -
  from assms have d: "distinct (map row_id (rows st))" by (simp add: store_wf_def)
  show ?thesis
    using d by (auto simp: delete_permanently_def filter_id_remove1 dest!: lookup_owned_Some
        split: option.splits)
qed

theorem delete_permanently_correct_witness:
  "store_wf demo_store \<and> delete_permanently ''u'' 1 demo_store = Inl NotTrashed
   \<and> store_wf demo_trashed \<and> delete_permanently ''u'' 1 demo_trashed = Inr \<lparr>rows = [demo_docs], next_id = 2\<rparr>"
proof -
  have "isTrash demo_file = False" by (simp add: demo_defs row_simps)
  moreover have "remove1 (demo_file\<lparr>isTrash := True\<rparr>) (rows demo_trashed) = [demo_docs]"
    by (simp add: demo_defs insert_row_def payload_def)
  ultimately show ?thesis
    using demo_facts(1,3,4,5)
      delete_permanently_correct [OF demo_facts(1), of "''u''" 1]
      delete_permanently_correct [OF demo_facts(3), of "''u''" 1 "\<lparr>rows = [demo_docs], next_id = 2\<rparr>"]
    by (simp add: demo_trashed_def)
qed

text \<open>
  C35 (empty_trash_correct). Empty trash returns the number of rows it removed, leaves no trashed row of the owner, and leaves the rows of every other owner and the owner's untrashed rows as they were.
\<close>

theorem empty_trash_correct:
  assumes "empty_trash uid st = (n, st')"
  shows "n + length (rows st') = length (rows st)
    \<and> (\<forall>r \<in> set (rows st'). \<not> (userId r = uid \<and> isTrash r))
    \<and> filter (\<lambda>r. userId r \<noteq> uid) (rows st') = filter (\<lambda>r. userId r \<noteq> uid) (rows st)
    \<and> filter (\<lambda>r. userId r = uid \<and> \<not> isTrash r) (rows st') = filter (\<lambda>r. userId r = uid \<and> \<not> isTrash r) (rows st)
    \<and> next_id st' = next_id st"
proof -
  from assms have n: "n = length (filter (owner_trash uid) (rows st))"
    and st': "rows st' = filter (\<lambda>r. \<not> owner_trash uid r) (rows st)" "next_id st' = next_id st"
    by (auto simp: empty_trash_def)
  have "n + length (rows st') = length (rows st)"
    using sum_length_filter_compl [of "owner_trash uid" "rows st"] by (simp add: n st')
  moreover have "filter (\<lambda>r. userId r \<noteq> uid) (rows st') = filter (\<lambda>r. userId r \<noteq> uid) (rows st)"
    by (simp add: st' owner_trash_def filter_filter) (metis (mono_tags, lifting))
  moreover have "filter (\<lambda>r. userId r = uid \<and> \<not> isTrash r) (rows st') =
      filter (\<lambda>r. userId r = uid \<and> \<not> isTrash r) (rows st)"
    by (simp add: st' owner_trash_def filter_filter cong: filter_cong) (meson)
  ultimately show ?thesis by (auto simp: st' owner_trash_def)
qed

theorem empty_trash_correct_witness:
  "empty_trash ''u'' demo_trashed = (1, \<lparr>rows = [demo_docs], next_id = 2\<rparr>)
   \<and> 1 + length [demo_docs] = length (rows demo_trashed)
   \<and> filter (\<lambda>r. userId r = ''u'' \<and> \<not> isTrash r) [demo_docs]
       = filter (\<lambda>r. userId r = ''u'' \<and> \<not> isTrash r) (rows demo_trashed)"
proof -
  have h: "empty_trash ''u'' demo_trashed = (1, \<lparr>rows = [demo_docs], next_id = 2\<rparr>)"
    by (simp add: empty_trash_def owner_trash_def demo_defs row_simps)
  show ?thesis using h empty_trash_correct [OF h] by simp
qed

text \<open>
  C28 (create_entry_terminates). On a well-formed store, creating a folder or file never fails with the internal-consistency error: the walk up the parent chain always ends within its fuel (the allocator bound).
\<close>

theorem create_entry_terminates:
  assumes "store_wf st"
  shows "create_entry now uid pid nm meta st \<noteq> Inl InconsistentTree"
proof -
  have "ancestor_names (next_id st) (rows st) pid \<noteq> Inl InconsistentTree"
    if "check_parent uid pid st = Inr ()"
  proof (rule ancestor_names_fuel_enough)
    show "\<forall>r \<in> set (rows st). \<forall>p. parentId r = Some p \<longrightarrow> p < row_id r"
      using assms by (simp add: store_wf_def)
    show "\<forall>q. pid = Some q \<longrightarrow> q < next_id st"
      using create_parent_below [OF assms that] by metis
  qed
  then show ?thesis
    by (auto simp: create_entry_def Let_def check_parent_def split: sum.splits option.splits if_splits)
qed

theorem create_entry_terminates_witness:
  "store_wf demo_store \<and> create_entry 3 ''u'' (Some 0) ''b.txt'' None demo_store \<noteq> Inl InconsistentTree"
  using demo_facts(1) create_entry_terminates [OF demo_facts(1), of 3 "''u''" "Some 0" "''b.txt''" None]
  by simp

text \<open>
  C29 (create_entry_error_iff). On a well-formed store without orphans, create fails exactly when the name is invalid or the parent is not an owned folder; otherwise it succeeds.
\<close>

theorem create_entry_error_iff:
  assumes wf: "store_wf st" and no: "no_orphans st"
  shows "(\<exists>e. create_entry now uid pid nm meta st = Inl e) \<longleftrightarrow>
           \<not> valid_name nm \<or> check_parent uid pid st \<noteq> Inr ()"
proof
  assume "\<exists>e. create_entry now uid pid nm meta st = Inl e"
  then show "\<not> valid_name nm \<or> check_parent uid pid st \<noteq> Inr ()"
  proof (rule contrapos_pp)
    assume "\<not> (\<not> valid_name nm \<or> check_parent uid pid st \<noteq> Inr ())"
    then have v: "valid_name nm" and chk: "check_parent uid pid st = Inr ()" by auto
    have "\<exists>ns. ancestor_names (next_id st) (rows st) pid = Inr ns"
    proof (rule ancestor_names_Inr)
      show "\<forall>r \<in> set (rows st). \<forall>p. parentId r = Some p \<longrightarrow> p < row_id r"
        using wf by (simp add: store_wf_def)
      show "\<forall>r \<in> set (rows st). \<forall>p. parentId r = Some p \<longrightarrow> p \<in> row_id ` set (rows st)"
        using no by (simp add: no_orphans_def)
      show "\<forall>q. pid = Some q \<longrightarrow> q < next_id st \<and> q \<in> row_id ` set (rows st)"
        using create_parent_below [OF wf chk] by (metis image_eqI)
    qed
    with v chk show "\<not> (\<exists>e. create_entry now uid pid nm meta st = Inl e)"
      by (auto simp: create_entry_def Let_def)
  qed
next
  assume "\<not> valid_name nm \<or> check_parent uid pid st \<noteq> Inr ()"
  then show "\<exists>e. create_entry now uid pid nm meta st = Inl e"
    by (cases "check_parent uid pid st") (auto simp: create_entry_def)
qed

theorem create_entry_error_iff_witness:
  "store_wf demo_store \<and> no_orphans demo_store
   \<and> (\<exists>e. create_entry 3 ''u'' (Some 1) ''x'' None demo_store = Inl e)
   \<and> \<not> (\<exists>e. create_entry 3 ''u'' (Some 0) ''x'' None demo_store = Inl e)"
proof -
  have "check_parent ''u'' (Some 1) demo_store \<noteq> Inr ()" "check_parent ''u'' (Some 0) demo_store = Inr ()"
    "valid_name ''x''"
    by (simp_all add: check_parent_def find_row_def demo_defs row_simps valid_name_def reserved_chars_def)
  then show ?thesis
    using demo_facts(1,2)
      create_entry_error_iff [OF demo_facts(1,2), of 3 "''u''" "Some 1" "''x''" None]
      create_entry_error_iff [OF demo_facts(1,2), of 3 "''u''" "Some 0" "''x''" None]
    by simp
qed

text \<open>
  C30 (create_entry_path). The path of a created entry is its name at the root, and otherwise the path of its parent, the separator and its name, when the stored paths were consistent.
\<close>

theorem create_entry_path:
  assumes c: "create_entry now uid pid nm meta st = Inr (r, st')" and ok: "paths_ok st"
  shows "(pid = None \<and> path r = nm)
    \<or> (\<exists>p q. pid = Some p \<and> find_row (rows st) p = Some q \<and> path r = path q @ path_sep # nm)"
proof (cases pid)
  case None
  with create_entry_Inr [OF c] show ?thesis by (auto simp: row_simps)
next
  case (Some p)
  from create_entry_Inr [OF c] obtain ns where
    ns: "ancestor_names (next_id st) (rows st) pid = Inr ns"
    and r: "r = insert_row (next_id st) now (payload uid pid nm (join_path (ns @ [nm])) meta)"
    by blast
  from ns Some obtain n q nsq where fuel: "next_id st = Suc n" and q: "find_row (rows st) p = Some q"
    and nsq: "ancestor_names n (rows st) (parentId q) = Inr nsq" and ns_eq: "ns = nsq @ [name q]"
    by (cases "next_id st") (auto split: option.splits sum.splits)
  from q have "q \<in> set (rows st)" by (auto dest: find_row_Some)
  with ok have "path_ok st q" by (simp add: paths_ok_def)
  with fuel ancestor_names_Suc_fuel [OF nsq] have "path q = join_path (nsq @ [name q])"
    by (simp add: path_ok_def)
  then have "path r = path q @ path_sep # nm"
    using join_path_snoc [of "nsq @ [name q]" nm] by (simp add: r ns_eq row_simps)
  with Some q show ?thesis by blast
qed

theorem create_entry_path_witness:
  "create_entry 2 ''u'' (Some 0) ''a.txt'' (Some demo_meta) \<lparr>rows = [demo_docs], next_id = 1\<rparr> = Inr (demo_file, demo_store)
   \<and> paths_ok \<lparr>rows = [demo_docs], next_id = 1\<rparr>
   \<and> path demo_file = path demo_docs @ path_sep # ''a.txt''"
proof -
  have "find_row [demo_docs] 0 = Some demo_docs" by (simp add: find_row_def demo_defs row_simps)
  then show ?thesis
    using demo_facts(7,8) create_entry_path [OF demo_facts(7,8)] by simp
qed

text \<open>
  C31 (create_entry_listed). After a create, listing the owner's folder returns the old listing followed by the new entry, with the given name, neither trashed nor starred; every other listing is unchanged.
\<close>

theorem create_entry_listed:
  assumes "create_entry now uid pid nm meta st = Inr (r, st')"
  shows "list_entries uid pid st' = list_entries uid pid st @ [r]
    \<and> (\<forall>u p. (u, p) \<noteq> (uid, pid) \<longrightarrow> list_entries u p st' = list_entries u p st)
    \<and> name r = nm \<and> \<not> isTrash r \<and> \<not> isStarred r"
  using create_entry_Inr [OF assms] create_entry_row [OF assms]
  by (auto simp: list_entries_def)

theorem create_entry_listed_witness:
  "create_entry 2 ''u'' (Some 0) ''a.txt'' (Some demo_meta) \<lparr>rows = [demo_docs], next_id = 1\<rparr> = Inr (demo_file, demo_store)
   \<and> list_entries ''u'' (Some 0) demo_store = list_entries ''u'' (Some 0) \<lparr>rows = [demo_docs], next_id = 1\<rparr> @ [demo_file]
   \<and> list_entries ''u'' None demo_store = list_entries ''u'' None \<lparr>rows = [demo_docs], next_id = 1\<rparr>"
  using demo_facts(7) create_entry_listed [OF demo_facts(7)] by simp

end
