(* ===== verification/Api.thy ===== *)
theory Api
  imports Store
begin

text \<open>
  The Mutation API (specification 4.5 and 6): the operations the routes expose, as a
  datatype of requests, \<open>apply_op\<close> that answers one request with an error or a
  result and the new store, and \<open>server_step\<close> that keeps the store unchanged on
  an error (a mutation applies fully or not at all, section 7).  The stores the
  server can reach from the empty table are the inductive \<open>reachable_store\<close>;
  \<open>tree_store\<close> are those reached without a permanent delete or an empty trash.
\<close>

datatype server_op =
    OpCreateFolder user_id "file_id option" string
  | OpUpload user_id "file_id option" string int string "(string \<times> string option) option"
  | OpStar user_id file_id
  | OpTrash user_id file_id
  | OpDelete user_id file_id
  | OpEmptyTrash user_id

datatype api_result = RRow file_row | RDeleted | RCount nat

fun apply_op :: "timestamp \<Rightarrow> server_op \<Rightarrow> store \<Rightarrow> api_error + api_result \<times> store" where
  "apply_op now (OpCreateFolder uid pid nm) st =
     map_sum id (\<lambda>(r, st'). (RRow r, st')) (create_entry now uid pid nm None st)"
| "apply_op now (OpUpload uid pid nm sz ty stored) st =
     map_sum id (\<lambda>(r, st'). (RRow r, st')) (upload_file now uid pid nm sz ty stored st)"
| "apply_op now (OpStar uid i) st = map_sum id (\<lambda>(r, st'). (RRow r, st')) (toggle_star now uid i st)"
| "apply_op now (OpTrash uid i) st = map_sum id (\<lambda>(r, st'). (RRow r, st')) (toggle_trash now uid i st)"
| "apply_op now (OpDelete uid i) st = map_sum id (\<lambda>st'. (RDeleted, st')) (delete_permanently uid i st)"
| "apply_op now (OpEmptyTrash uid) st = (case empty_trash uid st of (n, st') \<Rightarrow> Inr (RCount n, st'))"

definition server_step :: "timestamp \<Rightarrow> server_op \<Rightarrow> store \<Rightarrow> store" where
  "server_step now op st = (case apply_op now op st of Inl _ \<Rightarrow> st | Inr (_, st') \<Rightarrow> st')"

fun removes_rows :: "server_op \<Rightarrow> bool" where
  "removes_rows (OpDelete _ _) = True"
| "removes_rows (OpEmptyTrash _) = True"
| "removes_rows _ = False"

inductive reachable_store :: "store \<Rightarrow> bool" where
  init: "reachable_store empty_store"
| step: "reachable_store st \<Longrightarrow> reachable_store (server_step now op st)"

inductive tree_store :: "store \<Rightarrow> bool" where
  init: "tree_store empty_store"
| step: "tree_store st \<Longrightarrow> \<not> removes_rows op \<Longrightarrow> tree_store (server_step now op st)"

fun server_run :: "(timestamp \<times> server_op) list \<Rightarrow> store \<Rightarrow> store" where
  "server_run [] st = st"
| "server_run ((now, op) # ops) st = server_run ops (server_step now op st)"

text \<open>
  The run of the specification's scenario, continued: after \<^verbatim>\<open>a.txt\<close> is uploaded
  into \<^verbatim>\<open>Docs\<close>, the folder is trashed and then deleted permanently.
\<close>

definition demo_ops :: "(timestamp \<times> server_op) list" where
  "demo_ops =
     [(1, OpCreateFolder ''u'' None ''Docs''),
      (2, OpUpload ''u'' (Some 0) ''a.txt'' 12 ''text/plain'' (Some (''https://cdn.example/a.txt'', None))),
      (3, OpTrash ''u'' 0),
      (4, OpDelete ''u'' 0)]"


subsection \<open>Lemmas: one request keeps the invariants\<close>


lemma empty_store_inv: "store_wf empty_store" "no_orphans empty_store" "paths_ok empty_store"
  by (simp_all add: empty_store_def store_wf_def no_orphans_def paths_ok_def)

lemma toggle_Inr:
  "toggle_star now uid i st = Inr (r, st') \<Longrightarrow> st' = set_row i (flip_star now) st"
  "toggle_trash now uid i st = Inr (r, st') \<Longrightarrow> st' = set_row i (flip_trash now) st"
  by (auto simp: toggle_star_def toggle_trash_def split: option.splits)

lemma delete_Inr:
  "delete_permanently uid i st = Inr st' \<Longrightarrow> st' = st\<lparr>rows := filter (\<lambda>r. row_id r \<noteq> i) (rows st)\<rparr>"
  by (auto simp: delete_permanently_def split: option.splits if_splits)

lemma upload_Inr:
  "upload_file now uid pid nm sz ty stored st = Inr (r, st') \<Longrightarrow> \<exists>meta. create_entry now uid pid nm meta st = Inr (r, st')"
  by (auto simp: upload_file_def split: option.splits)

lemma apply_op_Inr_cases:
  assumes "apply_op now op st = Inr (res, st')"
  shows "(\<exists>uid pid nm meta r. create_entry now uid pid nm meta st = Inr (r, st'))
       \<or> (\<exists>i f. keeps_shape f \<and> st' = set_row i f st)
       \<or> (removes_rows op \<and> (\<exists>P. st' = st\<lparr>rows := filter P (rows st)\<rparr>))"
proof (cases op)
  case (OpCreateFolder uid pid nm)
  with assms show ?thesis by (auto simp: map_sum_def split: sum.splits)
next
  case (OpUpload uid pid nm sz ty stored)
  with assms show ?thesis by (auto simp: map_sum_def split: sum.splits dest!: upload_Inr)
next
  case (OpStar uid i)
  with assms obtain r where "toggle_star now uid i st = Inr (r, st')"
    by (auto simp: map_sum_def split: sum.splits)
  then have "st' = set_row i (flip_star now) st" by (rule toggle_Inr)
  with keeps_shape_flips show ?thesis by blast
next
  case (OpTrash uid i)
  with assms obtain r where "toggle_trash now uid i st = Inr (r, st')"
    by (auto simp: map_sum_def split: sum.splits)
  then have "st' = set_row i (flip_trash now) st" by (rule toggle_Inr)
  with keeps_shape_flips show ?thesis by blast
next
  case (OpDelete uid i)
  with assms have "delete_permanently uid i st = Inr st'"
    by (auto simp: map_sum_def split: sum.splits)
  with OpDelete show ?thesis by (auto dest!: delete_Inr)
next
  case (OpEmptyTrash uid)
  with assms show ?thesis by (auto simp: empty_trash_def)
qed

lemma server_step_wf [wf_intros]: "store_wf st \<Longrightarrow> store_wf (server_step now op st)"
  unfolding server_step_def
  by (auto split: sum.splits dest!: apply_op_Inr_cases intro: wf_intros)

lemma server_step_tree:
  assumes "store_wf st" "no_orphans st" "paths_ok st" "\<not> removes_rows op"
  shows "no_orphans (server_step now op st) \<and> paths_ok (server_step now op st)"
  using assms unfolding server_step_def
  by (auto split: sum.splits dest!: apply_op_Inr_cases
      intro: no_orphans_create paths_ok_create no_orphans_set_row paths_ok_set_row)

text \<open>
  C5 (reachable_store_wf). Every store the server reaches from the empty table by any
  sequence of requests (answered or rejected) satisfies the store invariant: distinct
  identifiers below the allocator, parents allocated before their children, folders
  of size 0, and parents of the same owner that are folders.
\<close>

theorem reachable_store_wf: "reachable_store st \<Longrightarrow> store_wf st"
proof (induction rule: reachable_store.induct)
  case init
  show ?case by (rule empty_store_inv)
next
  case (step st now op)
  from step.IH show ?case by (rule server_step_wf)
qed

text \<open>
  C6 (tree_store_consistent). Every store reached without a permanent delete or an
  empty trash also has no orphans and every stored path equals the path computed from
  the parent chain.
\<close>

theorem tree_store_consistent: "tree_store st \<Longrightarrow> store_wf st \<and> no_orphans st \<and> paths_ok st"
proof (induction rule: tree_store.induct)
  case init
  show ?case by (simp add: empty_store_inv)
next
  case (step st op now)
  then show ?case by (simp add: server_step_wf server_step_tree)
qed

lemma tree_server_run:
  "tree_store st \<Longrightarrow> list_all (\<lambda>(t, op). \<not> removes_rows op) ops \<Longrightarrow> tree_store (server_run ops st)"
proof (induction ops arbitrary: st)
  case (Cons x ops)
  then show ?case by (cases x) (simp add: tree_store.step)
qed simp

lemma reachable_server_run: "reachable_store st \<Longrightarrow> reachable_store (server_run ops st)"
proof (induction ops arbitrary: st)
  case (Cons x ops)
  then show ?case by (cases x) (simp add: reachable_store.step)
qed simp

lemma demo_prefix_tree: "tree_store (server_run (take 2 demo_ops) empty_store)"
  by (rule tree_server_run [OF tree_store.init]) (simp add: demo_ops_def)

theorem reachable_store_wf_witness:
  "reachable_store (server_run demo_ops empty_store) \<and> store_wf (server_run demo_ops empty_store)"
  using reachable_server_run [OF reachable_store.init, of demo_ops]
    reachable_store_wf [OF reachable_server_run [OF reachable_store.init, of demo_ops]] by simp

theorem tree_store_consistent_witness:
  "tree_store (server_run (take 2 demo_ops) empty_store)
   \<and> no_orphans (server_run (take 2 demo_ops) empty_store)
   \<and> paths_ok (server_run (take 2 demo_ops) empty_store)"
  using demo_prefix_tree tree_store_consistent [OF demo_prefix_tree] by simp

end
