(* ===== verification/Views.thy ===== *)
theory Views
  imports Store
begin

text \<open>
  The View Projector.  The client side is \<^verbatim>\<open>filteredFiles\<close> and the three counts of
  src/components/FileList.tsx (lines 80--91): a switch on the active tab's key over
  the rows the client fetched for the current folder.  The server side is the
  specification's flat projections over all rows of an owner (section 4.4).  The
  lemmas show the partition the specification asks for, and how the client's tabs
  relate to the flat views: they are the flat views restricted to the folder the
  client is showing.
\<close>

definition filteredFiles :: "string \<Rightarrow> file_row list \<Rightarrow> file_row list" where
  "filteredFiles activeTab fs =
     (if activeTab = ''starred'' then filter (\<lambda>f. isStarred f \<and> \<not> isTrash f) fs
      else if activeTab = ''trash'' then filter isTrash fs
      else filter (\<lambda>f. \<not> isTrash f) fs)"

definition trashCount :: "file_row list \<Rightarrow> nat" where
  "trashCount fs = length (filter isTrash fs)"

definition starredCount :: "file_row list \<Rightarrow> nat" where
  "starredCount fs = length (filter (\<lambda>f. isStarred f \<and> \<not> isTrash f) fs)"

definition allFilesCount :: "file_row list \<Rightarrow> nat" where
  "allFilesCount fs = length (filter (\<lambda>f. \<not> isTrash f) fs)"

definition all_view :: "user_id \<Rightarrow> store \<Rightarrow> file_row list" where
  "all_view uid st = filter (\<lambda>r. userId r = uid \<and> \<not> isTrash r) (rows st)"

definition starred_view :: "user_id \<Rightarrow> store \<Rightarrow> file_row list" where
  "starred_view uid st = filter (\<lambda>r. userId r = uid \<and> isStarred r \<and> \<not> isTrash r) (rows st)"

definition trash_view :: "user_id \<Rightarrow> store \<Rightarrow> file_row list" where
  "trash_view uid st = filter (\<lambda>r. userId r = uid \<and> isTrash r) (rows st)"

text \<open>
  C3 (views_partition). For every list of rows the client holds, the All Files tab
  and the Trash tab split it: together they hold every row exactly as often as the
  list does, no row is in both, the Starred tab is part of All Files, and the tab
  badges add up to the length of the list.
\<close>

theorem views_partition:
  "mset (filteredFiles ''all'' fs) + mset (filteredFiles ''trash'' fs) = mset fs
   \<and> set (filteredFiles ''all'' fs) \<inter> set (filteredFiles ''trash'' fs) = {}
   \<and> set (filteredFiles ''starred'' fs) \<subseteq> set (filteredFiles ''all'' fs)
   \<and> allFilesCount fs + trashCount fs = length fs
   \<and> starredCount fs \<le> allFilesCount fs"
proof -
  have "mset (filter (\<lambda>f. \<not> isTrash f) fs) + mset (filter isTrash fs) = mset fs"
    by (metis add.commute mset_filter multiset_partition)
  moreover have "allFilesCount fs + trashCount fs = length fs"
    using sum_length_filter_compl [of isTrash fs]
    by (simp add: allFilesCount_def trashCount_def)
  moreover have "starredCount fs \<le> allFilesCount fs"
    unfolding starredCount_def allFilesCount_def by (rule length_filter_conj_le)
  ultimately show ?thesis by (auto simp: filteredFiles_def)
qed

text \<open>
  C4 (client_tabs_refine_views). The tabs the client computes from a listing of a
  folder are the specification's flat views restricted to that folder: All Files,
  Starred and Trash over \<open>list_entries uid pid\<close> are \<open>all_view\<close>,
  \<open>starred_view\<close> and \<open>trash_view\<close> filtered by the parent.
\<close>

theorem client_tabs_refine_views:
  "filteredFiles ''all'' (list_entries uid pid st) = filter (\<lambda>r. parentId r = pid) (all_view uid st)
   \<and> filteredFiles ''starred'' (list_entries uid pid st) = filter (\<lambda>r. parentId r = pid) (starred_view uid st)
   \<and> filteredFiles ''trash'' (list_entries uid pid st) = filter (\<lambda>r. parentId r = pid) (trash_view uid st)"
  by (auto simp: filteredFiles_def list_entries_def all_view_def starred_view_def trash_view_def filter_filter
      intro: filter_cong)

end
