(* ===== verification/Client.thy ===== *)
theory Client
  imports Views
begin

text \<open>
  The file list of src/components/FileList.tsx: its React state (lines 41--51), the
  fetch of the current folder (lines 54--77), the four handlers that mutate rows
  optimistically (lines 94--176), and folder navigation (lines 211--255).  A handler
  runs in two halves around its \<^verbatim>\<open>await\<close>: \<open>handleStarFile\<close> and its siblings
  are the half before (the lookup, the snapshot \<^verbatim>\<open>originalFiles\<close> and the optimistic
  \<^verbatim>\<open>setFiles\<close>), returning the request still in flight as a \<open>pending\<close> value that
  carries the snapshot; \<open>settle\<close> is the half after (keep the optimistic state on
  success, restore the snapshot on failure, the \<^verbatim>\<open>finally\<close> of the delete).
  \<open>api_request\<close> is what the request does at the server (Store.thy), and
  \<open>run_action\<close> one click run to completion.  \<open>client_sys\<close> lets several requests
  be in flight at once, answered in any order.
\<close>

record file_list_state =
  files :: "file_row list"
  loading :: bool
  activeTab :: string
  currentFolderId :: "file_id option"
  folderPath :: "(file_id \<times> string) list"
  deleteModalOpen :: bool
  emptyTrashModalOpen :: bool
  selectedFile :: "file_row option"

definition initial_list_state :: file_list_state where
  "initial_list_state =
     \<lparr>files = [], loading = True, activeTab = ''all'', currentFolderId = None, folderPath = [],
      deleteModalOpen = False, emptyTrashModalOpen = False, selectedFile = None\<rparr>"

datatype pending =
    PendingStar file_id "file_row list"
  | PendingTrash file_id "file_row list"
  | PendingDelete file_id "file_row list"
  | PendingEmptyTrash "file_row list"

subsection \<open>Fetching the current folder\<close>

text \<open>
  \<^verbatim>\<open>fetchFiles(showLoading = true)\<close> (lines 53--72): \<^verbatim>\<open>GET /api/files?userId=..&parentId=..\<close>
  for the current folder; on success the rows replace \<^verbatim>\<open>files\<close>, on failure a toast and
  the old rows stay; the loading flag is raised and lowered only when \<open>showLoading\<close>.
  The request is atomic here, so only the flag's final value is kept.  The effect of
  lines 75--77 calls it with the default, \<open>fetchFiles\<close>.
\<close>

definition fetchFiles_with :: "bool \<Rightarrow> user_id \<Rightarrow> user_id \<Rightarrow> store \<Rightarrow> file_list_state \<Rightarrow> file_list_state" where
  "fetchFiles_with showLoading caller uid st s =
     (let s' = (case list_files caller uid (currentFolderId s) st of Inr fs \<Rightarrow> s\<lparr>files := fs\<rparr> | Inl _ \<Rightarrow> s) in
      if showLoading then s'\<lparr>loading := False\<rparr> else s')"

definition fetchFiles :: "user_id \<Rightarrow> user_id \<Rightarrow> store \<Rightarrow> file_list_state \<Rightarrow> file_list_state" where
  "fetchFiles caller uid st s = fetchFiles_with True caller uid st s"

text \<open>The header's refresh button (line 279) reloads without the loading indicator.\<close>

definition onRefresh :: "user_id \<Rightarrow> user_id \<Rightarrow> store \<Rightarrow> file_list_state \<Rightarrow> file_list_state" where
  "onRefresh caller uid st s = fetchFiles_with False caller uid st s"

subsection \<open>The handlers before their request\<close>

definition find_file :: "file_id \<Rightarrow> file_row list \<Rightarrow> file_row option" where
  "find_file fileId fs = List.find (\<lambda>f. row_id f = fileId) fs"

definition handleStarFile :: "file_id \<Rightarrow> file_list_state \<Rightarrow> file_list_state \<times> pending option" where
  "handleStarFile fileId s =
     (case find_file fileId (files s) of
        None \<Rightarrow> (s, None)
      | Some _ \<Rightarrow>
          (s\<lparr>files := update_where (\<lambda>f. row_id f = fileId) (\<lambda>f. f\<lparr>isStarred := \<not> isStarred f\<rparr>) (files s)\<rparr>,
           Some (PendingStar fileId (files s))))"

definition handleTrashFile :: "file_id \<Rightarrow> file_list_state \<Rightarrow> file_list_state \<times> pending option" where
  "handleTrashFile fileId s =
     (case find_file fileId (files s) of
        None \<Rightarrow> (s, None)
      | Some _ \<Rightarrow>
          (s\<lparr>files := update_where (\<lambda>f. row_id f = fileId) (\<lambda>f. f\<lparr>isTrash := \<not> isTrash f\<rparr>) (files s)\<rparr>,
           Some (PendingTrash fileId (files s))))"

definition handleDeleteFile :: "file_id \<Rightarrow> file_list_state \<Rightarrow> file_list_state \<times> pending option" where
  "handleDeleteFile fileId s =
     (case find_file fileId (files s) of
        None \<Rightarrow> (s, None)
      | Some _ \<Rightarrow>
          (s\<lparr>files := filter (\<lambda>f. row_id f \<noteq> fileId) (files s), deleteModalOpen := False\<rparr>,
           Some (PendingDelete fileId (files s))))"

definition handleEmptyTrash :: "file_list_state \<Rightarrow> file_list_state \<times> pending option" where
  "handleEmptyTrash s =
     (s\<lparr>files := filter (\<lambda>f. \<not> isTrash f) (files s), emptyTrashModalOpen := False\<rparr>,
      Some (PendingEmptyTrash (files s)))"

subsection \<open>The handlers after their request\<close>

fun settle :: "bool \<Rightarrow> pending \<Rightarrow> file_list_state \<Rightarrow> file_list_state" where
  "settle ok (PendingStar _ orig) s = (if ok then s else s\<lparr>files := orig\<rparr>)"
| "settle ok (PendingTrash _ orig) s = (if ok then s else s\<lparr>files := orig\<rparr>)"
| "settle ok (PendingDelete _ orig) s =
     (if ok then s\<lparr>selectedFile := None\<rparr> else s\<lparr>files := orig, selectedFile := None\<rparr>)"
| "settle ok (PendingEmptyTrash orig) s = (if ok then s else s\<lparr>files := orig\<rparr>)"

text \<open>
  The request each pending handler sent, at the server: the PATCH, DELETE or empty
  trash route.  The flag is what the client sees: a 2xx answer (for the delete, one
  whose body says \<^verbatim>\<open>success\<close>), or an error.
\<close>

definition api_request :: "timestamp \<Rightarrow> user_id \<Rightarrow> pending \<Rightarrow> store \<Rightarrow> bool \<times> store" where
  "api_request now uid p st =
     (case p of
        PendingStar i _ \<Rightarrow> (case toggle_star now uid i st of Inl _ \<Rightarrow> (False, st) | Inr (_, st') \<Rightarrow> (True, st'))
      | PendingTrash i _ \<Rightarrow> (case toggle_trash now uid i st of Inl _ \<Rightarrow> (False, st) | Inr (_, st') \<Rightarrow> (True, st'))
      | PendingDelete i _ \<Rightarrow> (case delete_permanently uid i st of Inl _ \<Rightarrow> (False, st) | Inr st' \<Rightarrow> (True, st'))
      | PendingEmptyTrash _ \<Rightarrow> (True, snd (empty_trash uid st)))"

datatype ui_action = StarAction file_id | TrashAction file_id | DeleteAction file_id | EmptyTrashAction

fun begin_action :: "ui_action \<Rightarrow> file_list_state \<Rightarrow> file_list_state \<times> pending option" where
  "begin_action (StarAction i) s = handleStarFile i s"
| "begin_action (TrashAction i) s = handleTrashFile i s"
| "begin_action (DeleteAction i) s = handleDeleteFile i s"
| "begin_action EmptyTrashAction s = handleEmptyTrash s"

text \<open>
  One click run to completion: the request is delivered (\<open>delivered\<close>) and answered
  by the server, or lost on the network, which the client sees as an error.
\<close>

definition respond :: "timestamp \<Rightarrow> user_id \<Rightarrow> bool \<Rightarrow> pending \<Rightarrow> store \<Rightarrow> bool \<times> store" where
  "respond now uid delivered p st = (if delivered then api_request now uid p st else (False, st))"

definition run_action ::
  "timestamp \<Rightarrow> user_id \<Rightarrow> bool \<Rightarrow> ui_action \<Rightarrow> file_list_state \<times> store \<Rightarrow> file_list_state \<times> store" where
  "run_action now uid delivered act ss =
     (case begin_action act (fst ss) of
        (s1, None) \<Rightarrow> (s1, snd ss)
      | (s1, Some p) \<Rightarrow>
          (case respond now uid delivered p (snd ss) of (ok, st') \<Rightarrow> (settle ok p s1, st')))"

text \<open>The client's list agrees with the server's listing of the folder it shows.\<close>

definition synced :: "user_id \<Rightarrow> file_list_state \<Rightarrow> store \<Rightarrow> bool" where
  "synced uid s st \<longleftrightarrow> map strip (files s) = map strip (list_entries uid (currentFolderId s) st)"

subsection \<open>Several requests in flight\<close>

record client_sys =
  ui :: file_list_state
  server :: store
  inflight :: "pending list"

datatype sys_event = Click ui_action | Answer nat bool

fun sys_step :: "timestamp \<Rightarrow> user_id \<Rightarrow> sys_event \<Rightarrow> client_sys \<Rightarrow> client_sys" where
  "sys_step now uid (Click act) c =
     (case begin_action act (ui c) of
        (s1, po) \<Rightarrow> c\<lparr>ui := s1, inflight := inflight c @ (case po of None \<Rightarrow> [] | Some p \<Rightarrow> [p])\<rparr>)"
| "sys_step now uid (Answer k delivered) c =
     (if k < length (inflight c) then
        (case respond now uid delivered (inflight c ! k) (server c) of
           (ok, st') \<Rightarrow> \<lparr>ui = settle ok (inflight c ! k) (ui c), server = st',
                         inflight = take k (inflight c) @ drop (Suc k) (inflight c)\<rparr>)
      else c)"

fun sys_run :: "timestamp \<Rightarrow> user_id \<Rightarrow> sys_event list \<Rightarrow> client_sys \<Rightarrow> client_sys" where
  "sys_run now uid [] c = c"
| "sys_run now uid (e # es) c = sys_run now uid es (sys_step now uid e c)"

subsection \<open>Example data\<close>

text \<open>
  A client showing the root of owner \<^verbatim>\<open>u\<close>, with the folder \<^verbatim>\<open>Docs\<close> and the
  file \<^verbatim>\<open>b.txt\<close>, and a run in which the user stars Docs and trashes b.txt before
  either answer arrives; the trash succeeds, the star request is lost.
\<close>


definition demo_b :: file_row where
  "demo_b = insert_row 2 3 (payload ''u'' None ''b.txt'' ''b.txt'' (Some demo_meta))"

definition demo_root_store :: store where
  "demo_root_store = \<lparr>rows = [demo_docs, demo_file, demo_b], next_id = 3\<rparr>"

definition demo_client :: file_list_state where
  "demo_client = initial_list_state\<lparr>files := [demo_docs, demo_b], loading := False\<rparr>"

definition demo_events :: "sys_event list" where
  "demo_events = [Click (StarAction 0), Click (TrashAction 2), Answer 1 True, Answer 0 False]"

subsection \<open>Lemmas: listings after a request\<close>


lemma strip_flips:
  "strip (flip_star t y) = (strip y)\<lparr>isStarred := \<not> isStarred (strip y)\<rparr>"
  "strip (flip_trash t y) = (strip y)\<lparr>isTrash := \<not> isTrash (strip y)\<rparr>"
  "strip (y\<lparr>isStarred := \<not> isStarred y\<rparr>) = (strip y)\<lparr>isStarred := \<not> isStarred (strip y)\<rparr>"
  "strip (y\<lparr>isTrash := \<not> isTrash y\<rparr>) = (strip y)\<lparr>isTrash := \<not> isTrash (strip y)\<rparr>"
  by (simp_all add: strip_def flip_star_def flip_trash_def)

lemma onRefresh_listing:
  "files (onRefresh uid uid st s) = list_entries uid (currentFolderId s) st
   \<and> loading (onRefresh uid uid st s) = loading s
   \<and> files (fetchFiles uid uid st s) = files (onRefresh uid uid st s) \<and> \<not> loading (fetchFiles uid uid st s)"
  by (simp add: onRefresh_def fetchFiles_def fetchFiles_with_def list_files_def)

lemma list_entries_set_row:
  assumes "keeps_shape f"
  shows "list_entries uid pid (set_row i f st) = update_where (\<lambda>r. row_id r = i) f (list_entries uid pid st)"
proof -
  have "rows (set_row i f st) = update_where (\<lambda>r. row_id r = i) f (rows st)"
    by (simp add: set_row_def)
  then show ?thesis
    unfolding list_entries_def by (simp add: filter_update_where keeps_shapeD [OF assms])
qed

lemma list_entries_filter:
  "list_entries uid pid (st\<lparr>rows := filter P (rows st)\<rparr>) = filter P (list_entries uid pid st)"
  by (auto simp: list_entries_def intro!: filter_cong)

lemma list_entries_empty_trash:
  "list_entries uid pid (snd (empty_trash uid st)) = filter (\<lambda>r. \<not> isTrash r) (list_entries uid pid st)"
  by (auto simp: empty_trash_def list_entries_def filter_filter owner_trash_def intro: filter_cong)

lemma api_request_cases:
  "api_request now uid p st = (ok, st') \<Longrightarrow>
     (\<not> ok \<and> st' = st) \<or> (ok \<and> (case p of
        PendingStar i _ \<Rightarrow> st' = set_row i (flip_star now) st
      | PendingTrash i _ \<Rightarrow> st' = set_row i (flip_trash now) st
      | PendingDelete i _ \<Rightarrow> st' = st\<lparr>rows := filter (\<lambda>r. row_id r \<noteq> i) (rows st)\<rparr>
      | PendingEmptyTrash _ \<Rightarrow> st' = snd (empty_trash uid st)))"
  by (auto simp: api_request_def toggle_star_def toggle_trash_def delete_permanently_def
      split: pending.splits sum.splits option.splits if_splits)

lemma respond_cases:
  "respond now uid d p st = (ok, st') \<Longrightarrow>
     (\<not> ok \<and> st' = st) \<or> (ok \<and> (case p of
        PendingStar i _ \<Rightarrow> st' = set_row i (flip_star now) st
      | PendingTrash i _ \<Rightarrow> st' = set_row i (flip_trash now) st
      | PendingDelete i _ \<Rightarrow> st' = st\<lparr>rows := filter (\<lambda>r. row_id r \<noteq> i) (rows st)\<rparr>
      | PendingEmptyTrash _ \<Rightarrow> st' = snd (empty_trash uid st)))"
  by (auto simp: respond_def dest: api_request_cases split: if_splits)

lemma synced_same: "synced uid s st \<Longrightarrow> files s' = files s \<Longrightarrow> currentFolderId s' = currentFolderId s \<Longrightarrow> synced uid s' st"
  by (simp add: synced_def)

lemma synced_star:
  assumes sy: "synced uid s st" and run: "run_action now uid d (StarAction i) (s, st) = (s', st')"
  shows "synced uid s' st'"
proof (cases "find_file i (files s)")
  case None
  with sy run show ?thesis by (simp add: run_action_def handleStarFile_def)
next
  case (Some f)
  obtain ok st2 where resp: "respond now uid d (PendingStar i (files s)) st = (ok, st2)" by fastforce
  with Some run have s': "s' = settle ok (PendingStar i (files s)) (s\<lparr>files := update_where (\<lambda>f. row_id f = i) (\<lambda>f. f\<lparr>isStarred := \<not> isStarred f\<rparr>) (files s)\<rparr>)"
    and st': "st' = st2"
    by (simp_all add: run_action_def handleStarFile_def)
  from respond_cases [OF resp] have "(\<not> ok \<and> st2 = st) \<or> (ok \<and> st2 = set_row i (flip_star now) st)"
    by simp
  then show ?thesis
  proof (elim disjE conjE)
    assume "\<not> ok" "st2 = st"
    with sy show ?thesis by (simp add: s' st' synced_def)
  next
    assume ok: ok and st2: "st2 = set_row i (flip_star now) st"
    have "map strip (update_where (\<lambda>f. row_id f = i) (\<lambda>f. f\<lparr>isStarred := \<not> isStarred f\<rparr>) (files s))
        = map strip (update_where (\<lambda>r. row_id r = i) (flip_star now) (list_entries uid (currentFolderId s) st))"
      by (rule map_update_where_agree [OF sy [unfolded synced_def],
            where Q = "\<lambda>x. row_id x = i" and g = "\<lambda>x. x\<lparr>isStarred := \<not> isStarred x\<rparr>"])
         (simp_all add: strip_flips)
    then show ?thesis
      by (simp add: s' st' st2 ok synced_def list_entries_set_row keeps_shape_flips)
  qed
qed

lemma synced_trash:
  assumes sy: "synced uid s st" and run: "run_action now uid d (TrashAction i) (s, st) = (s', st')"
  shows "synced uid s' st'"
proof (cases "find_file i (files s)")
  case None
  with sy run show ?thesis by (simp add: run_action_def handleTrashFile_def)
next
  case (Some f)
  obtain ok st2 where resp: "respond now uid d (PendingTrash i (files s)) st = (ok, st2)" by fastforce
  with Some run have s': "s' = settle ok (PendingTrash i (files s)) (s\<lparr>files := update_where (\<lambda>f. row_id f = i) (\<lambda>f. f\<lparr>isTrash := \<not> isTrash f\<rparr>) (files s)\<rparr>)"
    and st': "st' = st2"
    by (simp_all add: run_action_def handleTrashFile_def)
  from respond_cases [OF resp] have "(\<not> ok \<and> st2 = st) \<or> (ok \<and> st2 = set_row i (flip_trash now) st)"
    by simp
  then show ?thesis
  proof (elim disjE conjE)
    assume "\<not> ok" "st2 = st"
    with sy show ?thesis by (simp add: s' st' synced_def)
  next
    assume ok: ok and st2: "st2 = set_row i (flip_trash now) st"
    have "map strip (update_where (\<lambda>f. row_id f = i) (\<lambda>f. f\<lparr>isTrash := \<not> isTrash f\<rparr>) (files s))
        = map strip (update_where (\<lambda>r. row_id r = i) (flip_trash now) (list_entries uid (currentFolderId s) st))"
      by (rule map_update_where_agree [OF sy [unfolded synced_def],
            where Q = "\<lambda>x. row_id x = i" and g = "\<lambda>x. x\<lparr>isTrash := \<not> isTrash x\<rparr>"])
         (simp_all add: strip_flips)
    then show ?thesis
      by (simp add: s' st' st2 ok synced_def list_entries_set_row keeps_shape_flips)
  qed
qed

lemma synced_delete:
  assumes sy: "synced uid s st" and run: "run_action now uid d (DeleteAction i) (s, st) = (s', st')"
  shows "synced uid s' st'"
proof (cases "find_file i (files s)")
  case None
  with sy run show ?thesis by (simp add: run_action_def handleDeleteFile_def)
next
  case (Some f)
  obtain ok st2 where resp: "respond now uid d (PendingDelete i (files s)) st = (ok, st2)" by fastforce
  with Some run have s': "s' = settle ok (PendingDelete i (files s))
        (s\<lparr>files := filter (\<lambda>f. row_id f \<noteq> i) (files s), deleteModalOpen := False\<rparr>)"
    and st': "st' = st2"
    by (simp_all add: run_action_def handleDeleteFile_def)
  from respond_cases [OF resp]
  have "(\<not> ok \<and> st2 = st) \<or> (ok \<and> st2 = st\<lparr>rows := filter (\<lambda>r. row_id r \<noteq> i) (rows st)\<rparr>)"
    by simp
  then show ?thesis
  proof (elim disjE conjE)
    assume "\<not> ok" "st2 = st"
    with sy show ?thesis by (simp add: s' st' synced_def)
  next
    assume ok: ok and st2: "st2 = st\<lparr>rows := filter (\<lambda>r. row_id r \<noteq> i) (rows st)\<rparr>"
    have "map strip (filter (\<lambda>f. row_id f \<noteq> i) (files s))
        = map strip (filter (\<lambda>r. row_id r \<noteq> i) (list_entries uid (currentFolderId s) st))"
      by (rule map_filter_agree [OF sy [unfolded synced_def], where Q = "\<lambda>x. row_id x \<noteq> i"]) simp_all
    then show ?thesis
      by (simp add: s' st' st2 ok synced_def list_entries_filter)
  qed
qed

lemma synced_empty_trash:
  assumes sy: "synced uid s st" and run: "run_action now uid d EmptyTrashAction (s, st) = (s', st')"
  shows "synced uid s' st'"
proof -
  obtain ok st2 where resp: "respond now uid d (PendingEmptyTrash (files s)) st = (ok, st2)" by fastforce
  with run have s': "s' = settle ok (PendingEmptyTrash (files s))
        (s\<lparr>files := filter (\<lambda>f. \<not> isTrash f) (files s), emptyTrashModalOpen := False\<rparr>)"
    and st': "st' = st2"
    by (simp_all add: run_action_def handleEmptyTrash_def)
  from respond_cases [OF resp]
  have "(\<not> ok \<and> st2 = st) \<or> (ok \<and> st2 = snd (empty_trash uid st))"
    by simp
  then show ?thesis
  proof (elim disjE conjE)
    assume "\<not> ok" "st2 = st"
    with sy show ?thesis by (simp add: s' st' synced_def)
  next
    assume ok: ok and st2: "st2 = snd (empty_trash uid st)"
    have "map strip (filter (\<lambda>f. \<not> isTrash f) (files s))
        = map strip (filter (\<lambda>r. \<not> isTrash r) (list_entries uid (currentFolderId s) st))"
      by (rule map_filter_agree [OF sy [unfolded synced_def], where Q = "\<lambda>x. \<not> isTrash x"]) simp_all
    then show ?thesis
      by (simp add: s' st' st2 ok synced_def list_entries_empty_trash)
  qed
qed

text \<open>
  C1 (run_action_synced). One click on star, trash, delete or empty trash, run to
  completion (the optimistic update, the request, and either keeping the update on
  success or restoring the snapshot on failure), keeps the client's list equal to the
  server's listing of the folder it shows, up to updatedAt, whether the request
  succeeds, is rejected, or is lost.
\<close>

theorem run_action_synced:
  assumes "synced uid s st" and "run_action now uid d act (s, st) = (s', st')"
  shows "synced uid s' st'"
  using assms by (cases act) (auto intro: synced_star synced_trash synced_delete synced_empty_trash)

lemma demo_client_synced: "synced ''u'' demo_client demo_root_store"
  by (simp add: demo_client_def demo_root_store_def demo_b_def demo_defs initial_list_state_def
      synced_def list_entries_def row_simps)

theorem run_action_synced_witness:
  "synced ''u'' demo_client demo_root_store
   \<and> synced ''u'' (fst (run_action 5 ''u'' True (TrashAction 2) (demo_client, demo_root_store)))
                   (snd (run_action 5 ''u'' True (TrashAction 2) (demo_client, demo_root_store)))"
  using demo_client_synced run_action_synced [OF demo_client_synced prod.collapse [symmetric]] by simp

text \<open>
  A row of the listing whose stripped image differs from the row's own one changes the
  stripped listing.
\<close>

lemma map_strip_update_where_differs:
  assumes "x \<in> set xs" "P x" "\<And>y. P y \<Longrightarrow> strip (g y) \<noteq> strip y"
  shows "map strip (update_where P g xs) \<noteq> map strip xs"
  using assms(1,2)
proof (induction xs)
  case (Cons y ys)
  show ?case
  proof (cases "y = x")
    case True
    with Cons.prems(2) assms(3) show ?thesis by simp
  next
    case False
    with Cons show ?thesis by auto
  qed
qed simp

lemma synced_row_listed:
  assumes "synced uid s st" "find_file j (files s) = Some f"
  shows "\<exists>x \<in> set (list_entries uid (currentFolderId s) st). row_id x = j"
proof -
  have "map row_id (map strip (files s)) = map row_id (map strip (list_entries uid (currentFolderId s) st))"
    using assms(1) by (simp add: synced_def)
  then have ids: "map row_id (files s) = map row_id (list_entries uid (currentFolderId s) st)"
    by (simp add: strip_def comp_def)
  have "f \<in> set (files s)" "row_id f = j"
    using assms(2) find_Some_mem [of _ "files s" f] by (auto simp: find_file_def)
  then have "j \<in> set (map row_id (list_entries uid (currentFolderId s) st))"
    by (metis ids image_eqI list.set_map)
  then show ?thesis by auto
qed

lemma find_file_update_where:
  "find_file j (update_where (\<lambda>f. row_id f = i) (\<lambda>f. f\<lparr>isStarred := b f\<rparr>) fs) \<noteq> None
   \<longleftrightarrow> find_file j fs \<noteq> None"
  by (induction fs) (auto simp: find_file_def)

text \<open>
  C2 (concurrent_revert_loses_update). With two requests in flight the reconciliation
  breaks, on every client in sync with the server: the user stars a row i and then
  trashes an owned row j, the trash succeeds, the star request is lost, and the star
  handler restores its snapshot, taken before the trash.  Nothing is left in flight,
  the client shows exactly its list from before both clicks, the server has j trashed,
  and the client is no longer in sync.
\<close>

theorem concurrent_revert_loses_update:
  assumes sy: "synced uid s st" and i: "find_file i (files s) \<noteq> None"
    and j: "find_file j (files s) = Some f" and own: "lookup_owned uid j st \<noteq> None"
  shows "inflight (sys_run now uid [Click (StarAction i), Click (TrashAction j), Answer 1 True, Answer 0 False]
                    \<lparr>ui = s, server = st, inflight = []\<rparr>) = []
         \<and> ui (sys_run now uid [Click (StarAction i), Click (TrashAction j), Answer 1 True, Answer 0 False]
                    \<lparr>ui = s, server = st, inflight = []\<rparr>) = s\<lparr>files := files s\<rparr>
         \<and> server (sys_run now uid [Click (StarAction i), Click (TrashAction j), Answer 1 True, Answer 0 False]
                    \<lparr>ui = s, server = st, inflight = []\<rparr>) = set_row j (flip_trash now) st
         \<and> \<not> synced uid (ui (sys_run now uid [Click (StarAction i), Click (TrashAction j), Answer 1 True, Answer 0 False]
                    \<lparr>ui = s, server = st, inflight = []\<rparr>))
                  (server (sys_run now uid [Click (StarAction i), Click (TrashAction j), Answer 1 True, Answer 0 False]
                    \<lparr>ui = s, server = st, inflight = []\<rparr>))"
proof -
  let ?F1 = "update_where (\<lambda>f. row_id f = i) (\<lambda>f. f\<lparr>isStarred := \<not> isStarred f\<rparr>) (files s)"
  let ?F2 = "update_where (\<lambda>f. row_id f = j) (\<lambda>f. f\<lparr>isTrash := \<not> isTrash f\<rparr>) ?F1"
  have j1: "find_file j ?F1 \<noteq> None" using j find_file_update_where [of j i "\<lambda>f. \<not> isStarred f" "files s"] by simp
  obtain r where r: "lookup_owned uid j st = Some r" using own by auto
  have run: "sys_run now uid [Click (StarAction i), Click (TrashAction j), Answer 1 True, Answer 0 False]
                    \<lparr>ui = s, server = st, inflight = []\<rparr>
      = \<lparr>ui = s\<lparr>files := files s\<rparr>, server = set_row j (flip_trash now) st, inflight = []\<rparr>"
    using i j1 r
    by (auto simp: handleStarFile_def handleTrashFile_def respond_def api_request_def toggle_trash_def
        split: option.splits)
  have "\<not> synced uid (s\<lparr>files := files s\<rparr>) (set_row j (flip_trash now) st)"
  proof
    assume "synced uid (s\<lparr>files := files s\<rparr>) (set_row j (flip_trash now) st)"
    then have "map strip (files s)
        = map strip (update_where (\<lambda>r. row_id r = j) (flip_trash now) (list_entries uid (currentFolderId s) st))"
      by (simp add: synced_def list_entries_set_row keeps_shape_flips)
    moreover have "map strip (update_where (\<lambda>r. row_id r = j) (flip_trash now) (list_entries uid (currentFolderId s) st))
        \<noteq> map strip (list_entries uid (currentFolderId s) st)"
    proof -
      obtain x where x: "x \<in> set (list_entries uid (currentFolderId s) st)" "row_id x = j"
        using synced_row_listed [OF sy j] by blast
      have "strip (flip_trash now y) \<noteq> strip y" for y
      proof
        assume "strip (flip_trash now y) = strip y"
        then have "isTrash (strip (flip_trash now y)) = isTrash (strip y)" by simp
        then show False by (simp add: strip_flips)
      qed
      then show ?thesis using map_strip_update_where_differs [OF x(1), of "\<lambda>r. row_id r = j"] x(2) by blast
    qed
    ultimately show False using sy by (simp add: synced_def)
  qed
  with run show ?thesis by simp
qed

theorem concurrent_revert_loses_update_witness:
  "\<not> synced ''u''
      (ui (sys_run 5 ''u'' [Click (StarAction 0), Click (TrashAction 2), Answer 1 True, Answer 0 False]
             \<lparr>ui = demo_client, server = demo_root_store, inflight = []\<rparr>))
      (server (sys_run 5 ''u'' [Click (StarAction 0), Click (TrashAction 2), Answer 1 True, Answer 0 False]
             \<lparr>ui = demo_client, server = demo_root_store, inflight = []\<rparr>))"
proof -
  have i: "find_file 0 (files demo_client) \<noteq> None"
    and j: "find_file 2 (files demo_client) = Some demo_b"
    and own: "lookup_owned ''u'' 2 demo_root_store \<noteq> None"
    by (simp_all add: find_file_def demo_client_def demo_root_store_def demo_b_def demo_defs lookup_owned_def
        find_row_def insert_row_def payload_def)
  from concurrent_revert_loses_update [OF demo_client_synced i j own, of 5] show ?thesis
    by (elim conjE)
qed

end
