(* ===== verification/Navigation.thy ===== *)
theory Navigation
  imports Client
begin

text \<open>
  Folder navigation of src/components/FileList.tsx (lines 202--255) and the
  breadcrumb bar of src/components/FolderNavigation.tsx.  The client keeps the path
  from the root to the shown folder as a list of (id, name) pairs
  (\<^verbatim>\<open>folderPath\<close>) next to the shown folder's id (\<^verbatim>\<open>currentFolderId\<close>).  Each
  navigation returns the new state and the arguments it passes to the
  \<^verbatim>\<open>onFolderChange\<close> callback of the dashboard.  \<^verbatim>\<open>navigateToPathFolder\<close> reads
  \<^verbatim>\<open>newPath[newPath.length - 1].id\<close>, which throws a \<^verbatim>\<open>TypeError\<close> when the slice is
  empty: that is the \<open>Inl\<close> branch.  The breadcrumb bar renders one button for the
  root (target index \<^verbatim>\<open>-1\<close>) and one per path entry (its index).
\<close>

datatype js_error = TypeError

type_synonym folder_change = "file_id option \<times> string option"

definition navigateToFolder :: "file_id \<Rightarrow> string \<Rightarrow> file_list_state \<Rightarrow> file_list_state \<times> folder_change" where
  "navigateToFolder folderId folderName s =
     (s\<lparr>folderPath := folderPath s @ [(folderId, folderName)], currentFolderId := Some folderId\<rparr>,
      (Some folderId, Some folderName))"

definition navigateUp :: "file_list_state \<Rightarrow> file_list_state \<times> folder_change option" where
  "navigateUp s =
     (if folderPath s \<noteq> [] then
        let newPath = butlast (folderPath s);
            newFolderId = (if newPath \<noteq> [] then Some (fst (last newPath)) else None);
            newFolderName = (if newPath \<noteq> [] then Some (snd (last newPath)) else None)
        in (s\<lparr>folderPath := newPath, currentFolderId := newFolderId\<rparr>, Some (newFolderId, newFolderName))
      else (s, None))"

definition navigateToPathFolder :: "int \<Rightarrow> file_list_state \<Rightarrow> js_error + file_list_state \<times> folder_change" where
  "navigateToPathFolder index s =
     (if index < 0 then Inr (s\<lparr>folderPath := [], currentFolderId := None\<rparr>, (None, None))
      else
        let newPath = take (nat index + 1) (folderPath s)
        in if newPath = [] then Inl TypeError
           else Inr (s\<lparr>folderPath := newPath, currentFolderId := Some (fst (last newPath))\<rparr>,
                     (Some (fst (last newPath)), Some (snd (last newPath)))))"

text \<open>
  \<^verbatim>\<open>file.type.startsWith("image/")\<close>, and the click handler: a folder is entered, an
  image opens the viewer at an ImageKit URL built from the configured endpoint and
  the row's path, anything else does nothing.
\<close>

definition is_image :: "string \<Rightarrow> bool" where
  "is_image ty \<longleftrightarrow> take 6 ty = ''image/''"

datatype click_effect = FolderChanged folder_change | OpenImage string | NoEffect

definition openImageViewer :: "string \<Rightarrow> file_row \<Rightarrow> click_effect" where
  "openImageViewer endpoint file =
     (if is_image (mime_type file)
      then OpenImage (endpoint @ ''/tr:q-90,w-1600,h-1200,fo-auto/'' @ path file)
      else NoEffect)"

definition handleItemClick :: "string \<Rightarrow> file_row \<Rightarrow> file_list_state \<Rightarrow> file_list_state \<times> click_effect" where
  "handleItemClick endpoint file s =
     (if isFolder file then
        (case navigateToFolder (row_id file) (name file) s of (s', ch) \<Rightarrow> (s', FolderChanged ch))
      else if is_image (mime_type file) then (s, openImageViewer endpoint file)
      else (s, NoEffect))"

text \<open>The row's two handlers: a double click enters a folder, a single click opens an image.\<close>

definition onDoubleClick :: "string \<Rightarrow> file_row \<Rightarrow> file_list_state \<Rightarrow> file_list_state \<times> click_effect" where
  "onDoubleClick endpoint file s = (if isFolder file then handleItemClick endpoint file s else (s, NoEffect))"

definition onClick :: "string \<Rightarrow> file_row \<Rightarrow> file_list_state \<Rightarrow> file_list_state \<times> click_effect" where
  "onClick endpoint file s =
     (if \<not> isFolder file \<and> is_image (mime_type file) then handleItemClick endpoint file s else (s, NoEffect))"

subsection \<open>The breadcrumb bar\<close>

record crumb =
  crumb_label :: string
  crumb_target :: int
  crumb_current :: bool

definition breadcrumbs :: "(file_id \<times> string) list \<Rightarrow> crumb list" where
  "breadcrumbs folder_path =
     \<lparr>crumb_label = (if folder_path = [] then ''My Files (Root)'' else ''My Files''), crumb_target = -1,
      crumb_current = (folder_path = [])\<rparr>
     # map (\<lambda>(index, folder). \<lparr>crumb_label = snd folder, crumb_target = int index,
                               crumb_current = (int index = int (length folder_path) - 1)\<rparr>)
         (enumerate 0 folder_path)"

text \<open>A client two folders deep: Docs (id 0), then Sub (id 7).\<close>

definition demo_nav :: file_list_state where
  "demo_nav = initial_list_state\<lparr>folderPath := [(0, ''Docs''), (7, ''Sub'')], currentFolderId := Some 7\<rparr>"

text \<open>The shown folder is the last entry of the breadcrumb path.\<close>

definition nav_inv :: "file_list_state \<Rightarrow> bool" where
  "nav_inv s \<longleftrightarrow> currentFolderId s = (if folderPath s = [] then None else Some (fst (last (folderPath s))))"

subsection \<open>Lemmas and properties\<close>


lemma nav_inv_navigateToFolder: "nav_inv (fst (navigateToFolder i n s))"
  by (simp add: nav_inv_def navigateToFolder_def)

lemma nav_inv_navigateUp: "nav_inv s \<Longrightarrow> nav_inv (fst (navigateUp s))"
  by (auto simp: nav_inv_def navigateUp_def Let_def)

lemma nav_inv_navigateToPathFolder: "navigateToPathFolder k s = Inr (s', ch) \<Longrightarrow> nav_inv s'"
  by (auto simp: nav_inv_def navigateToPathFolder_def Let_def split: if_splits)

lemma nav_inv_handleItemClick: "nav_inv s \<Longrightarrow> nav_inv (fst (handleItemClick ep f s))"
  by (auto simp: handleItemClick_def navigateToFolder_def nav_inv_def)

text \<open>
  C27 (navigation_keeps_nav_inv). Every navigation keeps the shown folder equal to the last entry of the breadcrumb path (none at the root): entering a folder, going up, jumping to a breadcrumb, and clicking a row.
\<close>

theorem navigation_keeps_nav_inv:
  "nav_inv (fst (navigateToFolder i n s))
   \<and> (nav_inv s \<longrightarrow> nav_inv (fst (navigateUp s)))
   \<and> (navigateToPathFolder k s = Inr (s', ch) \<longrightarrow> nav_inv s')
   \<and> (nav_inv s \<longrightarrow> nav_inv (fst (handleItemClick ep f s)))"
  by (simp add: nav_inv_navigateToFolder nav_inv_navigateUp nav_inv_navigateToPathFolder nav_inv_handleItemClick)

text \<open>
  Going up right after entering a folder restores the whole client state and reports the folder left to the dashboard callback with its name.
\<close>

theorem navigateUp_navigateToFolder:
  assumes "nav_inv s"
  shows "navigateUp (fst (navigateToFolder i n s)) =
           (s, Some (currentFolderId s, if folderPath s = [] then None else Some (snd (last (folderPath s)))))"
  using assms by (simp add: navigateUp_def navigateToFolder_def nav_inv_def Let_def)

text \<open>
  Jumping to a breadcrumb index throws (the TypeError of reading .id of undefined) exactly when the index is not negative and the breadcrumb path is empty.
\<close>

theorem navigateToPathFolder_error_iff:
  "navigateToPathFolder k s = Inl TypeError \<longleftrightarrow> 0 \<le> k \<and> folderPath s = []"
  by (auto simp: navigateToPathFolder_def Let_def)

lemma breadcrumbs_upt:
  "breadcrumbs fp =
     \<lparr>crumb_label = (if fp = [] then ''My Files (Root)'' else ''My Files''), crumb_target = -1, crumb_current = (fp = [])\<rparr>
     # map (\<lambda>k. \<lparr>crumb_label = snd (fp ! k), crumb_target = int k, crumb_current = (Suc k = length fp)\<rparr>) [0..<length fp]"
  by (auto simp: breadcrumbs_def enumerate_eq_zip intro!: nth_equalityI)

lemma filter_last_index: "filter (\<lambda>k. Suc k = n) [0..<n] = (if n = 0 then [] else [n - 1])"
  by (induction n) (auto intro!: filter_False)

text \<open>
  The breadcrumb bar highlights exactly one button (the root when the path is empty, otherwise the last folder) and labels the folder buttons with the path's names in order.
\<close>

theorem breadcrumbs_one_current:
  "length (filter crumb_current (breadcrumbs fp)) = 1 \<and> map crumb_label (tl (breadcrumbs fp)) = map snd fp"
proof -
  let ?entry = "\<lambda>k. \<lparr>crumb_label = snd (fp ! k), crumb_target = int k, crumb_current = (Suc k = length fp)\<rparr>"
  have "filter crumb_current (map ?entry [0..<length fp]) = map ?entry (filter (\<lambda>k. Suc k = length fp) [0..<length fp])"
    by (simp add: filter_map comp_def)
  then have cur: "length (filter crumb_current (map ?entry [0..<length fp])) = (if fp = [] then 0 else 1)"
    by (simp add: filter_last_index)
  have "map crumb_label (map ?entry [0..<length fp]) = map snd (map (nth fp) [0..<length fp])"
    by simp
  then have lab: "map crumb_label (map ?entry [0..<length fp]) = map snd fp"
    by (simp only: map_nth)
  show ?thesis
    using cur lab by (simp only: breadcrumbs_upt) simp
qed

text \<open>
  Every button of the breadcrumb bar navigates without error to the prefix of the path it names, keeping the navigation invariant; the highlighted button keeps the path.
\<close>

theorem breadcrumb_targets_navigate:
  assumes "c \<in> set (breadcrumbs (folderPath s))"
  shows "\<exists>s' ch. navigateToPathFolder (crumb_target c) s = Inr (s', ch) \<and> nav_inv s'
     \<and> folderPath s' = take (nat (crumb_target c + 1)) (folderPath s)
     \<and> (crumb_current c \<longrightarrow> folderPath s' = folderPath s)"
proof -
  from assms consider (root) "crumb_target c = -1" "crumb_current c = (folderPath s = [])"
    | (entry) k where "k < length (folderPath s)" "crumb_target c = int k" "crumb_current c = (Suc k = length (folderPath s))"
    by (auto simp: breadcrumbs_upt)
  then show ?thesis
  proof cases
    case root
    then show ?thesis by (simp add: navigateToPathFolder_def nav_inv_def)
  next
    case entry
    moreover have "nat (int k + 1) = Suc k" by arith
    ultimately show ?thesis by (auto simp: navigateToPathFolder_def nav_inv_def Let_def)
  qed
qed

lemma demo_nav_facts:
  "nav_inv demo_nav"
  "navigateToPathFolder 0 demo_nav =
     Inr (demo_nav\<lparr>folderPath := [(0, ''Docs'')], currentFolderId := Some 0\<rparr>, (Some 0, Some ''Docs''))"
  "breadcrumbs (folderPath demo_nav) ! 2 = \<lparr>crumb_label = ''Sub'', crumb_target = 1, crumb_current = True\<rparr>"
  by (simp_all add: demo_nav_def initial_list_state_def nav_inv_def navigateToPathFolder_def breadcrumbs_def)

theorem navigation_keeps_nav_inv_witness:
  "nav_inv (fst (navigateToFolder 3 ''X'' demo_nav)) \<and> nav_inv (fst (navigateUp demo_nav))
   \<and> nav_inv (demo_nav\<lparr>folderPath := [(0, ''Docs'')], currentFolderId := Some 0\<rparr>)
   \<and> nav_inv (fst (handleItemClick ''https://ik.example'' demo_docs demo_nav))"
  using navigation_keeps_nav_inv [of 3 "''X''" demo_nav 0
      "demo_nav\<lparr>folderPath := [(0, ''Docs'')], currentFolderId := Some 0\<rparr>" "(Some 0, Some ''Docs'')"
      "''https://ik.example''" demo_docs]
    demo_nav_facts(1,2) by simp

theorem navigateUp_navigateToFolder_witness:
  "nav_inv demo_nav \<and> navigateUp (fst (navigateToFolder 3 ''X'' demo_nav)) = (demo_nav, Some (Some 7, Some ''Sub''))"
  using demo_nav_facts(1) navigateUp_navigateToFolder [OF demo_nav_facts(1), of 3 "''X''"]
  by (simp add: demo_nav_def initial_list_state_def)

theorem breadcrumb_targets_navigate_witness:
  "\<lparr>crumb_label = ''Sub'', crumb_target = 1, crumb_current = True\<rparr> \<in> set (breadcrumbs (folderPath demo_nav))
   \<and> (\<exists>s' ch. navigateToPathFolder 1 demo_nav = Inr (s', ch) \<and> folderPath s' = folderPath demo_nav)"
proof -
  have c: "\<lparr>crumb_label = ''Sub'', crumb_target = 1, crumb_current = True\<rparr> \<in> set (breadcrumbs (folderPath demo_nav))"
    by (simp add: demo_nav_def initial_list_state_def breadcrumbs_def)
  show ?thesis using c breadcrumb_targets_navigate [OF c] by auto
qed

end
