(* ===== verification/Widgets.thy ===== *)
theory Widgets
  imports Navigation
begin

text \<open>
  The widgets the file list renders around and inside each row: the tab badges of
  src/components/FileTabs.tsx (\<open>Badge\<close>, \<open>FileTabs\<close>), the header buttons of
  FileListHeaderActions.tsx, the per-row star button and dropdown of FileActions.tsx,
  and the icon choice of FileIcon.tsx.  Each component is a function from its props to
  what it renders (the callbacks are wired in FileListView); the two pieces of
  JavaScript they rely on, the decimal text of a non-negative number and
  \<^verbatim>\<open>String.prototype.split\<close> on a one-character separator, are \<open>string_of_nat\<close>
  and \<open>split_on\<close>.
\<close>

subsection \<open>Decimal text and \<^verbatim>\<open>split\<close>\<close>

fun string_of_nat :: "nat \<Rightarrow> string" where
  "string_of_nat n =
     (if n < 10 then [char_of (48 + n)] else string_of_nat (n div 10) @ [char_of (48 + n mod 10)])"

declare string_of_nat.simps [simp del]

definition digits_value :: "string \<Rightarrow> nat" where
  "digits_value s = foldl (\<lambda>a c. 10 * a + (of_char c - 48)) 0 s"

fun split_on :: "char \<Rightarrow> string \<Rightarrow> string list" where
  "split_on c [] = [[]]"
| "split_on c (x # xs) =
     (let ws = split_on c xs in if x = c then [] # ws else (x # hd ws) # tl ws)"

subsection \<open>FileTabs\<close>

text \<open>\<^verbatim>\<open>Badge\<close>: nothing for a zero count, \<^verbatim>\<open>99+\<close> above 99, else the count.\<close>

definition Badge :: "nat \<Rightarrow> string option" where
  "Badge cnt =
     (if cnt = 0 then None else Some (if 99 < cnt then ''99+'' else string_of_nat cnt))"

record tab =
  tab_key :: string
  tab_title :: string
  tab_badge :: "string option"

definition FileTabs :: "string \<Rightarrow> nat \<Rightarrow> nat \<Rightarrow> nat \<Rightarrow> string \<times> tab list" where
  "FileTabs active_tab all_count starred_count trash_count =
     (active_tab,
      [\<lparr>tab_key = ''all'', tab_title = ''All Files'', tab_badge = Badge all_count\<rparr>,
       \<lparr>tab_key = ''starred'', tab_title = ''Starred'', tab_badge = Badge starred_count\<rparr>,
       \<lparr>tab_key = ''trash'', tab_title = ''Trash'', tab_badge = Badge trash_count\<rparr>])"

subsection \<open>FileListHeaderActions\<close>

datatype header_button = RefreshButton | EmptyTrashButton

definition FileListHeaderActions :: "string \<Rightarrow> nat \<Rightarrow> header_button list" where
  "FileListHeaderActions active_tab trash_count =
     RefreshButton # (if active_tab = ''trash'' \<and> 0 < trash_count then [EmptyTrashButton] else [])"

subsection \<open>FileActions\<close>

datatype menu_item = MenuDownload | MenuTrashRestore | MenuDelete

definition dropdownItems :: "file_row \<Rightarrow> (menu_item \<times> string) list" where
  "dropdownItems file =
     (if \<not> isTrash file \<and> \<not> isFolder file then [(MenuDownload, ''Download'')] else [])
     @ [(MenuTrashRestore, if isTrash file then ''Restore'' else ''Move to Trash'')]
     @ (if isTrash file then [(MenuDelete, ''Delete Permanently'')] else [])"

record actions_view =
  star_button :: "string option"
  menu :: "(menu_item \<times> string) list"

definition FileActions :: "file_row \<Rightarrow> actions_view" where
  "FileActions file =
     \<lparr>star_button = (if \<not> isTrash file then Some (if isStarred file then ''Unstar file'' else ''Star file'')
                    else None),
      menu = dropdownItems file\<rparr>"

subsection \<open>FileIcon\<close>

definition genericType :: "string \<Rightarrow> string" where
  "genericType ty = hd (split_on CHR ''/'' ty)"

definition specificType :: "string \<Rightarrow> string option" where
  "specificType ty = (case tl (split_on CHR ''/'' ty) of [] \<Rightarrow> None | s # _ \<Rightarrow> Some s)"

text \<open>\<^verbatim>\<open>[...].includes(specificType)\<close>: false when the type has no second part.\<close>

definition js_includes :: "string list \<Rightarrow> string option \<Rightarrow> bool" where
  "js_includes xs s = (case s of None \<Rightarrow> False | Some t \<Rightarrow> t \<in> set xs)"

datatype file_icon =
    FolderIcon | ImageThumb string | VideoIcon | MusicIcon | SpreadsheetIcon | CodeIcon
  | TextIcon string | ArchiveIcon | UnknownIcon

definition FileIcon :: "file_row \<Rightarrow> file_icon" where
  "FileIcon file =
     (if isFolder file then FolderIcon
      else let g = genericType (mime_type file); s = specificType (mime_type file) in
        if g = ''image'' then ImageThumb (path file)
        else if g = ''video'' then VideoIcon
        else if g = ''audio'' then MusicIcon
        else if g = ''text'' then
          (if s = Some ''csv'' then SpreadsheetIcon
           else if js_includes [''html'', ''css'', ''javascript'', ''typescript'', ''jsx'', ''tsx''] s then CodeIcon
           else TextIcon ''gray'')
        else if g = ''application'' then
          (if s = Some ''pdf'' then TextIcon ''red''
           else if js_includes [''zip'', ''rar'', ''7z'', ''tar'', ''gz''] s then ArchiveIcon
           else if js_includes [''vnd.ms-excel'', ''vnd.openxmlformats-officedocument.spreadsheetml.sheet'',
                              ''spreadsheet''] s then SpreadsheetIcon
           else if js_includes [''msword'', ''vnd.openxmlformats-officedocument.wordprocessingml.document''] s
             then TextIcon ''blue''
           else TextIcon ''orange'')
        else UnknownIcon)"


subsection \<open>Lemmas: decimal text and \<^verbatim>\<open>split\<close>\<close>

lemma digit_char: "(d::nat) < 10 \<Longrightarrow> of_char (char_of (48 + d)) = 48 + d"
  by (simp add: of_char_of)

lemma digits_value_snoc: "digits_value (xs @ [c]) = 10 * digits_value xs + (of_char c - 48)"
  by (simp add: digits_value_def)

lemma digits_value_string_of_nat: "digits_value (string_of_nat n) = n"
proof (induction n rule: string_of_nat.induct)
  case (1 n)
  show ?case
  proof (cases "n < 10")
    case True
    then show ?thesis by (simp add: digits_value_def digit_char string_of_nat.simps [of n])
  next
    case False
    then show ?thesis using 1 by (simp add: digits_value_snoc digit_char string_of_nat.simps [of n])
  qed
qed

lemma string_of_nat_digits: "c \<in> set (string_of_nat n) \<Longrightarrow> (48::nat) \<le> of_char c \<and> of_char c < (58::nat)"
proof (induction n rule: string_of_nat.induct)
  case (1 n)
  then show ?case
    by (cases "n < 10") (auto simp: digit_char string_of_nat.simps [of n])
qed

lemma length_string_of_nat:
  "length (string_of_nat n) = (if n < 10 then 1 else Suc (length (string_of_nat (n div 10))))"
  by (simp add: string_of_nat.simps [of n])

lemma string_of_nat_short: "n < 100 \<Longrightarrow> length (string_of_nat n) \<le> 2"
proof -
  assume "n < 100"
  then have "n div 10 < 10" by (simp add: div_less_iff_less_mult)
  then show ?thesis by (simp add: length_string_of_nat [of n] length_string_of_nat [of "n div 10"])
qed

lemma split_on_not_Nil [simp]: "split_on c s \<noteq> []"
  by (induction s) (simp_all add: Let_def)

lemma hd_split_on: "hd (split_on c s) = takeWhile (\<lambda>x. x \<noteq> c) s"
  by (induction s) (simp_all add: Let_def)

lemma tl_split_on:
  "tl (split_on c s) = (if c \<in> set s then split_on c (tl (dropWhile (\<lambda>x. x \<noteq> c) s)) else [])"
  by (induction s) (auto simp: Let_def)

lemma string_of_nat_not_Nil: "string_of_nat n \<noteq> []"
  by (simp add: string_of_nat.simps [of n])

lemma takeWhile_eq_iff:
  "x \<notin> set w \<Longrightarrow> takeWhile (\<lambda>c. c \<noteq> x) ys = w \<longleftrightarrow> (\<exists>r. ys = w @ r \<and> (r = [] \<or> hd r = x))"
proof (induction w arbitrary: ys)
  case Nil
  show ?case by (cases ys) auto
next
  case (Cons a w)
  then show ?case by (cases ys) auto
qed

text \<open>
  FileIcon's \<^verbatim>\<open>type.split("/")[0]\<close> is the text before the first slash, and
  \<^verbatim>\<open>[1]\<close> is the text between the first and the second slash, undefined when
  the type has no slash.
\<close>

lemma mime_type_parts:
  "genericType ty = takeWhile (\<lambda>c. c \<noteq> CHR ''/'') ty
   \<and> specificType ty =
       (if CHR ''/'' \<in> set ty then Some (takeWhile (\<lambda>c. c \<noteq> CHR ''/'') (tl (dropWhile (\<lambda>c. c \<noteq> CHR ''/'') ty)))
        else None)"
  by (simp add: genericType_def specificType_def hd_split_on tl_split_on list.case_eq_if)

lemma genericType_image:
  "genericType ty = ''image'' \<longleftrightarrow> ty = ''image'' \<or> is_image ty"
proof -
  have "genericType ty = ''image'' \<longleftrightarrow> (\<exists>r. ty = ''image'' @ r \<and> (r = [] \<or> hd r = CHR ''/''))"
    using mime_type_parts [of ty] takeWhile_eq_iff [of "CHR ''/''" "''image''" ty] by simp
  also have "\<dots> \<longleftrightarrow> ty = ''image'' \<or> (\<exists>r. ty = ''image/'' @ r)"
  proof
    assume "\<exists>r. ty = ''image'' @ r \<and> (r = [] \<or> hd r = CHR ''/'')"
    then obtain r where r: "ty = ''image'' @ r" "r = [] \<or> hd r = CHR ''/''" by blast
    show "ty = ''image'' \<or> (\<exists>r. ty = ''image/'' @ r)"
    proof (cases r)
      case Nil
      with r show ?thesis by simp
    next
      case (Cons a r')
      with r show ?thesis by auto
    qed
  qed auto
  also have "(\<exists>r. ty = ''image/'' @ r) \<longleftrightarrow> is_image ty"
    unfolding is_image_def
  proof
    assume "\<exists>r. ty = ''image/'' @ r"
    then show "take 6 ty = ''image/''" by auto
  next
    assume "take 6 ty = ''image/''"
    then have "ty = ''image/'' @ drop 6 ty" by (metis append_take_drop_id)
    then show "\<exists>r. ty = ''image/'' @ r" by blast
  qed
  finally show ?thesis .
qed

subsection \<open>Properties of the widgets\<close>

text \<open>
  The badges FileList passes to FileTabs count exactly the
  rows each tab shows: for every tab key, the tab's badge is the badge of the length of
  \<open>filteredFiles\<close> for that key, and the selected tab is the active one.
\<close>

theorem tab_badges_count_tabs:
  "fst (FileTabs tab (allFilesCount fs) (starredCount fs) (trashCount fs)) = tab
   \<and> map (\<lambda>t. (tab_key t, tab_badge t)) (snd (FileTabs tab (allFilesCount fs) (starredCount fs) (trashCount fs)))
     = map (\<lambda>k. (k, Badge (length (filteredFiles k fs)))) [''all'', ''starred'', ''trash'']"
  by (simp add: FileTabs_def allFilesCount_def starredCount_def trashCount_def filteredFiles_def)

text \<open>
  The header offers Empty Trash exactly when the Trash tab
  is active and shows at least one row.
\<close>

theorem empty_trash_button_iff:
  "EmptyTrashButton \<in> set (FileListHeaderActions tab (trashCount fs))
   \<longleftrightarrow> tab = ''trash'' \<and> filteredFiles tab fs \<noteq> []"
  by (auto simp: FileListHeaderActions_def trashCount_def filteredFiles_def filter_empty_conv length_greater_0_conv)

text \<open>
  A badge is hidden exactly for a zero count; a count from 1 to 99 is
  shown as one or two decimal digits that read back as the count; a larger count is
  shown as 99+.
\<close>

theorem Badge_text:
  "(Badge n = None \<longleftrightarrow> n = 0)
   \<and> (0 < n \<and> n \<le> 99 \<longrightarrow>
        (\<exists>t. Badge n = Some t \<and> t \<noteq> [] \<and> length t \<le> 2 \<and> digits_value t = n
             \<and> (\<forall>c\<in>set t. (48::nat) \<le> of_char c \<and> of_char c < (58::nat))))
   \<and> (99 < n \<longrightarrow> Badge n = Some ''99+'')"
  by (auto simp: Badge_def string_of_nat_not_Nil string_of_nat_short digits_value_string_of_nat
      dest: string_of_nat_digits)

text \<open>
  C26 (thumbnail_iff_viewer). A file shows an image thumbnail in the list exactly when a
  click on it opens the image viewer, with one exception: a file whose type is the bare
  text "image", without a subtype, gets a thumbnail, but a click opens nothing, since the
  click handler asks for the prefix "image/" and the icon only for the part before the
  first slash.
\<close>

theorem thumbnail_iff_viewer:
  "(\<exists>p. FileIcon f = ImageThumb p)
   \<longleftrightarrow> (\<exists>u. snd (handleItemClick e f s) = OpenImage u) \<or> (\<not> isFolder f \<and> mime_type f = ''image'')"
proof -
  have icon: "(\<exists>p. FileIcon f = ImageThumb p) \<longleftrightarrow> \<not> isFolder f \<and> genericType (mime_type f) = ''image''"
    by (simp add: FileIcon_def Let_def)
  have click: "(\<exists>u. snd (handleItemClick e f s) = OpenImage u) \<longleftrightarrow> \<not> isFolder f \<and> is_image (mime_type f)"
    by (simp add: handleItemClick_def openImageViewer_def split: prod.split)
  show ?thesis unfolding icon click genericType_image by blast
qed

theorem Badge_text_witness:
  "0 < (42::nat) \<and> (42::nat) \<le> 99 \<and> Badge 42 = Some ''42'' \<and> digits_value ''42'' = 42"
proof -
  have "Badge 42 = Some ''42''" by code_simp
  then show ?thesis using Badge_text [of 42] by auto
qed

theorem thumbnail_iff_viewer_witness:
  "FileIcon (demo_b\<lparr>mime_type := ''image''\<rparr>) = ImageThumb (path demo_b)
   \<and> snd (handleItemClick [] (demo_b\<lparr>mime_type := ''image''\<rparr>) initial_list_state) = NoEffect"
proof -
  have nf: "\<not> isFolder demo_b" by (simp add: demo_b_def demo_defs insert_row_def payload_def)
  from thumbnail_iff_viewer [of "demo_b\<lparr>mime_type := ''image''\<rparr>" "[]" initial_list_state] nf
  have "\<exists>p. FileIcon (demo_b\<lparr>mime_type := ''image''\<rparr>) = ImageThumb p" by simp
  moreover have "snd (handleItemClick [] (demo_b\<lparr>mime_type := ''image''\<rparr>) initial_list_state) = NoEffect"
    using nf by (simp add: handleItemClick_def is_image_def)
  ultimately show ?thesis using nf by (auto simp: FileIcon_def genericType_def Let_def)
qed

end
