(* ===== verification/CreateFolder.thy ===== *)
theory CreateFolder
  imports Api Widgets
begin

text \<open>
  The create-folder dialog, src/components/CreateFolderModal.tsx: its three pieces of
  state (\<open>folder_modal\<close>), the reset when it closes, the input, the client-side
  validation and request of \<open>handleCreateFolder\<close> (before its await), the
  \<^verbatim>\<open>catch\<close>/\<^verbatim>\<open>finally\<close> after it (\<open>settle_create\<close>), the two ways to submit (the
  Create button, disabled while a request is in flight, and the Enter key), and a
  submission run to completion against the server (\<open>submit_folder\<close>).
  \<^verbatim>\<open>String.prototype.trim\<close> is \<open>js_trim\<close>: it strips the JavaScript white space
  that a character of this model can hold (tab, line feed, vertical tab, form feed,
  carriage return, space and no-break space).
\<close>

definition js_whitespace :: "char \<Rightarrow> bool" where
  "js_whitespace c \<longleftrightarrow> of_char c \<in> {9, 10, 11, 12, 13, 32, 160 :: nat}"

definition js_trim :: "string \<Rightarrow> string" where
  "js_trim s = rev (dropWhile js_whitespace (rev (dropWhile js_whitespace s)))"

record folder_modal =
  folderName :: string
  creatingFolder :: bool
  cf_error :: "string option"

definition folder_modal_init :: folder_modal where
  "folder_modal_init = \<lparr>folderName = [], creatingFolder = False, cf_error = None\<rparr>"

text \<open>The effect on \<^verbatim>\<open>isOpen\<close> (lines 37--45); the 300 ms delay is not modelled.\<close>

definition reset_on_close :: "bool \<Rightarrow> folder_modal \<Rightarrow> folder_modal" where
  "reset_on_close isOpen m = (if \<not> isOpen then folder_modal_init else m)"

definition setFolderName :: "string \<Rightarrow> folder_modal \<Rightarrow> folder_modal" where
  "setFolderName v m = m\<lparr>folderName := v\<rparr>"

text \<open>The regular expression \<^verbatim>\<open>/[\\/:\*\?"<>\|]/\<close> as its character class.\<close>

definition invalidChars :: string where
  "invalidChars = [CHR 0x5C, CHR ''/'', CHR '':'', CHR ''*'', CHR ''?'', CHR 0x22, CHR ''<'', CHR ''>'', CHR ''|'']"

definition handleCreateFolder ::
  "user_id \<Rightarrow> file_id option \<Rightarrow> folder_modal \<Rightarrow> folder_modal \<times> server_op option" where
  "handleCreateFolder uid cur m0 =
     (let m = m0\<lparr>cf_error := None\<rparr> in
      if js_trim (folderName m) = [] then (m\<lparr>cf_error := Some ''Please enter a valid folder name.''\<rparr>, None)
      else if list_ex (\<lambda>c. c \<in> set invalidChars) (folderName m)
        then (m\<lparr>cf_error := Some ''Folder name contains invalid characters.''\<rparr>, None)
      else (m\<lparr>creatingFolder := True\<rparr>, Some (OpCreateFolder uid cur (js_trim (folderName m)))))"

text \<open>
  \<^verbatim>\<open>error.response?.data?.error || "We couldn't ..."\<close>: the server's message when
  there is a non-empty one.  The response is \<open>Inr ()\<close> on success and \<open>Inl\<close> the
  body's error field (if any) on failure; the result's flag is whether
  \<^verbatim>\<open>onCreateSuccess\<close> is called.
\<close>

definition create_error_message :: "string option \<Rightarrow> string" where
  "create_error_message body =
     (case body of
        Some e \<Rightarrow> if e = [] then ''We couldn't create the folder. Please try again.'' else e
      | None \<Rightarrow> ''We couldn't create the folder. Please try again.'')"

definition settle_create :: "string option + unit \<Rightarrow> folder_modal \<Rightarrow> folder_modal \<times> bool" where
  "settle_create resp m =
     (case resp of
        Inr _ \<Rightarrow> (m\<lparr>creatingFolder := False\<rparr>, True)
      | Inl body \<Rightarrow> (m\<lparr>cf_error := Some (create_error_message body), creatingFolder := False\<rparr>, False))"

definition create_button_disabled :: "folder_modal \<Rightarrow> bool" where
  "create_button_disabled m \<longleftrightarrow> js_trim (folderName m) = [] \<or> creatingFolder m"

definition onPressCreate ::
  "user_id \<Rightarrow> file_id option \<Rightarrow> folder_modal \<Rightarrow> folder_modal \<times> server_op option" where
  "onPressCreate uid pid m = (if create_button_disabled m then (m, None) else handleCreateFolder uid pid m)"

definition onKeyDownCreate ::
  "string \<Rightarrow> user_id \<Rightarrow> file_id option \<Rightarrow> folder_modal \<Rightarrow> folder_modal \<times> server_op option" where
  "onKeyDownCreate key uid pid m = (if key = ''Enter'' then handleCreateFolder uid pid m else (m, None))"

text \<open>
  A press of Create run to completion: the request, if one is sent, is answered by the
  server (\<open>body\<close> gives the error field the route puts in its response).
\<close>

definition submit_folder ::
  "(api_error \<Rightarrow> string option) \<Rightarrow> timestamp \<Rightarrow> user_id \<Rightarrow> file_id option \<Rightarrow> folder_modal \<times> store
   \<Rightarrow> folder_modal \<times> store \<times> bool" where
  "submit_folder body now uid pid ms =
     (case onPressCreate uid pid (fst ms) of
        (m1, None) \<Rightarrow> (m1, snd ms, False)
      | (m1, Some op) \<Rightarrow>
          (case apply_op now op (snd ms) of
             Inl e \<Rightarrow> (case settle_create (Inl (body e)) m1 of (m2, ok) \<Rightarrow> (m2, snd ms, ok))
           | Inr (_, st') \<Rightarrow> (case settle_create (Inr ()) m1 of (m2, ok) \<Rightarrow> (m2, st', ok))))"

record folder_modal_view =
  fv_value :: string
  fv_invalid :: bool
  fv_error :: "string option"
  fv_hint :: string
  fv_loading :: bool
  fv_disabled :: bool

definition CreateFolderModal_view :: "file_id option \<Rightarrow> folder_modal \<Rightarrow> folder_modal_view" where
  "CreateFolderModal_view cur m =
     \<lparr>fv_value = folderName m, fv_invalid = (cf_error m \<noteq> None), fv_error = cf_error m,
      fv_hint = ''Enter a name for the new folder in the current directory (''
                @ (case cur of Some i \<Rightarrow> string_of_nat i | None \<Rightarrow> ''root'') @ '').'',
      fv_loading = creatingFolder m, fv_disabled = create_button_disabled m\<rparr>"

text \<open>The dialog with Docs typed in, before any submission.\<close>

definition demo_folder_modal :: folder_modal where
  "demo_folder_modal = folder_modal_init\<lparr>folderName := ''Docs''\<rparr>"


subsection \<open>Lemmas\<close>

lemma set_js_trim: "set (js_trim s) \<subseteq> set s"
proof -
  have "set (dropWhile js_whitespace xs) \<subseteq> set xs" for xs :: string
    by (induction xs) auto
  then show ?thesis unfolding js_trim_def by (metis order_trans set_rev)
qed
lemma all_dropWhile_iff: "(\<forall>x\<in>set (dropWhile P xs). P x) \<longleftrightarrow> (\<forall>x\<in>set xs. P x)"
  by (induction xs) auto

lemma js_trim_Nil_iff: "js_trim s = [] \<longleftrightarrow> list_all js_whitespace s"
  by (simp add: js_trim_def dropWhile_eq_Nil_conv list_all_iff all_dropWhile_iff)
lemma invalidChars_reserved: "set invalidChars = set reserved_chars"
  by (simp add: invalidChars_def reserved_chars_def)
lemma check_parent_not_InvalidName: "check_parent uid pid st \<noteq> Inl InvalidName"
  by (simp add: check_parent_def split: option.splits)

lemma ancestor_names_not_InvalidName: "ancestor_names n rs pid \<noteq> Inl InvalidName"
  by (induction n rs pid rule: ancestor_names.induct) (auto split: option.splits sum.splits)

lemma create_entry_not_InvalidName:
  "valid_name nm \<Longrightarrow> create_entry now uid pid nm meta st \<noteq> Inl InvalidName"
  using check_parent_not_InvalidName [of uid pid st] ancestor_names_not_InvalidName [of "next_id st" "rows st" pid]
  by (auto simp: create_entry_def Let_def split: sum.splits)

lemma handleCreateFolder_Some:
  "snd (handleCreateFolder uid pid m) = Some op \<Longrightarrow>
     op = OpCreateFolder uid pid (js_trim (folderName m)) \<and> js_trim (folderName m) \<noteq> []
     \<and> \<not> list_ex (\<lambda>c. c \<in> set invalidChars) (folderName m)"
  by (auto simp: handleCreateFolder_def Let_def split: if_splits)

lemma handleCreateFolder_None:
  "handleCreateFolder uid pid m = (m1, None) \<Longrightarrow> cf_error m1 \<noteq> None \<and> creatingFolder m1 = creatingFolder m"
  by (auto simp: handleCreateFolder_def Let_def split: if_splits)

lemma handleCreateFolder_Some':
  "handleCreateFolder uid pid m = (m1, Some op) \<Longrightarrow>
     op = OpCreateFolder uid pid (js_trim (folderName m)) \<and> cf_error m1 = None"
  by (auto simp: handleCreateFolder_def Let_def split: if_splits)

lemma submit_folder_ok:
  assumes "submit_folder body now uid pid (m, st) = (m', st', True)"
  shows "\<exists>r. create_entry now uid pid (js_trim (folderName m)) None st = Inr (r, st')"
proof -
  obtain m1 r where h: "onPressCreate uid pid m = (m1, r)" by fastforce
  with assms obtain op where "r = Some op" by (cases r) (simp_all add: submit_folder_def)
  with h have "handleCreateFolder uid pid m = (m1, Some op)"
    by (simp add: onPressCreate_def split: if_splits)
  then have op: "op = OpCreateFolder uid pid (js_trim (folderName m))"
    using handleCreateFolder_Some' by blast
  with h \<open>r = Some op\<close> assms show ?thesis
    by (auto simp: submit_folder_def settle_create_def map_sum_def split: sum.splits)
qed

lemma handleCreateFolder_sends:
  assumes "handleCreateFolder uid pid m = (m1, Some op)"
  shows "m1 = m\<lparr>cf_error := None, creatingFolder := True\<rparr> \<and> op = OpCreateFolder uid pid (js_trim (folderName m))
    \<and> js_trim (folderName m) \<noteq> [] \<and> \<not> list_ex (\<lambda>c. c \<in> set invalidChars) (folderName m)"
  using assms by (auto simp: handleCreateFolder_def Let_def split: if_splits)

lemma handleCreateFolder_valid_name:
  "js_trim (folderName m) \<noteq> [] \<Longrightarrow> \<not> list_ex (\<lambda>c. c \<in> set invalidChars) (folderName m)
    \<Longrightarrow> valid_name (js_trim (folderName m))"
  using set_js_trim [of "folderName m"]
  by (auto simp: valid_name_def list_all_iff list_ex_iff invalidChars_reserved)

text \<open>A valid name is always created in the root folder, appended to the owner's listing.\<close>

lemma create_root_listed:
  assumes "valid_name nm"
  shows "map name (list_entries uid None (server_step now (OpCreateFolder uid None nm) st))
       = map name (list_entries uid None st) @ [nm]"
proof -
  obtain r st' where c: "create_entry now uid None nm None st = Inr (r, st')"
    using assms by (simp add: create_entry_def check_parent_def Let_def)
  have st': "st' = \<lparr>rows = rows st @ [r], next_id = Suc (next_id st)\<rparr>"
    using create_entry_Inr [OF c] by blast
  have "server_step now (OpCreateFolder uid None nm) st = st'"
    using c by (simp add: server_step_def map_sum_def)
  then show ?thesis
    using create_entry_row [OF c] by (simp add: st' list_entries_def)
qed

lemma demo_folder_modal_facts:
  "js_trim ''Docs'' = ''Docs''" "\<not> list_ex (\<lambda>c. c \<in> set invalidChars) ''Docs''"
  "folderName demo_folder_modal = ''Docs''" "\<not> creatingFolder demo_folder_modal"
  by (code_simp, code_simp, simp_all add: demo_folder_modal_def folder_modal_init_def)

subsection \<open>Properties of the dialog\<close>

text \<open>
  C9 (create_request_valid). Whenever the dialog sends a create request, it is for the
  caller, the current folder and the trimmed name, and that name passes the server's
  name validation: the server never answers it with InvalidName.
\<close>

theorem create_request_valid:
  assumes "snd (handleCreateFolder uid pid m) = Some op"
  shows "op = OpCreateFolder uid pid (js_trim (folderName m)) \<and> valid_name (js_trim (folderName m))
       \<and> (\<forall>now meta st. create_entry now uid pid (js_trim (folderName m)) meta st \<noteq> Inl InvalidName)"
proof -
  note h = handleCreateFolder_Some [OF assms]
  then have "valid_name (js_trim (folderName m))"
    using handleCreateFolder_valid_name by blast
  then show ?thesis using h create_entry_not_InvalidName by blast
qed

text \<open>
  C11 (submit_folder_outcome). A press of Create does nothing while the button is
  disabled; otherwise, whatever the server answers, the dialog leaves its creating state,
  shows an error exactly when the folder was not created, and the store changes only by
  the server's create of the trimmed name.
\<close>

theorem submit_folder_outcome:
  assumes "submit_folder body now uid pid (m, st) = (m', st', ok)"
  shows "(create_button_disabled m \<longrightarrow> m' = m \<and> st' = st \<and> \<not> ok)
       \<and> (\<not> create_button_disabled m \<longrightarrow>
            \<not> creatingFolder m' \<and> (ok \<longleftrightarrow> cf_error m' = None)
          \<and> (ok \<longrightarrow> (\<exists>r. create_entry now uid pid (js_trim (folderName m)) None st = Inr (r, st')))
          \<and> (\<not> ok \<longrightarrow> st' = st))"
proof (cases "create_button_disabled m")
  case True
  with assms show ?thesis by (simp add: submit_folder_def onPressCreate_def)
next
  case False
  then have nc: "\<not> creatingFolder m" by (simp add: create_button_disabled_def)
  obtain m1 r where h: "handleCreateFolder uid pid m = (m1, r)" by fastforce
  show ?thesis
  proof (cases r)
    case None
    with h assms False nc handleCreateFolder_None [of uid pid m m1] show ?thesis
      by (simp add: submit_folder_def onPressCreate_def)
  next
    case (Some op)
    with h handleCreateFolder_Some' have op: "op = OpCreateFolder uid pid (js_trim (folderName m))" "cf_error m1 = None"
      by blast+
    with h Some assms False show ?thesis
      by (auto simp: submit_folder_def onPressCreate_def settle_create_def map_sum_def split: sum.splits)
  qed
qed

text \<open>
  The Create button is disabled exactly while a request
  is in flight or when the name consists of white space only.
\<close>

theorem create_button_disabled_iff:
  "create_button_disabled m \<longleftrightarrow> creatingFolder m \<or> list_all js_whitespace (folderName m)"
  by (auto simp: create_button_disabled_def js_trim_Nil_iff)

text \<open>
  C10 (enter_double_submit). The Enter key is not guarded like the button: whenever a
  press of Create sends a request, the dialog is then creating and its button disabled,
  so a second press sends nothing, but Enter sends the same request again; in the root
  folder the server creates both, and the listing gains two folders of the same name.
\<close>

theorem enter_double_submit:
  assumes "onPressCreate uid None m = (m1, Some op)"
  shows "creatingFolder m1 \<and> create_button_disabled m1 \<and> onPressCreate uid None m1 = (m1, None)
    \<and> onKeyDownCreate ''Enter'' uid None m1 = (m1, Some op)
    \<and> map name (list_entries uid None (server_run [(ta, op), (tb, op)] st))
        = map name (list_entries uid None st) @ [js_trim (folderName m), js_trim (folderName m)]"
proof -
  have h: "handleCreateFolder uid None m = (m1, Some op)"
    using assms by (simp add: onPressCreate_def split: if_splits)
  note s = handleCreateFolder_sends [OF h]
  have v: "valid_name (js_trim (folderName m))"
    using s handleCreateFolder_valid_name by blast
  have m1: "creatingFolder m1" "folderName m1 = folderName m" "create_button_disabled m1"
    using s by (simp_all add: create_button_disabled_def)
  have again: "onKeyDownCreate ''Enter'' uid None m1 = (m1, Some op)"
    using s by (simp add: onKeyDownCreate_def handleCreateFolder_def Let_def)
  have run: "map name (list_entries uid None (server_run [(ta, op), (tb, op)] st))
        = map name (list_entries uid None st) @ [js_trim (folderName m), js_trim (folderName m)]"
    using s create_root_listed [OF v] by simp
  show ?thesis
    using m1 again run by (simp add: onPressCreate_def)
qed

theorem enter_double_submit_witness:
  "onKeyDownCreate ''Enter'' ''u'' None (fst (onPressCreate ''u'' None demo_folder_modal))
     = (fst (onPressCreate ''u'' None demo_folder_modal), Some (OpCreateFolder ''u'' None ''Docs''))
   \<and> map name (list_entries ''u'' None
        (server_run [(1, OpCreateFolder ''u'' None ''Docs''), (2, OpCreateFolder ''u'' None ''Docs'')] empty_store))
       = [''Docs'', ''Docs'']"
proof -
  have press: "onPressCreate ''u'' None demo_folder_modal
      = (demo_folder_modal\<lparr>cf_error := None, creatingFolder := True\<rparr>, Some (OpCreateFolder ''u'' None ''Docs''))"
    using demo_folder_modal_facts
    by (simp add: onPressCreate_def create_button_disabled_def handleCreateFolder_def Let_def)
  from enter_double_submit [OF press, where ta = 1 and tb = 2 and st = empty_store] show ?thesis
    using demo_folder_modal_facts by (simp add: press list_entries_def empty_store_def)
qed

theorem create_request_valid_witness:
  "snd (handleCreateFolder ''u'' None demo_folder_modal) = Some (OpCreateFolder ''u'' None ''Docs'')
   \<and> valid_name ''Docs''"
proof -
  have h: "snd (handleCreateFolder ''u'' None demo_folder_modal) = Some (OpCreateFolder ''u'' None ''Docs'')"
    using demo_folder_modal_facts by (simp add: handleCreateFolder_def Let_def)
  with create_request_valid [OF h] demo_folder_modal_facts(3) show ?thesis by (simp add: demo_folder_modal_facts(1))
qed

theorem submit_folder_outcome_witness:
  "\<not> create_button_disabled demo_folder_modal
   \<and> snd (snd (submit_folder (\<lambda>_. None) 1 ''u'' None (demo_folder_modal, empty_store)))
   \<and> cf_error (fst (submit_folder (\<lambda>_. None) 1 ''u'' None (demo_folder_modal, empty_store))) = None"
proof -
  let ?r = "submit_folder (\<lambda>_. None) 1 ''u'' None (demo_folder_modal, empty_store)"
  have nd: "\<not> create_button_disabled demo_folder_modal"
    using demo_folder_modal_facts by (simp add: create_button_disabled_def)
  have ok: "snd (snd ?r)"
    using demo_folder_modal_facts nd
    by (simp add: submit_folder_def onPressCreate_def handleCreateFolder_def Let_def settle_create_def
        create_entry_def empty_store_def valid_name_def reserved_chars_def check_parent_def)
  have "?r = (fst ?r, fst (snd ?r), snd (snd ?r))" by simp
  from submit_folder_outcome [OF this] nd ok show ?thesis by simp
qed

end
