(* ===== verification/FileListView.thy ===== *)
theory FileListView
  imports Widgets Api
begin

text \<open>
  What src/components/FileList.tsx renders (lines 257--418) and how its row controls
  are wired (lines 366--415): the size column, the download handler, the table rows
  with their icon, markers and \<^verbatim>\<open>FileActions\<close>, the two confirmation modals, and the
  request each control finally sends (\<open>request_op\<close>, the axios calls of lines 103,
  124, 147 and 169, as requests of the Mutation API).
\<close>

subsection \<open>Size column (line 355)\<close>

text \<open>
  \<^verbatim>\<open>(size / d).toFixed(1)\<close>: \<^verbatim>\<open>size / 1024\<close> and \<^verbatim>\<open>size / 1048576\<close> are exact
  doubles, and \<^verbatim>\<open>toFixed(1)\<close> picks the integer \<open>n\<close> with \<open>n / 10\<close> nearest to the
  value, the larger one on a tie; for an even \<open>d\<close> that is \<open>(10 * size + d div 2) div d\<close>.
\<close>

definition fixed1 :: "int \<Rightarrow> int \<Rightarrow> int" where
  "fixed1 x d = (10 * x + d div 2) div d"

definition show_fixed1 :: "int \<Rightarrow> string" where
  "show_fixed1 n = string_of_nat (nat n div 10) @ ''.'' @ string_of_nat (nat n mod 10)"

definition show_int :: "int \<Rightarrow> string" where
  "show_int i = (if i < 0 then CHR ''-'' # string_of_nat (nat (- i)) else string_of_nat (nat i))"

datatype size_cell = Dash | SizeText string

text \<open>The size text, shared with the upload dialog's preview (FileUploadModal.tsx line 247).\<close>

definition size_text :: "int \<Rightarrow> string" where
  "size_text sz =
     (if sz < 1024 then show_int sz @ '' B''
      else if sz < 1024 * 1024 then show_fixed1 (fixed1 sz 1024) @ '' KB''
      else show_fixed1 (fixed1 sz (1024 * 1024)) @ '' MB'')"

definition size_cell :: "file_row \<Rightarrow> size_cell" where
  "size_cell file = (if isFolder file then Dash else SizeText (size_text (file_size file)))"

subsection \<open>Download (lines 178--200)\<close>

text \<open>
  An image is fetched from the ImageKit endpoint in its original quality, anything else
  from its stored URL; the blob is saved under the row's name.
\<close>

definition download_url :: "string \<Rightarrow> file_row \<Rightarrow> string" where
  "download_url endpoint file =
     (if is_image (mime_type file) then endpoint @ ''/tr:q-100,orig-true/'' @ path file else fileUrl file)"

definition handleDownloadFile :: "string \<Rightarrow> file_row \<Rightarrow> string \<times> string" where
  "handleDownloadFile endpoint file = (download_url endpoint file, name file)"

subsection \<open>Row controls (lines 366--415)\<close>

datatype row_effect = Dispatch ui_action | StartDownload "string \<times> string" | NoRowEffect

definition onPressStar :: "file_row \<Rightarrow> file_list_state \<Rightarrow> file_list_state \<times> row_effect" where
  "onPressStar file s = (s, Dispatch (StarAction (row_id file)))"

definition onPressMenu ::
  "string \<Rightarrow> file_row \<Rightarrow> menu_item \<Rightarrow> file_list_state \<Rightarrow> file_list_state \<times> row_effect" where
  "onPressMenu endpoint file item s =
     (case item of
        MenuDownload \<Rightarrow> (s, StartDownload (handleDownloadFile endpoint file))
      | MenuTrashRestore \<Rightarrow> (s, Dispatch (TrashAction (row_id file)))
      | MenuDelete \<Rightarrow> (s\<lparr>selectedFile := Some file, deleteModalOpen := True\<rparr>, NoRowEffect))"

definition confirmDelete :: "file_list_state \<Rightarrow> ui_action option" where
  "confirmDelete s = (case selectedFile s of Some f \<Rightarrow> Some (DeleteAction (row_id f)) | None \<Rightarrow> None)"

definition confirmEmptyTrash :: ui_action where
  "confirmEmptyTrash = EmptyTrashAction"

text \<open>
  The remaining state setters FileList hands to its children: the tab switch of
  FileTabs (line 271), the header's Empty Trash button (line 280) and the
  \<^verbatim>\<open>onOpenChange\<close> of the two confirmation modals (lines 389 and 406).
\<close>

definition onTabChange :: "string \<Rightarrow> file_list_state \<Rightarrow> file_list_state" where
  "onTabChange key s = s\<lparr>activeTab := key\<rparr>"

definition setDeleteModalOpen :: "bool \<Rightarrow> file_list_state \<Rightarrow> file_list_state" where
  "setDeleteModalOpen b s = s\<lparr>deleteModalOpen := b\<rparr>"

definition setEmptyTrashModalOpen :: "bool \<Rightarrow> file_list_state \<Rightarrow> file_list_state" where
  "setEmptyTrashModalOpen b s = s\<lparr>emptyTrashModalOpen := b\<rparr>"

text \<open>The request an action sends: \<^verbatim>\<open>PATCH /api/files/:id/star\<close> and the others.\<close>

fun request_op :: "user_id \<Rightarrow> ui_action \<Rightarrow> server_op" where
  "request_op uid (StarAction i) = OpStar uid i"
| "request_op uid (TrashAction i) = OpTrash uid i"
| "request_op uid (DeleteAction i) = OpDelete uid i"
| "request_op uid EmptyTrashAction = OpEmptyTrash uid"

subsection \<open>The rendered list (lines 257--418)\<close>

record row_view =
  rv_id :: file_id
  rv_icon :: file_icon
  rv_name :: string
  rv_starred_mark :: bool
  rv_view_hint :: bool
  rv_size :: size_cell
  rv_actions :: actions_view
  rv_pointer :: bool

definition render_row :: "file_row \<Rightarrow> row_view" where
  "render_row file =
     \<lparr>rv_id = row_id file, rv_icon = FileIcon file, rv_name = name file,
      rv_starred_mark = (isStarred file \<and> \<not> isTrash file),
      rv_view_hint = (is_image (mime_type file) \<and> \<not> isFolder file \<and> \<not> isTrash file),
      rv_size = size_cell file, rv_actions = FileActions file,
      rv_pointer = (isFolder file \<or> is_image (mime_type file))\<rparr>"

datatype list_body = EmptyState string | Rows "row_view list"

record list_view =
  lv_tabs :: "string \<times> tab list"
  lv_header :: "header_button list"
  lv_breadcrumbs :: "crumb list option"
  lv_body :: list_body
  lv_delete_modal :: "string option"
  lv_empty_modal :: "string option"

datatype screen = LoadingScreen | ListScreen (the_view: list_view)

definition FileList_view :: "file_list_state \<Rightarrow> screen" where
  "FileList_view s =
     (if loading s then LoadingScreen
      else let fs = filteredFiles (activeTab s) (files s) in
        ListScreen
         \<lparr>lv_tabs = FileTabs (activeTab s) (allFilesCount (files s)) (starredCount (files s)) (trashCount (files s)),
          lv_header = FileListHeaderActions (activeTab s) (trashCount (files s)),
          lv_breadcrumbs = (if activeTab s = ''all'' then Some (breadcrumbs (folderPath s)) else None),
          lv_body = (if fs = [] then EmptyState (activeTab s) else Rows (map render_row fs)),
          lv_delete_modal =
            (if deleteModalOpen s
             then Some (''Permanently delete \"'' @ (case selectedFile s of Some f \<Rightarrow> name f | None \<Rightarrow> ''undefined'')
                        @ ''\"? This action cannot be undone.'')
             else None),
          lv_empty_modal =
            (if emptyTrashModalOpen s
             then Some (''Permanently delete all '' @ string_of_nat (trashCount (files s))
                        @ '' items in the trash? This action cannot be undone.'')
             else None)\<rparr>)"

subsection \<open>Requests and demonstration data\<close>

text \<open>
  A request is accepted when the server answers it without an error; \<open>dispatched\<close>
  is the request a press of a menu item finally sends, through the confirmation
  modal for a permanent delete.
\<close>

definition accepted :: "timestamp \<Rightarrow> user_id \<Rightarrow> ui_action \<Rightarrow> store \<Rightarrow> bool" where
  "accepted now uid a st \<longleftrightarrow> (case apply_op now (request_op uid a) st of Inl _ \<Rightarrow> False | Inr _ \<Rightarrow> True)"

definition dispatched :: "string \<Rightarrow> file_row \<Rightarrow> menu_item \<Rightarrow> file_list_state \<Rightarrow> ui_action option" where
  "dispatched endpoint f item s =
     (case onPressMenu endpoint f item s of
        (s', Dispatch a) \<Rightarrow> Some a
      | (s', NoRowEffect) \<Rightarrow> confirmDelete s'
      | (s', StartDownload _) \<Rightarrow> None)"

text \<open>
  Demonstration data: the client of the Client theory after b.txt was moved to the
  trash and the Trash tab opened, and a file one byte short of a mebibyte.
\<close>

definition demo_tb :: file_row where
  "demo_tb = demo_b\<lparr>isTrash := True\<rparr>"

definition demo_trash_store :: store where
  "demo_trash_store = \<lparr>rows = [demo_docs, demo_file, demo_tb], next_id = 3\<rparr>"

definition demo_trash_client :: file_list_state where
  "demo_trash_client = demo_client\<lparr>files := [demo_docs, demo_tb], activeTab := ''trash''\<rparr>"

definition demo_big :: file_row where
  "demo_big = demo_b\<lparr>file_size := 1048575\<rparr>"


subsection \<open>Lemmas\<close>

lemma synced_lookup:
  assumes "store_wf st" "synced uid s st" "f \<in> set (files s)"
  obtains r where "lookup_owned uid (row_id f) st = Some r" "isTrash r = isTrash f"
proof -
  from assms(2,3) have "strip f \<in> strip ` set (list_entries uid (currentFolderId s) st)"
    unfolding synced_def by (metis image_eqI list.set_map)
  then obtain r where r: "r \<in> set (rows st)" "userId r = uid" "strip r = strip f"
    by (auto simp: list_entries_def)
  then have "row_id r = row_id f" "isTrash r = isTrash f"
    by (metis strip_fields(1), metis strip_fields(5))
  moreover from assms(1) r(1) have "find_row (rows st) (row_id r) = Some r"
    by (simp add: store_wf_def find_row_distinct)
  ultimately show ?thesis using r(2) that by (simp add: lookup_owned_def)
qed


lemma accepted_lookup:
  assumes "lookup_owned uid i st = Some r"
  shows "accepted now uid (StarAction i) st" "accepted now uid (TrashAction i) st"
    "isTrash r \<Longrightarrow> accepted now uid (DeleteAction i) st"
  using assms by (simp_all add: accepted_def toggle_star_def toggle_trash_def delete_permanently_def)

lemma dispatched_simps:
  "dispatched endpoint f MenuDownload s = None"
  "dispatched endpoint f MenuTrashRestore s = Some (TrashAction (row_id f))"
  "dispatched endpoint f MenuDelete s = Some (DeleteAction (row_id f))"
  by (simp_all add: dispatched_def onPressMenu_def confirmDelete_def)

lemma menu_delete_trashed: "MenuDelete \<in> fst ` set (menu (FileActions f)) \<Longrightarrow> isTrash f"
  by (auto simp: FileActions_def dropdownItems_def split: if_splits)

lemma FileList_view_body:
  assumes "FileList_view s = ListScreen v"
  shows "lv_body v =
    (if filteredFiles (activeTab s) (files s) = [] then EmptyState (activeTab s)
     else Rows (map render_row (filteredFiles (activeTab s) (files s))))"
  using assms by (cases "loading s") (auto simp: FileList_view_def Let_def split del: if_split)

lemma FileList_view_loaded:
  assumes "\<not> loading s"
  shows "FileList_view s = ListScreen (the_view (FileList_view s))"
  unfolding FileList_view_def if_not_P [OF assms] Let_def by (simp only: screen.sel)

lemma filteredFiles_trash_iff:
  "f \<in> set (filteredFiles tab fs) \<Longrightarrow> isTrash f \<longleftrightarrow> tab = ''trash''"
  "f \<in> set (filteredFiles ''starred'' fs) \<Longrightarrow> isStarred f"
  by (auto simp: filteredFiles_def split: if_splits)

lemma fixed1_bounds:
  assumes "0 < d"
  shows "d * fixed1 x d \<le> 10 * x + d div 2 \<and> 10 * x + d div 2 < d * fixed1 x d + d"
proof -
  let ?q = "10 * x + d div 2"
  have "?q = d * (?q div d) + ?q mod d" by simp
  moreover have "0 \<le> ?q mod d" "?q mod d < d" using assms by simp_all
  ultimately show ?thesis unfolding fixed1_def by linarith
qed


lemma demo_trash_client_facts:
  "\<not> loading demo_trash_client" "filteredFiles (activeTab demo_trash_client) (files demo_trash_client) = [demo_tb]"
  "activeTab demo_trash_client = ''trash''"
  by (simp_all add: demo_trash_client_def demo_client_def initial_list_state_def filteredFiles_def demo_tb_def
      demo_b_def demo_defs row_simps payload_def)

lemma demo_trash_facts:
  "store_wf demo_trash_store" "synced ''u'' demo_trash_client demo_trash_store"
  "FileList_view demo_trash_client = ListScreen (the_view (FileList_view demo_trash_client))"
  "lv_body (the_view (FileList_view demo_trash_client)) = Rows [render_row demo_tb]"
proof -
  show "store_wf demo_trash_store" "synced ''u'' demo_trash_client demo_trash_store"
    by (simp_all add: demo_trash_store_def demo_trash_client_def demo_tb_def demo_b_def demo_client_def demo_defs
        initial_list_state_def store_wf_def synced_def list_entries_def row_simps payload_def)
  show v: "FileList_view demo_trash_client = ListScreen (the_view (FileList_view demo_trash_client))"
    using FileList_view_loaded demo_trash_client_facts(1) .
  show "lv_body (the_view (FileList_view demo_trash_client)) = Rows [render_row demo_tb]"
    using FileList_view_body [OF v] by (simp add: demo_trash_client_facts(2))
qed

lemma demo_big_facts:
  "\<not> isFolder demo_big" "1024 \<le> file_size demo_big" "int4_range (file_size demo_big)"
  "size_cell demo_big = SizeText ''1024.0 KB''"
proof -
  have f: "\<not> isFolder demo_big" "file_size demo_big = 1048575"
    by (simp_all add: demo_big_def demo_b_def row_simps payload_def demo_defs)
  then show "\<not> isFolder demo_big" "1024 \<le> file_size demo_big" "int4_range (file_size demo_big)"
    by (simp_all add: int4_range_def)
  from f have "size_cell demo_big = SizeText (show_fixed1 (fixed1 1048575 1024) @ '' KB'')"
    by (simp add: size_cell_def size_text_def)
  moreover have "fixed1 1048575 1024 = 10240" by (simp add: fixed1_def)
  moreover have "string_of_nat 1024 = ''1024''" by code_simp
  moreover have "string_of_nat 0 = ''0''" by code_simp
  ultimately have "size_cell demo_big = SizeText (show_fixed1 10240 @ '' KB'')" by simp
  moreover have "show_fixed1 10240 = string_of_nat 1024 @ ''.'' @ string_of_nat 0"
    by (simp add: show_fixed1_def)
  ultimately show "size_cell demo_big = SizeText ''1024.0 KB''"
    using \<open>string_of_nat 1024 = ''1024''\<close> \<open>string_of_nat 0 = ''0''\<close> by simp
qed

subsection \<open>Properties of the rendered list\<close>

text \<open>
  C7 (offered_actions_accepted). When the client's list agrees with the server and the
  store is well formed, every control a row offers leads to a request the server
  accepts: the star button, Move to Trash or Restore, and Delete Permanently after its
  confirmation (offered only for trashed rows, which the server requires); Download is
  the only item that sends no request.
\<close>

theorem offered_actions_accepted:
  assumes "store_wf st" "synced uid s st" "f \<in> set (files s)" "item \<in> fst ` set (menu (FileActions f))"
  shows "(star_button (FileActions f) \<noteq> None \<longrightarrow> accepted now uid (StarAction (row_id f)) st)
       \<and> (case dispatched endpoint f item s of None \<Rightarrow> item = MenuDownload | Some a \<Rightarrow> accepted now uid a st)"
proof -
  obtain r where r: "lookup_owned uid (row_id f) st = Some r" "isTrash r = isTrash f"
    using synced_lookup [OF assms(1-3)] .
  show ?thesis
    using assms(4) menu_delete_trashed [of f] accepted_lookup [OF r(1)] r(2)
    by (cases item) (simp_all add: dispatched_simps)
qed

text \<open>
  C8 (rendered_rows_match_tab). In the rendered table, a row offers Delete Permanently
  and hides the star button exactly on the Trash tab, and every row of the Starred tab
  carries the star marker.
\<close>

theorem rendered_rows_match_tab:
  assumes "FileList_view s = ListScreen v" "lv_body v = Rows rs" "rv \<in> set rs"
  shows "(MenuDelete \<in> fst ` set (menu (rv_actions rv)) \<longleftrightarrow> activeTab s = ''trash'')
       \<and> (star_button (rv_actions rv) = None \<longleftrightarrow> activeTab s = ''trash'')
       \<and> (activeTab s = ''starred'' \<longrightarrow> rv_starred_mark rv)"
proof -
  from assms obtain f where f: "f \<in> set (filteredFiles (activeTab s) (files s))" "rv = render_row f"
    by (auto simp: FileList_view_body [OF assms(1)] split: if_splits)
  have "MenuDelete \<in> fst ` set (menu (FileActions f)) \<longleftrightarrow> isTrash f"
       "star_button (FileActions f) = None \<longleftrightarrow> isTrash f"
    by (auto simp: FileActions_def dropdownItems_def)
  with f filteredFiles_trash_iff(1) [OF f(1)] show ?thesis
    by (auto simp: render_row_def filteredFiles_trash_iff)
qed

text \<open>
  C19 (size_cell_rounding). For a file of at least 1024 bytes whose size fits the
  \<^verbatim>\<open>int4\<close> column, the size column shows a number of tenths rounded to the
  nearest: in KB below one mebibyte, where it can reach 1024.0, in MB above, up to
  2048.0.
\<close>

theorem size_cell_rounding:
  assumes "\<not> isFolder f" "1024 \<le> file_size f" "int4_range (file_size f)"
  shows "\<exists>n u. size_cell f = SizeText (show_fixed1 n @ u) \<and> 10 \<le> n
           \<and> (u = '' KB'' \<and> n \<le> 10240 \<and> \<bar>10 * file_size f - 1024 * n\<bar> \<le> 512
              \<or> u = '' MB'' \<and> n \<le> 20480 \<and> \<bar>10 * file_size f - 1048576 * n\<bar> \<le> 524288)"
proof (cases "file_size f < 1048576")
  case True
  let ?n = "fixed1 (file_size f) 1024"
  have "1024 * ?n \<le> 10 * file_size f + 512" "10 * file_size f + 512 < 1024 * ?n + 1024"
    using fixed1_bounds [of 1024 "file_size f"] by simp_all
  with True assms(2) have "10 \<le> ?n \<and> ?n \<le> 10240 \<and> \<bar>10 * file_size f - 1024 * ?n\<bar> \<le> 512"
    by linarith
  moreover have "size_cell f = SizeText (show_fixed1 ?n @ '' KB'')"
    using True assms(1,2) by (simp add: size_cell_def size_text_def)
  ultimately show ?thesis by blast
next
  case False
  let ?n = "fixed1 (file_size f) 1048576"
  have "1048576 * ?n \<le> 10 * file_size f + 524288" "10 * file_size f + 524288 < 1048576 * ?n + 1048576"
    using fixed1_bounds [of 1048576 "file_size f"] by simp_all
  moreover have "file_size f < 2147483648" using assms(3) by (simp add: int4_range_def)
  ultimately have "10 \<le> ?n \<and> ?n \<le> 20480 \<and> \<bar>10 * file_size f - 1048576 * ?n\<bar> \<le> 524288"
    using False by linarith
  moreover have "size_cell f = SizeText (show_fixed1 ?n @ '' MB'')"
    using False assms(1,2) by (simp add: size_cell_def size_text_def)
  ultimately show ?thesis by blast
qed

theorem offered_actions_accepted_witness:
  "store_wf demo_trash_store \<and> synced ''u'' demo_trash_client demo_trash_store
   \<and> demo_tb \<in> set (files demo_trash_client) \<and> MenuDelete \<in> fst ` set (menu (FileActions demo_tb))
   \<and> dispatched '''' demo_tb MenuDelete demo_trash_client = Some (DeleteAction 2)
   \<and> accepted 5 ''u'' (DeleteAction 2) demo_trash_store"
proof -
  have mem: "demo_tb \<in> set (files demo_trash_client)" "MenuDelete \<in> fst ` set (menu (FileActions demo_tb))"
    by (simp_all add: demo_trash_client_def demo_tb_def FileActions_def dropdownItems_def)
  have "row_id demo_tb = 2" by (simp add: demo_tb_def demo_b_def row_simps)
  with offered_actions_accepted [OF demo_trash_facts(1,2) mem, of 5 "''''"] demo_trash_facts(1,2) mem
  show ?thesis by (simp add: dispatched_simps)
qed

theorem rendered_rows_match_tab_witness:
  "FileList_view demo_trash_client = ListScreen (the_view (FileList_view demo_trash_client))
   \<and> lv_body (the_view (FileList_view demo_trash_client)) = Rows [render_row demo_tb]
   \<and> MenuDelete \<in> fst ` set (menu (rv_actions (render_row demo_tb)))
   \<and> star_button (rv_actions (render_row demo_tb)) = None"
  using rendered_rows_match_tab [OF demo_trash_facts(3,4), of "render_row demo_tb"] demo_trash_facts(3,4)
  by (simp add: demo_trash_client_facts(3))

theorem size_cell_rounding_witness:
  "\<not> isFolder demo_big \<and> 1024 \<le> file_size demo_big \<and> int4_range (file_size demo_big)
   \<and> (\<exists>n u. size_cell demo_big = SizeText (show_fixed1 n @ u) \<and> 10 \<le> n
           \<and> (u = '' KB'' \<and> n \<le> 10240 \<and> \<bar>10 * file_size demo_big - 1024 * n\<bar> \<le> 512
              \<or> u = '' MB'' \<and> n \<le> 20480 \<and> \<bar>10 * file_size demo_big - 1048576 * n\<bar> \<le> 524288))"
  by (intro conjI demo_big_facts(1-3) size_cell_rounding [OF demo_big_facts(1-3)])

end
