(* ===== verification/Upload.thy ===== *)
theory Upload
  imports FileListView
begin

text \<open>
  The upload dialog, src/components/FileUploadModal.tsx.  Its state
  (\<open>upload_modal\<close>: the chosen browser file, the uploading flag, the progress, the
  error and the success flag), the file checks of \<open>validateAndSetFile\<close> (at most
  5 MiB, one of six MIME types), the file picker and the drop zone, \<open>clearFile\<close>,
  \<open>handleUpload\<close> split at its await (the request it sends, then
  \<open>settle_upload\<close>), the progress callback with \<^verbatim>\<open>Math.round\<close> written out, and
  the rendered dialog.  The events a user, the browser and the network can deliver
  form the step function \<open>upload_step\<close>; \<open>upload_reachable\<close> are the states
  reachable from the initial one, with the progress callback's \<open>loaded \<le> tot\<close>
  as the premise of its rule.
\<close>

record browser_file =
  bf_name :: string
  bf_size :: nat
  bf_type :: string

record upload_modal =
  up_file :: "browser_file option"
  uploading :: bool
  progress :: nat
  up_error :: "string option"
  isSuccess :: bool

definition upload_modal_init :: upload_modal where
  "upload_modal_init = \<lparr>up_file = None, uploading = False, progress = 0, up_error = None, isSuccess = False\<rparr>"

definition reset_upload :: "bool \<Rightarrow> upload_modal \<Rightarrow> upload_modal" where
  "reset_upload isOpen m = (if \<not> isOpen then upload_modal_init else m)"

definition maxSize :: nat where
  "maxSize = 5 * 1024 * 1024"

definition allowedTypes :: "string list" where
  "allowedTypes = [''image/jpeg'', ''image/png'', ''image/gif'', ''image/webp'', ''application/pdf'', ''text/plain'']"

definition validateAndSetFile :: "browser_file \<Rightarrow> upload_modal \<Rightarrow> upload_modal" where
  "validateAndSetFile f m0 =
     (let m = m0\<lparr>up_error := None, isSuccess := False\<rparr> in
      if maxSize < bf_size f then
        m\<lparr>up_error := Some (''File size exceeds '' @ string_of_nat (maxSize div (1024 * 1024)) @ ''MB limit.''),
          up_file := None\<rparr>
      else if bf_type f \<notin> set allowedTypes then
        m\<lparr>up_error := Some ''Invalid file type. Supported: JPG, PNG, GIF, WebP, PDF, TXT'', up_file := None\<rparr>
      else m\<lparr>up_file := Some f, up_error := None\<rparr>)"

definition handleFileChange :: "browser_file list \<Rightarrow> upload_modal \<Rightarrow> upload_modal" where
  "handleFileChange fs m = (case fs of [] \<Rightarrow> m | f # _ \<Rightarrow> validateAndSetFile f m)"

definition handleDrop :: "browser_file list \<Rightarrow> upload_modal \<Rightarrow> upload_modal" where
  "handleDrop fs m0 =
     (let m = m0\<lparr>isSuccess := False\<rparr> in case fs of [] \<Rightarrow> m | f # _ \<Rightarrow> validateAndSetFile f m)"

definition clearFile :: "upload_modal \<Rightarrow> upload_modal" where
  "clearFile m = m\<lparr>up_file := None, up_error := None, isSuccess := False\<rparr>"

definition dismissError :: "upload_modal \<Rightarrow> upload_modal" where
  "dismissError m = m\<lparr>up_error := None\<rparr>"

text \<open>The multipart form: the file, the owner, and the folder when there is one.\<close>

record upload_request =
  req_file :: browser_file
  req_userId :: user_id
  req_parentId :: "file_id option"

definition handleUpload ::
  "user_id \<Rightarrow> file_id option \<Rightarrow> upload_modal \<Rightarrow> upload_modal \<times> upload_request option" where
  "handleUpload uid cur m =
     (case up_file m of
        None \<Rightarrow> (m, None)
      | Some f \<Rightarrow>
          if uploading m \<or> isSuccess m then (m, None)
          else (m\<lparr>uploading := True, progress := 0, up_error := None, isSuccess := False\<rparr>,
                Some \<lparr>req_file = f, req_userId = uid, req_parentId = cur\<rparr>))"

text \<open>\<^verbatim>\<open>Math.round(loaded * 100 / total)\<close>, that is \<open>\<lfloor>x + 1/2\<rfloor>\<close>, in integers.\<close>

definition onUploadProgress :: "nat \<Rightarrow> nat \<Rightarrow> upload_modal \<Rightarrow> upload_modal" where
  "onUploadProgress loaded tot m =
     (if tot = 0 then m else m\<lparr>progress := (200 * loaded + tot) div (2 * tot)\<rparr>)"

definition upload_error_message :: "string option \<Rightarrow> string" where
  "upload_error_message body =
     (case body of
        Some e \<Rightarrow> if e = [] then ''Failed to upload file. Please try again.'' else e
      | None \<Rightarrow> ''Failed to upload file. Please try again.'')"

text \<open>After the await: the flag is whether \<^verbatim>\<open>onUploadSuccess\<close> is scheduled.\<close>

definition settle_upload :: "string option + unit \<Rightarrow> upload_modal \<Rightarrow> upload_modal \<times> bool" where
  "settle_upload resp m =
     (case resp of
        Inr _ \<Rightarrow> (m\<lparr>isSuccess := True, progress := 100, uploading := False\<rparr>, True)
      | Inl body \<Rightarrow> (m\<lparr>up_error := Some (upload_error_message body), uploading := False\<rparr>, False))"

definition upload_button_shown :: "upload_modal \<Rightarrow> bool" where
  "upload_button_shown m \<longleftrightarrow> up_file m \<noteq> None \<and> \<not> isSuccess m"

definition upload_button_disabled :: "upload_modal \<Rightarrow> bool" where
  "upload_button_disabled m \<longleftrightarrow> up_error m \<noteq> None \<or> uploading m"

definition onPressUpload ::
  "user_id \<Rightarrow> file_id option \<Rightarrow> upload_modal \<Rightarrow> upload_modal \<times> upload_request option" where
  "onPressUpload uid cur m =
     (if upload_button_shown m \<and> \<not> upload_button_disabled m then handleUpload uid cur m else (m, None))"

subsection \<open>Events and reachable states\<close>

datatype upload_event =
    PickFiles "browser_file list" | DropFiles "browser_file list" | ClearFile | DismissError
  | PressUpload | Progress nat nat | Answer "string option + unit" | CloseDialog

fun upload_step :: "user_id \<Rightarrow> file_id option \<Rightarrow> upload_event \<Rightarrow> upload_modal \<Rightarrow> upload_modal" where
  "upload_step uid cur (PickFiles fs) m = handleFileChange fs m"
| "upload_step uid cur (DropFiles fs) m = handleDrop fs m"
| "upload_step uid cur ClearFile m = clearFile m"
| "upload_step uid cur DismissError m = dismissError m"
| "upload_step uid cur PressUpload m = fst (onPressUpload uid cur m)"
| "upload_step uid cur (Progress loaded tot) m = onUploadProgress loaded tot m"
| "upload_step uid cur (Answer r) m = fst (settle_upload r m)"
| "upload_step uid cur CloseDialog m = reset_upload False m"

inductive upload_reachable :: "user_id \<Rightarrow> file_id option \<Rightarrow> upload_modal \<Rightarrow> bool" where
  init: "upload_reachable uid cur upload_modal_init"
| progress: "upload_reachable uid cur m \<Longrightarrow> loaded \<le> tot \<Longrightarrow>
      upload_reachable uid cur (upload_step uid cur (Progress loaded tot) m)"
| step: "upload_reachable uid cur m \<Longrightarrow> \<not> (\<exists>l t. e = Progress l t) \<Longrightarrow>
      upload_reachable uid cur (upload_step uid cur e m)"

subsection \<open>The rendered dialog (lines 176--312)\<close>

datatype drop_content = Prompt | Preview string string bool "nat option" | Uploaded string | NoContent

record upload_view =
  uv_border :: string
  uv_content :: drop_content
  uv_error :: "string option"
  uv_close_label :: string
  uv_upload_button :: "(string \<times> bool) option"

definition FileUploadModal_view :: "upload_modal \<Rightarrow> upload_view" where
  "FileUploadModal_view m =
     \<lparr>uv_border = (if up_error m \<noteq> None then ''danger'' else if isSuccess m then ''success''
                   else if up_file m \<noteq> None then ''primary'' else ''default''),
      uv_content =
        (case up_file m of
           None \<Rightarrow> if \<not> isSuccess m then Prompt else NoContent
         | Some f \<Rightarrow>
             if \<not> isSuccess m
             then Preview (bf_name f) (size_text (int (bf_size f))) (\<not> uploading m)
                    (if uploading m then Some (progress m) else None)
             else Uploaded (bf_name f @ '' uploaded successfully!'')),
      uv_error = up_error m,
      uv_close_label = (if isSuccess m then ''Close'' else ''Cancel''),
      uv_upload_button =
        (if upload_button_shown m
         then Some (if uploading m then ''Uploading... '' @ string_of_nat (progress m) @ ''%'' else ''Upload File'',
                    upload_button_disabled m)
         else None)\<rparr>"

text \<open>
  The upload request at the server: the content goes to the storage collaborator
  (\<open>stored\<close>), then \<^verbatim>\<open>upload_file\<close> inserts the row; the file's size is the
  value stored in the \<^verbatim>\<open>int4\<close> column.
\<close>

definition request_upload_op ::
  "(string \<times> string option) option \<Rightarrow> upload_request \<Rightarrow> server_op" where
  "request_upload_op stored r =
     OpUpload (req_userId r) (req_parentId r) (bf_name (req_file r)) (int (bf_size (req_file r)))
       (bf_type (req_file r)) stored"

text \<open>Three files: a small text file, a PNG image and a 6 MiB PDF.\<close>

definition demo_txt :: browser_file where
  "demo_txt = \<lparr>bf_name = ''a.txt'', bf_size = 12, bf_type = ''text/plain''\<rparr>"

definition demo_png :: browser_file where
  "demo_png = \<lparr>bf_name = ''b.png'', bf_size = 2048, bf_type = ''image/png''\<rparr>"

definition demo_huge :: browser_file where
  "demo_huge = \<lparr>bf_name = ''scan.pdf'', bf_size = 6291456, bf_type = ''application/pdf''\<rparr>"

text \<open>The checks a chosen file has passed, and the dialog's invariant.\<close>

definition file_ok :: "browser_file \<Rightarrow> bool" where
  "file_ok f \<longleftrightarrow> bf_size f \<le> maxSize \<and> bf_type f \<in> set allowedTypes"

definition upload_inv :: "upload_modal \<Rightarrow> bool" where
  "upload_inv m \<longleftrightarrow>
     (case up_file m of None \<Rightarrow> True | Some f \<Rightarrow> file_ok f) \<and> progress m \<le> 100 \<and> \<not> (uploading m \<and> isSuccess m)"


subsection \<open>Lemmas\<close>

lemma validateAndSetFile_fields [simp]:
  "uploading (validateAndSetFile f m) = uploading m"
  "progress (validateAndSetFile f m) = progress m"
  "\<not> isSuccess (validateAndSetFile f m)"
  "up_file (validateAndSetFile f m) = (if file_ok f then Some f else None)"
  by (simp_all add: validateAndSetFile_def Let_def file_ok_def)

lemma validateAndSetFile_ok_error [simp]: "file_ok f \<Longrightarrow> up_error (validateAndSetFile f m) = None"
  by (simp add: validateAndSetFile_def Let_def file_ok_def)

lemma progress_le_100:
  assumes "(loaded::nat) \<le> tot" "0 < tot"
  shows "(200 * loaded + tot) div (2 * tot) \<le> 100"
proof -
  have "200 * loaded + tot < 101 * (2 * tot)" using assms by linarith
  then have "(200 * loaded + tot) div (2 * tot) < 101" by (rule less_mult_imp_div_less)
  then show ?thesis by simp
qed

lemma upload_step_inv:
  assumes "upload_inv m" "\<not> (\<exists>l t. e = Progress l t)"
  shows "upload_inv (upload_step uid cur e m)"
  using assms
  by (cases e) (auto simp: upload_inv_def handleFileChange_def handleDrop_def clearFile_def dismissError_def
      onPressUpload_def handleUpload_def settle_upload_def reset_upload_def upload_modal_init_def Let_def
      split: list.splits option.splits sum.splits)

lemma upload_progress_inv:
  "upload_inv m \<Longrightarrow> loaded \<le> tot \<Longrightarrow> upload_inv (onUploadProgress loaded tot m)"
  by (simp add: upload_inv_def onUploadProgress_def progress_le_100)

lemma sint_to_int4: "int4_range x \<Longrightarrow> sint (to_int4 x) = x"
  by (simp add: to_int4_def int4_range_def sint_sbintrunc' signed_take_bit_int_eq_self)

lemma maxSize_int4: "n \<le> maxSize \<Longrightarrow> int4_range (int n)"
  by (simp add: maxSize_def int4_range_def)

lemma onPressUpload_Some:
  "snd (onPressUpload uid cur m) = Some r \<Longrightarrow>
     up_file m = Some (req_file r) \<and> req_userId r = uid \<and> req_parentId r = cur"
  by (auto simp: onPressUpload_def handleUpload_def split: if_splits option.splits)

lemma maxSize_text: "string_of_nat (maxSize div 1048576) = ''5''"
  by (simp add: maxSize_def) code_simp

lemma upload_reachable_fold:
  "upload_reachable uid cur m \<Longrightarrow> list_all (\<lambda>e. \<not> (\<exists>l t. e = Progress l t)) evs \<Longrightarrow>
     upload_reachable uid cur (fold (upload_step uid cur) evs m)"
  by (induction evs arbitrary: m) (simp_all add: upload_reachable.step)

lemma demo_upload_files: "file_ok demo_txt" "file_ok demo_png"
  by (simp_all add: file_ok_def demo_txt_def demo_png_def maxSize_def allowedTypes_def)

subsection \<open>Properties of the dialog\<close>

text \<open>
  C12 (upload_reachable_inv). In every state the dialog can reach, a chosen file has passed the size and type
  checks, the progress is at most 100, and an upload is never in flight and
  successful at once.
\<close>

theorem upload_reachable_inv: "upload_reachable uid cur m \<Longrightarrow> upload_inv m"
proof (induction rule: upload_reachable.induct)
  case init
  show ?case by (simp add: upload_inv_def upload_modal_init_def)
next
  case (progress m loaded tot)
  then show ?case by (simp add: upload_progress_inv)
next
  case (step uid cur m e)
  then show ?case by (simp add: upload_step_inv)
qed

text \<open>
  C15 (onUploadProgress_rounding). For a progress event with \<open>loaded \<le> total\<close> and a positive total, the shown
  percentage is at most 100 and is \<open>100 * loaded / total\<close> rounded to the nearest
  integer.
\<close>

theorem onUploadProgress_rounding:
  assumes "loaded \<le> tot" "0 < tot"
  shows "progress (onUploadProgress loaded tot m) \<le> 100
       \<and> 2 * \<bar>int (progress (onUploadProgress loaded tot m)) * int tot - 100 * int loaded\<bar> \<le> int tot"
proof -
  define p where "p = (200 * loaded + tot) div (2 * tot)"
  have "200 * loaded + tot = 2 * tot * p + (200 * loaded + tot) mod (2 * tot)" by (simp add: p_def)
  moreover have "(200 * loaded + tot) mod (2 * tot) < 2 * tot" using assms(2) by simp
  ultimately have "2 * tot * p \<le> 200 * loaded + tot" "200 * loaded + tot < 2 * tot * p + 2 * tot"
    by linarith+
  then have "int (2 * tot * p) \<le> int (200 * loaded + tot)" "int (200 * loaded + tot) < int (2 * tot * p + 2 * tot)"
    by (simp_all only: of_nat_le_iff of_nat_less_iff)
  then have "2 * (int p * int tot) \<le> 200 * int loaded + int tot"
            "200 * int loaded + int tot < 2 * (int p * int tot) + 2 * int tot"
    by (simp_all add: algebra_simps)
  moreover define q where "q = int p * int tot"
  ultimately have "2 * q \<le> 200 * int loaded + int tot" "200 * int loaded + int tot < 2 * q + 2 * int tot"
    by simp_all
  then have "\<bar>q - 100 * int loaded\<bar> * 2 \<le> int tot"
  proof (cases "0 \<le> q - 100 * int loaded")
    case True
    then have eq: "\<bar>q - 100 * int loaded\<bar> = q - 100 * int loaded" by simp
    show ?thesis unfolding eq using \<open>2 * q \<le> 200 * int loaded + int tot\<close> by (simp add: algebra_simps)
  next
    case False
    then have eq: "\<bar>q - 100 * int loaded\<bar> = 100 * int loaded - q" by simp
    show ?thesis unfolding eq using \<open>200 * int loaded + int tot < 2 * q + 2 * int tot\<close> by (simp add: algebra_simps)
  qed
  then have "2 * \<bar>int p * int tot - 100 * int loaded\<bar> \<le> int tot" by (simp add: q_def mult.commute)
  then have "2 * \<bar>int ((200 * loaded + tot) div (2 * tot)) * int tot - 100 * int loaded\<bar> \<le> int tot"
    by (simp add: p_def)
  with assms show ?thesis by (simp add: onUploadProgress_def progress_le_100)
qed

text \<open>
  C14 (validate_error_paths). A chosen file is kept exactly when it passes the checks; a file over 5 MiB is
  dropped with the size message, one of another type with the type message, and an
  accepted file clears the error.
\<close>

theorem validate_error_paths:
  "(up_file (validateAndSetFile f m) = Some f \<longleftrightarrow> file_ok f)
   \<and> (maxSize < bf_size f \<longrightarrow>
        up_error (validateAndSetFile f m) = Some ''File size exceeds 5MB limit.'' \<and> up_file (validateAndSetFile f m) = None)
   \<and> (bf_size f \<le> maxSize \<and> bf_type f \<notin> set allowedTypes \<longrightarrow>
        up_error (validateAndSetFile f m) = Some ''Invalid file type. Supported: JPG, PNG, GIF, WebP, PDF, TXT''
        \<and> up_file (validateAndSetFile f m) = None)
   \<and> (file_ok f \<longrightarrow> up_error (validateAndSetFile f m) = None)"
  by (auto simp: validateAndSetFile_def Let_def file_ok_def maxSize_text)

text \<open>
  C13 (upload_reports_wrong_file). The drop zone stays active during an upload: whenever
  a press of Upload sends the chosen file, a valid file dropped before the answer
  replaces the chosen one, and the success answer then makes the dialog announce the
  dropped file as uploaded, although the request carried the other.
\<close>

theorem upload_reports_wrong_file:
  assumes "onPressUpload uid cur m = (m1, Some req)" and "file_ok g"
  shows "up_file m = Some (req_file req) \<and> uploading m1
    \<and> (let m2 = fold (upload_step uid cur) [DropFiles (g # gs), Answer (Inr ())] m1 in
         up_file m2 = Some g \<and> isSuccess m2
         \<and> uv_content (FileUploadModal_view m2) = Uploaded (bf_name g @ '' uploaded successfully!''))"
proof -
  have h: "handleUpload uid cur m = (m1, Some req)"
    using assms(1) by (simp add: onPressUpload_def split: if_splits)
  then obtain f where f: "up_file m = Some f" "req_file req = f" "uploading m1"
    by (auto simp: handleUpload_def split: option.splits if_splits)
  have "up_file (fold (upload_step uid cur) [DropFiles (g # gs), Answer (Inr ())] m1) = Some g"
    "isSuccess (fold (upload_step uid cur) [DropFiles (g # gs), Answer (Inr ())] m1)"
    using assms(2) by (simp_all add: handleDrop_def settle_upload_def)
  with f show ?thesis by (simp add: FileUploadModal_view_def)
qed

theorem upload_reports_wrong_file_witness:
  "snd (onPressUpload ''u'' None (upload_step ''u'' None (PickFiles [demo_txt]) upload_modal_init))
     = Some \<lparr>req_file = demo_txt, req_userId = ''u'', req_parentId = None\<rparr>
   \<and> uv_content (FileUploadModal_view
       (fold (upload_step ''u'' None) [PickFiles [demo_txt], PressUpload, DropFiles [demo_png], Answer (Inr ())]
          upload_modal_init))
     = Uploaded ''b.png uploaded successfully!''"
proof -
  let ?m = "upload_step ''u'' None (PickFiles [demo_txt]) upload_modal_init"
  let ?req = "\<lparr>req_file = demo_txt, req_userId = ''u'', req_parentId = None\<rparr>"
  have s: "snd (onPressUpload ''u'' None ?m) = Some ?req"
    using demo_upload_files
    unfolding upload_step.simps handleFileChange_def
    by (simp add: onPressUpload_def upload_button_shown_def upload_button_disabled_def handleUpload_def
        upload_modal_init_def)
  have p: "onPressUpload ''u'' None ?m = (fst (onPressUpload ''u'' None ?m), Some ?req)"
    by (rule prod_eqI) (simp_all only: s fst_conv snd_conv)
  from upload_reports_wrong_file [OF p demo_upload_files(2), where gs = "[]"] s show ?thesis
    by (simp add: Let_def demo_png_def)
qed

theorem upload_reachable_inv_witness:
  "upload_reachable ''u'' None (upload_step ''u'' None (PickFiles [demo_txt]) upload_modal_init)
   \<and> upload_inv (upload_step ''u'' None (PickFiles [demo_txt]) upload_modal_init)"
proof -
  have r: "upload_reachable ''u'' None (upload_step ''u'' None (PickFiles [demo_txt]) upload_modal_init)"
    by (rule upload_reachable.step [OF upload_reachable.init]) simp
  from r upload_reachable_inv [OF r] show ?thesis by simp
qed
theorem onUploadProgress_rounding_witness:
  "(1::nat) \<le> 3 \<and> (0::nat) < 3 \<and> progress (onUploadProgress 1 3 upload_modal_init) = 33"
proof -
  have "progress (onUploadProgress 1 3 upload_modal_init) = 33" by (simp add: onUploadProgress_def)
  with onUploadProgress_rounding [of 1 3 upload_modal_init] show ?thesis by simp
qed

theorem validate_error_paths_witness:
  "maxSize < bf_size demo_huge
   \<and> up_error (validateAndSetFile demo_huge upload_modal_init) = Some ''File size exceeds 5MB limit.''
   \<and> up_file (validateAndSetFile demo_huge upload_modal_init) = None"
proof -
  have h: "maxSize < bf_size demo_huge" by (simp add: maxSize_def demo_huge_def)
  with validate_error_paths [of demo_huge upload_modal_init] show ?thesis by simp
qed

end
