(* ===== verification/Dashboard.thy ===== *)
theory Dashboard
  imports CreateFolder Upload
begin

text \<open>
  The dashboard, src/components/DashboardContent.tsx: its state (\<open>dashboard\<close>: the
  selected section, the refresh counter, the folder the dialogs create into and its
  label, and the two dialogs' open flags), its callbacks, and its composition with the
  file list it renders.  \<open>dash_sys\<close> pairs the dashboard with the mounted file list
  (\<open>None\<close> while the Profile section is shown: the list is rendered only on the
  files section, so leaving it unmounts the list and coming back mounts a fresh one).
  The file list reports navigation through \<^verbatim>\<open>onFolderChange\<close>, the dialogs report
  success through \<^verbatim>\<open>onCreateSuccess\<close> and \<^verbatim>\<open>onUploadSuccess\<close>, and a change of the
  refresh counter or of the list's folder refetches the list (its \<^verbatim>\<open>useEffect\<close>).
\<close>

record dashboard =
  dash_tab :: string
  refreshTrigger :: nat
  dash_folder :: "file_id option"
  currentFolderPath :: string
  isUploadModalOpen :: bool
  isFolderModalOpen :: bool

text \<open>The initial state with the section effect of lines 37--39 applied.\<close>

definition dashboard_init :: "string option \<Rightarrow> dashboard" where
  "dashboard_init tabParam =
     \<lparr>dash_tab = (if tabParam = Some ''profile'' then ''profile'' else ''files''), refreshTrigger = 0,
      dash_folder = None, currentFolderPath = ''My Files'', isUploadModalOpen = False,
      isFolderModalOpen = False\<rparr>"

definition handleActionSuccess :: "dashboard \<Rightarrow> dashboard" where
  "handleActionSuccess d = d\<lparr>refreshTrigger := Suc (refreshTrigger d)\<rparr>"

definition handleFolderChange :: "folder_change \<Rightarrow> dashboard \<Rightarrow> dashboard" where
  "handleFolderChange ch d =
     (case ch of (folderId, fname) \<Rightarrow>
        d\<lparr>dash_folder := folderId,
          currentFolderPath :=
            (if folderId \<noteq> None
             then ''My Files / '' @ (case fname of Some n \<Rightarrow> if n = [] then ''...'' else n | None \<Rightarrow> ''...'')
             else ''My Files'')\<rparr>)"

definition onSelectSection :: "string \<Rightarrow> dashboard \<Rightarrow> dashboard" where
  "onSelectSection key d = d\<lparr>dash_tab := key\<rparr>"

definition setIsFolderModalOpen :: "bool \<Rightarrow> dashboard \<Rightarrow> dashboard" where
  "setIsFolderModalOpen b d = d\<lparr>isFolderModalOpen := b\<rparr>"

definition setIsUploadModalOpen :: "bool \<Rightarrow> dashboard \<Rightarrow> dashboard" where
  "setIsUploadModalOpen b d = d\<lparr>isUploadModalOpen := b\<rparr>"

definition onCreateSuccess :: "dashboard \<Rightarrow> dashboard" where
  "onCreateSuccess d = handleActionSuccess (setIsFolderModalOpen False d)"

definition onUploadSuccess :: "dashboard \<Rightarrow> dashboard" where
  "onUploadSuccess d = handleActionSuccess (setIsUploadModalOpen False d)"

subsection \<open>The dashboard with its file list\<close>

text \<open>
  \<open>list_deps\<close> holds the values of the list effect's dependencies
  (\<^verbatim>\<open>[userId, refreshTrigger, currentFolderId]\<close>, FileList.tsx lines 75--77) at its last
  run; the user id does not change while the list is mounted.
\<close>

record dash_sys =
  dash :: dashboard
  mounted :: "file_list_state option"
  list_deps :: "nat \<times> file_id option"

datatype dash_event =
    SelectSection string | EnterFolder file_id string | GoUp | GoCrumb int
  | OpenFolderDialog | OpenUploadDialog | CreateSucceeded | UploadSucceeded

text \<open>
  The list's effect after a render: it refetches, with the store \<open>st\<close> current at that
  moment, exactly when the refresh counter it receives or its folder has changed since
  its last run.  A mount runs it once.
\<close>

definition list_effect :: "user_id \<Rightarrow> store \<Rightarrow> dash_sys \<Rightarrow> dash_sys" where
  "list_effect uid st ds =
     (case mounted ds of
        None \<Rightarrow> ds
      | Some l \<Rightarrow>
          if (refreshTrigger (dash ds), currentFolderId l) = list_deps ds then ds
          else ds\<lparr>mounted := Some (fetchFiles uid uid st l),
                  list_deps := (refreshTrigger (dash ds), currentFolderId l)\<rparr>)"

definition mount_list :: "user_id \<Rightarrow> store \<Rightarrow> dash_sys \<Rightarrow> dash_sys" where
  "mount_list uid st ds =
     ds\<lparr>mounted := Some (fetchFiles uid uid st initial_list_state), list_deps := (refreshTrigger (dash ds), None)\<rparr>"

text \<open>A navigation of the list changes its state and reports through \<^verbatim>\<open>onFolderChange\<close>.\<close>

definition list_nav :: "(file_list_state \<times> folder_change) option \<Rightarrow> dash_sys \<Rightarrow> dash_sys" where
  "list_nav r ds =
     (case r of
        None \<Rightarrow> ds
      | Some (l', ch) \<Rightarrow> ds\<lparr>dash := handleFolderChange ch (dash ds), mounted := Some l'\<rparr>)"

text \<open>
  The handlers of one event: the file list is rendered only on the files section
  (DashboardContent.tsx lines 104--150), so leaving it unmounts the list and coming back
  mounts a fresh one; the dialogs' success callbacks (lines 157--177) close their dialog
  and bump the refresh counter.
\<close>

fun dash_handle :: "user_id \<Rightarrow> store \<Rightarrow> dash_event \<Rightarrow> dash_sys \<Rightarrow> dash_sys" where
  "dash_handle uid st (SelectSection k) ds =
     (let ds' = ds\<lparr>dash := onSelectSection k (dash ds)\<rparr> in
      if k = ''files'' then (case mounted ds of Some _ \<Rightarrow> ds' | None \<Rightarrow> mount_list uid st ds')
      else ds'\<lparr>mounted := None\<rparr>)"
| "dash_handle uid st (EnterFolder i n) ds =
     (case mounted ds of None \<Rightarrow> ds | Some l \<Rightarrow> list_nav (Some (navigateToFolder i n l)) ds)"
| "dash_handle uid st GoUp ds =
     (case mounted ds of None \<Rightarrow> ds
      | Some l \<Rightarrow> list_nav (case navigateUp l of (l', ch) \<Rightarrow> map_option (Pair l') ch) ds)"
| "dash_handle uid st (GoCrumb k) ds =
     (case mounted ds of None \<Rightarrow> ds
      | Some l \<Rightarrow> list_nav (case navigateToPathFolder k l of Inl _ \<Rightarrow> None | Inr r \<Rightarrow> Some r) ds)"
| "dash_handle uid st OpenFolderDialog ds = ds\<lparr>dash := setIsFolderModalOpen True (dash ds)\<rparr>"
| "dash_handle uid st OpenUploadDialog ds = ds\<lparr>dash := setIsUploadModalOpen True (dash ds)\<rparr>"
| "dash_handle uid st CreateSucceeded ds = ds\<lparr>dash := onCreateSuccess (dash ds)\<rparr>"
| "dash_handle uid st UploadSucceeded ds = ds\<lparr>dash := onUploadSuccess (dash ds)\<rparr>"

definition dash_step :: "user_id \<Rightarrow> store \<Rightarrow> dash_event \<Rightarrow> dash_sys \<Rightarrow> dash_sys" where
  "dash_step uid st e ds = list_effect uid st (dash_handle uid st e ds)"

definition dash_sys_init :: "user_id \<Rightarrow> store \<Rightarrow> dash_sys" where
  "dash_sys_init uid st =
     \<lparr>dash = dashboard_init None, mounted = Some (fetchFiles uid uid st initial_list_state),
      list_deps = (0, None)\<rparr>"

text \<open>The dialogs create into the dashboard's folder; the list shows its own.\<close>

definition agree :: "dash_sys \<Rightarrow> bool" where
  "agree ds \<longleftrightarrow> (case mounted ds of None \<Rightarrow> True | Some l \<Rightarrow> dash_folder (dash ds) = currentFolderId l)"

text \<open>The effect has run for the current values of its dependencies.\<close>

definition effect_done :: "dash_sys \<Rightarrow> bool" where
  "effect_done ds \<longleftrightarrow>
     (case mounted ds of None \<Rightarrow> True | Some l \<Rightarrow> list_deps ds = (refreshTrigger (dash ds), currentFolderId l))"

inductive nav_reachable :: "user_id \<Rightarrow> store \<Rightarrow> dash_sys \<Rightarrow> bool" where
  init: "nav_reachable uid st (dash_sys_init uid st)"
| step: "nav_reachable uid st ds \<Longrightarrow> \<not> (\<exists>k. e = SelectSection k) \<Longrightarrow> nav_reachable uid st (dash_step uid st e ds)"

record dashboard_view =
  dv_welcome :: string
  dv_folder_label :: "string option"
  dv_profile :: bool

definition DashboardContent_view :: "string \<Rightarrow> dashboard \<Rightarrow> dashboard_view" where
  "DashboardContent_view userName d =
     \<lparr>dv_welcome = ''Welcome back, '' @ (if userName = [] then ''User'' else userName) @ ''!'',
      dv_folder_label = (if dash_tab d = ''files'' then Some (''Current Folder: '' @ currentFolderPath d) else None),
      dv_profile = (dash_tab d = ''profile'')\<rparr>"

text \<open>A dialog holding the name Notes.\<close>

definition demo_notes_modal :: folder_modal where
  "demo_notes_modal = folder_modal_init\<lparr>folderName := ''Notes''\<rparr>"


subsection \<open>Lemmas\<close>

lemma fetchFiles_currentFolderId [simp]: "currentFolderId (fetchFiles c u st s) = currentFolderId s"
  by (simp add: fetchFiles_def fetchFiles_with_def Let_def split: sum.splits)

lemma fetchFiles_files: "files (fetchFiles uid uid st l) = list_entries uid (currentFolderId l) st"
  by (simp add: fetchFiles_def fetchFiles_with_def list_files_def)

lemma folder_change_current:
  "snd (navigateToFolder i n l) = (currentFolderId (fst (navigateToFolder i n l)), Some n)"
  "navigateUp l = (l', Some ch) \<Longrightarrow> fst ch = currentFolderId l'"
  "navigateToPathFolder k l = Inr (l', ch) \<Longrightarrow> fst ch = currentFolderId l'"
  by (auto simp: navigateToFolder_def navigateUp_def navigateToPathFolder_def Let_def split: if_splits)

lemma handleFolderChange_folder [simp]: "dash_folder (handleFolderChange ch d) = fst ch"
  by (simp add: handleFolderChange_def split: prod.splits)

text \<open>The effect keeps the dashboard and the list's folder, and has run afterwards.\<close>

lemma list_effect_keeps:
  "dash (list_effect uid st ds) = dash ds"
  "map_option currentFolderId (mounted (list_effect uid st ds)) = map_option currentFolderId (mounted ds)"
  "effect_done (list_effect uid st ds)"
  by (auto simp: list_effect_def effect_done_def split: option.split)

lemma list_effect_agree: "agree (list_effect uid st ds) = agree ds"
  by (auto simp: agree_def list_effect_def split: option.split)

lemma list_effect_refetch:
  assumes "mounted ds = Some l" "list_deps ds \<noteq> (refreshTrigger (dash ds), currentFolderId l)"
  shows "mounted (list_effect uid st ds) = Some (fetchFiles uid uid st l)"
  using assms by (simp add: list_effect_def)

lemma dash_step_effect_done: "effect_done (dash_step uid st e ds)"
  by (simp add: dash_step_def list_effect_keeps(3))

lemma dash_handle_agree:
  assumes "agree ds" "mounted ds \<noteq> None" "\<not> (\<exists>k. e = SelectSection k)"
  shows "agree (dash_handle uid st e ds) \<and> mounted (dash_handle uid st e ds) \<noteq> None"
proof -
  obtain l where l: "mounted ds = Some l" using assms(2) by auto
  show ?thesis
  proof (cases e)
    case (EnterFolder i n)
    with l show ?thesis by (simp add: list_nav_def agree_def navigateToFolder_def)
  next
    case GoUp
    with l assms(1) show ?thesis
      by (auto simp: list_nav_def agree_def dest: folder_change_current(2) split: prod.splits option.splits)
  next
    case (GoCrumb k)
    with l assms(1) show ?thesis
      by (auto simp: list_nav_def agree_def dest: folder_change_current(3) split: sum.splits)
  qed (use assms l in \<open>auto simp: agree_def setIsFolderModalOpen_def setIsUploadModalOpen_def onCreateSuccess_def
         onUploadSuccess_def handleActionSuccess_def\<close>)
qed

lemma dash_step_agree:
  assumes "agree ds" "mounted ds \<noteq> None" "\<not> (\<exists>k. e = SelectSection k)"
  shows "agree (dash_step uid st e ds) \<and> mounted (dash_step uid st e ds) \<noteq> None"
  using dash_handle_agree [OF assms, of uid st] list_effect_keeps(2) [of uid st "dash_handle uid st e ds"]
  by (auto simp: dash_step_def list_effect_agree)

text \<open>A success callback bumps the counter, so the effect refetches the mounted list.\<close>

lemma success_refetches:
  assumes "effect_done ds" "mounted ds = Some l" "e = CreateSucceeded \<or> e = UploadSucceeded"
  shows "mounted (dash_step uid st e ds) = Some (fetchFiles uid uid st l)"
proof -
  have "list_deps ds = (refreshTrigger (dash ds), currentFolderId l)"
    using assms(1,2) by (simp add: effect_done_def)
  then show ?thesis using assms(2,3)
    by (auto simp: dash_step_def list_effect_def onCreateSuccess_def onUploadSuccess_def handleActionSuccess_def
        setIsFolderModalOpen_def setIsUploadModalOpen_def)
qed

text \<open>Profile and back: the dashboard keeps its folder, the list is mounted anew at the root.\<close>

lemma profile_and_back:
  "dash_folder (dash (dash_step uid st (SelectSection ''files'') (dash_step uid st (SelectSection ''profile'') ds)))
     = dash_folder (dash ds)"
  "mounted (dash_step uid st (SelectSection ''files'') (dash_step uid st (SelectSection ''profile'') ds))
     = Some (fetchFiles uid uid st initial_list_state)"
  by (simp_all add: dash_step_def list_effect_def mount_list_def onSelectSection_def Let_def initial_list_state_def)

lemma demo_notes_facts: "js_trim ''Notes'' = ''Notes''" "\<not> list_ex (\<lambda>c. c \<in> set invalidChars) ''Notes''"
  "folderName demo_notes_modal = ''Notes''" "\<not> creatingFolder demo_notes_modal"
  by (code_simp, code_simp, simp_all add: demo_notes_modal_def folder_modal_init_def)

lemma demo_submit_notes:
  "submit_folder (\<lambda>_. None) 3 ''u'' (Some 0) (demo_notes_modal, demo_store)
   = (demo_notes_modal\<lparr>cf_error := None, creatingFolder := False\<rparr>,
      \<lparr>rows = rows demo_store @ [insert_row 2 3 (payload ''u'' (Some 0) ''Notes'' ''Docs/Notes'' None)], next_id = 3\<rparr>,
      True)"
  using demo_notes_facts
  by (simp add: submit_folder_def onPressCreate_def create_button_disabled_def handleCreateFolder_def Let_def
      settle_create_def create_entry_def demo_store_def demo_defs valid_name_def reserved_chars_def check_parent_def
      find_row_def row_simps path_sep_def numeral_2_eq_2 payload_def)

subsection \<open>Properties of the dashboard\<close>

text \<open>
  C16 (nav_reachable_agree). As long as the user stays in the files section, whatever they do in the file list
  and the dialogs, the list stays mounted and the folder the dialogs create into is
  the folder the list shows.
\<close>

theorem nav_reachable_agree: "nav_reachable uid st ds \<Longrightarrow> agree ds \<and> mounted ds \<noteq> None"
proof (induction rule: nav_reachable.induct)
  case init
  show ?case by (simp add: dash_sys_init_def agree_def dashboard_init_def initial_list_state_def)
next
  case (step ds e)
  then show ?case using dash_step_agree by blast
qed

text \<open>
  C17 (created_folder_listed). When the dashboard and the list agree and the list's effect has run, a folder
  created through the dialog is listed after the success callback, whose bump of the
  refresh counter makes the list refetch: it appears as a folder in the folder the list
  shows, under the trimmed name.
\<close>

theorem created_folder_listed:
  assumes "agree ds" "effect_done ds" "mounted ds = Some l"
    and "submit_folder body now uid (dash_folder (dash ds)) (m, st) = (m', st', True)"
  shows "\<exists>r\<in>set (files (the (mounted (dash_step uid st' CreateSucceeded ds)))).
           name r = js_trim (folderName m) \<and> isFolder r \<and> parentId r = currentFolderId l"
proof -
  obtain r where c: "create_entry now uid (dash_folder (dash ds)) (js_trim (folderName m)) None st = Inr (r, st')"
    using submit_folder_ok [OF assms(4)] by blast
  have pid: "dash_folder (dash ds) = currentFolderId l" using assms(1,3) by (simp add: agree_def)
  have "r \<in> set (rows st')" using create_entry_Inr [OF c] by simp
  moreover note row = create_entry_row [OF c]
  ultimately have "r \<in> set (list_entries uid (currentFolderId l) st')"
    using pid by (simp add: list_entries_def)
  moreover have "files (the (mounted (dash_step uid st' CreateSucceeded ds))) = list_entries uid (currentFolderId l) st'"
    using success_refetches [OF assms(2,3)] by (simp add: fetchFiles_files)
  ultimately show ?thesis using row pid by auto
qed

text \<open>
  C18 (remount_loses_folder). Leaving the files section and coming back remounts the file list at the root while
  the dashboard keeps the folder it was in, so the two disagree; a folder then created
  through the dialog goes into the old folder, and the list refreshed by the success
  callback, showing the root, does not list it.
\<close>

theorem remount_loses_folder:
  assumes "dash_folder (dash ds) = Some i"
    and "ds' = dash_step uid st (SelectSection ''files'') (dash_step uid st (SelectSection ''profile'') ds)"
    and "submit_folder body now uid (dash_folder (dash ds')) (m, st') = (m', st'', True)"
  shows "dash_folder (dash ds') = Some i \<and> map_option currentFolderId (mounted ds') = Some None \<and> \<not> agree ds'
         \<and> (\<exists>r \<in> set (rows st''). name r = js_trim (folderName m) \<and> parentId r = Some i
              \<and> r \<notin> set (files (the (mounted (dash_step uid st'' CreateSucceeded ds')))))"
proof -
  have f: "dash_folder (dash ds') = Some i" using assms(1,2) profile_and_back(1) by simp
  have mo: "mounted ds' = Some (fetchFiles uid uid st initial_list_state)"
    using assms(2) profile_and_back(2) by simp
  have cur: "currentFolderId (fetchFiles uid uid st initial_list_state) = None"
    by (simp add: initial_list_state_def)
  obtain r where c: "create_entry now uid (Some i) (js_trim (folderName m)) None st' = Inr (r, st'')"
    using submit_folder_ok [OF assms(3)] f by auto
  have "r \<in> set (rows st'')" using create_entry_Inr [OF c] by simp
  moreover have row: "name r = js_trim (folderName m) \<and> parentId r = Some i"
    using create_entry_row [OF c] by simp
  moreover have "files (the (mounted (dash_step uid st'' CreateSucceeded ds'))) = list_entries uid None st''"
  proof -
    have ed: "effect_done ds'" using assms(2) dash_step_effect_done by simp
    show ?thesis using success_refetches [OF ed mo, where e = CreateSucceeded and uid = uid and st = st''] cur
      by (simp add: fetchFiles_files)
  qed
  ultimately show ?thesis using f mo cur by (auto simp: agree_def list_entries_def)
qed

lemma demo_enter_docs:
  "dash_folder (dash (dash_step ''u'' demo_store (EnterFolder 0 ''Docs'') (dash_sys_init ''u'' demo_store))) = Some 0"
  "\<exists>l. mounted (dash_step ''u'' demo_store (EnterFolder 0 ''Docs'') (dash_sys_init ''u'' demo_store)) = Some l
       \<and> currentFolderId l = Some 0"
  by (simp_all add: dash_step_def dash_sys_init_def list_nav_def navigateToFolder_def list_effect_def)

theorem nav_reachable_agree_witness:
  "nav_reachable ''u'' demo_store (dash_step ''u'' demo_store (EnterFolder 0 ''Docs'') (dash_sys_init ''u'' demo_store))
   \<and> agree (dash_step ''u'' demo_store (EnterFolder 0 ''Docs'') (dash_sys_init ''u'' demo_store))"
proof -
  have r: "nav_reachable ''u'' demo_store (dash_step ''u'' demo_store (EnterFolder 0 ''Docs'') (dash_sys_init ''u'' demo_store))"
    by (rule nav_reachable.step [OF nav_reachable.init]) simp
  from r nav_reachable_agree [OF r] show ?thesis by simp
qed

theorem created_folder_listed_witness:
  "\<exists>r\<in>set (files (the (mounted (dash_step ''u'' (fst (snd (submit_folder (\<lambda>_. None) 3 ''u'' (Some 0)
          (demo_notes_modal, demo_store)))) CreateSucceeded
          (dash_step ''u'' demo_store (EnterFolder 0 ''Docs'') (dash_sys_init ''u'' demo_store)))))).
     name r = ''Notes'' \<and> isFolder r \<and> parentId r = Some 0"
proof -
  let ?ds = "dash_step ''u'' demo_store (EnterFolder 0 ''Docs'') (dash_sys_init ''u'' demo_store)"
  obtain l where m: "mounted ?ds = Some l" and c: "currentFolderId l = Some 0" using demo_enter_docs(2) by blast
  have a: "agree ?ds" unfolding agree_def m using c demo_enter_docs(1) by simp
  have s: "submit_folder (\<lambda>_. None) 3 ''u'' (dash_folder (dash ?ds)) (demo_notes_modal, demo_store)
      = (fst (submit_folder (\<lambda>_. None) 3 ''u'' (Some 0) (demo_notes_modal, demo_store)),
         fst (snd (submit_folder (\<lambda>_. None) 3 ''u'' (Some 0) (demo_notes_modal, demo_store))), True)"
    unfolding demo_enter_docs(1) by (simp add: demo_submit_notes)
  from created_folder_listed [OF a dash_step_effect_done m s] c demo_notes_facts(1,3) show ?thesis by simp
qed

theorem remount_loses_folder_witness:
  "\<not> agree (dash_step ''u'' demo_store (SelectSection ''files'') (dash_step ''u'' demo_store (SelectSection ''profile'')
      (dash_step ''u'' demo_store (EnterFolder 0 ''Docs'') (dash_sys_init ''u'' demo_store))))"
proof -
  let ?ds = "dash_step ''u'' demo_store (EnterFolder 0 ''Docs'') (dash_sys_init ''u'' demo_store)"
  let ?ds' = "dash_step ''u'' demo_store (SelectSection ''files'') (dash_step ''u'' demo_store (SelectSection ''profile'') ?ds)"
  have f: "dash_folder (dash ?ds') = Some 0" using profile_and_back(1) demo_enter_docs(1) by simp
  have s: "submit_folder (\<lambda>_. None) 3 ''u'' (dash_folder (dash ?ds')) (demo_notes_modal, demo_store)
      = (fst (submit_folder (\<lambda>_. None) 3 ''u'' (Some 0) (demo_notes_modal, demo_store)),
         fst (snd (submit_folder (\<lambda>_. None) 3 ''u'' (Some 0) (demo_notes_modal, demo_store))), True)"
    unfolding f by (simp add: demo_submit_notes)
  from remount_loses_folder [OF demo_enter_docs(1) refl s] show ?thesis by simp
qed

end
