(* ===== verification/Auth.thy ===== *)
theory Auth
  imports Dashboard
begin

text \<open>
  Authentication as the pages see it: the sign-in form of src/components/SignInForm.tsx,
  the sign-up form with its e-mail verification step of src/components/SignUpForm.tsx
  and its code schema src/schemas/verificationEmailSchema.ts, the server page
  src/app/dashboard/page.tsx that admits only a signed-in user to the dashboard, and
  the links of the landing page src/app/page.tsx.  The identity provider (Clerk) is an
  external collaborator (specification section 6): what its calls answer is the input
  of the model, as the datatypes \<open>clerk_call\<close> and \<open>clerk_attempt\<close>.  As for the
  file list, a handler runs in two halves around its \<^verbatim>\<open>await\<close>: the half before
  returns the request it issues, the \<open>settle_\<close> function is the half after.
\<close>

subsection \<open>The identity provider's answers\<close>

text \<open>
  A rejected call throws an error whose \<^verbatim>\<open>errors?.[0]\<close> may be missing; when present it
  carries an optional \<^verbatim>\<open>longMessage\<close> and \<^verbatim>\<open>message\<close>.  An attempt
  (\<^verbatim>\<open>signIn.create\<close>, \<^verbatim>\<open>attemptEmailAddressVerification\<close>) resolves with a status,
  \<^verbatim>\<open>complete\<close> carrying the new session's id, or rejects.
\<close>

record clerk_error =
  err_longMessage :: "string option"
  err_message :: "string option"

datatype clerk_call = CallOk | CallFailed "clerk_error option"

datatype clerk_attempt = AttemptComplete string | AttemptIncomplete | AttemptFailed "clerk_error option"

text \<open>What a settled handler asks of the session and the router.\<close>

datatype auth_effect = NoEffect | ActivateAndGo string string

text \<open>JavaScript \<^verbatim>\<open>a || b\<close> for an optional text: the empty text is falsy.\<close>

definition js_or :: "string option \<Rightarrow> string \<Rightarrow> string" where
  "js_or a b = (case a of Some s \<Rightarrow> if s = [] then b else s | None \<Rightarrow> b)"

definition js_truthy :: "string option \<Rightarrow> string option" where
  "js_truthy a = (case a of Some s \<Rightarrow> if s = [] then None else Some s | None \<Rightarrow> None)"

definition clerk_message :: "clerk_error option \<Rightarrow> string \<Rightarrow> string" where
  "clerk_message e dflt =
     js_or (Option.bind e err_longMessage) (js_or (Option.bind e err_message) dflt)"

subsection \<open>SignInForm\<close>

record sign_in =
  si_submitting :: bool
  si_authError :: "string option"
  si_showPassword :: bool

definition sign_in_init :: sign_in where
  "sign_in_init = \<lparr>si_submitting = False, si_authError = None, si_showPassword = False\<rparr>"

text \<open>
  \<^verbatim>\<open>onSubmit\<close> up to its \<^verbatim>\<open>await\<close> (lines 33--41): nothing before Clerk has loaded,
  else the form is busy, the old error is cleared and \<^verbatim>\<open>signIn.create\<close> is called
  with the identifier and password.
\<close>

definition signIn_onSubmit :: "bool \<Rightarrow> string \<Rightarrow> string \<Rightarrow> sign_in \<Rightarrow> sign_in \<times> (string \<times> string) option" where
  "signIn_onSubmit loaded identifier pw s =
     (if \<not> loaded then (s, None)
      else (s\<lparr>si_submitting := True, si_authError := None\<rparr>, Some (identifier, pw)))"

text \<open>
  The rest (lines 42--58): a complete attempt activates its session and goes to the
  dashboard (a rejected \<^verbatim>\<open>setActive\<close> lands in the \<^verbatim>\<open>catch\<close>), an incomplete one
  and a rejection set the error; the \<^verbatim>\<open>finally\<close> ends the busy state.
\<close>

fun settle_sign_in :: "clerk_attempt \<Rightarrow> clerk_call \<Rightarrow> sign_in \<Rightarrow> sign_in \<times> auth_effect" where
  "settle_sign_in (AttemptComplete sid) CallOk s = (s\<lparr>si_submitting := False\<rparr>, ActivateAndGo sid ''/dashboard'')"
| "settle_sign_in (AttemptComplete sid) (CallFailed e) s =
     (s\<lparr>si_authError := Some (clerk_message e ''Invalid email or password. Please try again.''),
        si_submitting := False\<rparr>, NoEffect)"
| "settle_sign_in AttemptIncomplete act s =
     (s\<lparr>si_authError := Some ''Sign-in could not be completed. Please check your credentials.'',
        si_submitting := False\<rparr>, NoEffect)"
| "settle_sign_in (AttemptFailed e) act s =
     (s\<lparr>si_authError := Some (clerk_message e ''Invalid email or password. Please try again.''),
        si_submitting := False\<rparr>, NoEffect)"

definition toggleShowPassword :: "sign_in \<Rightarrow> sign_in" where
  "toggleShowPassword s = s\<lparr>si_showPassword := \<not> si_showPassword s\<rparr>"

record sign_in_view =
  siv_error :: "string option"
  siv_password_type :: string
  siv_toggle_label :: string
  siv_loading :: bool
  siv_button_label :: string

definition SignInForm_view :: "bool \<Rightarrow> sign_in \<Rightarrow> sign_in_view" where
  "SignInForm_view loaded s =
     \<lparr>siv_error = js_truthy (si_authError s),
      siv_password_type = (if si_showPassword s then ''text'' else ''password''),
      siv_toggle_label = (if si_showPassword s then ''Hide password'' else ''Show password''),
      siv_loading = (si_submitting s \<or> \<not> loaded),
      siv_button_label = (if si_submitting s then ''Signing In...'' else ''Sign In'')\<rparr>"

subsection \<open>The verification code schema\<close>

text \<open>
  \<^verbatim>\<open>z.string().min(1, ..).min(6, ..)\<close>: zod runs every check and reports the failing
  ones in order; the form shows the first.  The input field has \<^verbatim>\<open>maxLength={6}\<close>, so
  what reaches the schema is at most the first six characters typed.
\<close>

definition verificationCode_checks :: "(nat \<times> string) list" where
  "verificationCode_checks =
     [(1, ''Verification Code is Required''), (6, ''Verification code is of 6 characters'')]"

definition zod_min_issues :: "(nat \<times> string) list \<Rightarrow> string \<Rightarrow> string list" where
  "zod_min_issues checks s = map snd (filter (\<lambda>(n, _). length s < n) checks)"

definition verificationEmailSchema_error :: "string \<Rightarrow> string option" where
  "verificationEmailSchema_error c =
     (case zod_min_issues verificationCode_checks c of [] \<Rightarrow> None | m # _ \<Rightarrow> Some m)"

definition code_input :: "string \<Rightarrow> string" where
  "code_input typed = take 6 typed"

subsection \<open>SignUpForm\<close>

record sign_up_fields =
  su_email :: string
  su_password :: string
  su_passwordConfirmation :: string

definition sign_up_defaults :: sign_up_fields where
  "sign_up_defaults = \<lparr>su_email = [], su_password = [], su_passwordConfirmation = []\<rparr>"

record sign_up =
  su_submitting :: bool
  su_authError :: "string option"
  verifying :: bool
  verificationError :: "string option"
  su_showPassword :: bool
  showConfirmPassword :: bool
  su_fields :: sign_up_fields
  su_code :: string

definition sign_up_init :: sign_up where
  "sign_up_init =
     \<lparr>su_submitting = False, su_authError = None, verifying = False, verificationError = None,
      su_showPassword = False, showConfirmPassword = False, su_fields = sign_up_defaults, su_code = []\<rparr>"

datatype su_request = SignUpCreate string string | AttemptVerification string | ResendCode

text \<open>\<^verbatim>\<open>onSubmit\<close> up to its first \<^verbatim>\<open>await\<close> (lines 49--54).\<close>

definition signUp_onSubmit :: "bool \<Rightarrow> sign_up \<Rightarrow> sign_up \<times> su_request option" where
  "signUp_onSubmit loaded s =
     (if \<not> loaded then (s, None)
      else (s\<lparr>su_submitting := True, su_authError := None\<rparr>,
            Some (SignUpCreate (su_email (su_fields s)) (su_password (su_fields s)))))"

text \<open>
  The rest (lines 54--67), given the answers of \<^verbatim>\<open>signUp.create\<close> and of
  \<^verbatim>\<open>prepareEmailAddressVerification\<close> (called only after a successful create):
  on success the form is \<^verbatim>\<open>reset()\<close> and the verification screen shown.
\<close>

fun settle_sign_up :: "clerk_call \<Rightarrow> clerk_call \<Rightarrow> sign_up \<Rightarrow> sign_up" where
  "settle_sign_up CallOk CallOk s =
     s\<lparr>su_fields := sign_up_defaults, verifying := True, su_submitting := False\<rparr>"
| "settle_sign_up CallOk (CallFailed e) s =
     s\<lparr>su_authError := Some (clerk_message e ''An error occurred during sign-up. Please try again.''),
       su_submitting := False\<rparr>"
| "settle_sign_up (CallFailed e) prep s =
     s\<lparr>su_authError := Some (clerk_message e ''An error occurred during sign-up. Please try again.''),
       su_submitting := False\<rparr>"

text \<open>
  \<^verbatim>\<open>handleVerificationSubmit\<close> up to its \<^verbatim>\<open>await\<close> (lines 72--77); \<^verbatim>\<open>signUp\<close> is
  defined exactly when Clerk has loaded, so the guard is the one flag.
\<close>

definition handleVerificationSubmit :: "bool \<Rightarrow> sign_up \<Rightarrow> sign_up \<times> su_request option" where
  "handleVerificationSubmit loaded s =
     (if \<not> loaded then (s, None)
      else (s\<lparr>su_submitting := True, verificationError := None\<rparr>, Some (AttemptVerification (su_code s))))"

fun settle_verification :: "clerk_attempt \<Rightarrow> clerk_call \<Rightarrow> sign_up \<Rightarrow> sign_up \<times> auth_effect" where
  "settle_verification (AttemptComplete sid) CallOk s =
     (s\<lparr>su_submitting := False\<rparr>, ActivateAndGo sid ''/dashboard'')"
| "settle_verification (AttemptComplete sid) (CallFailed e) s =
     (s\<lparr>verificationError := Some (clerk_message e ''Invalid verification code. Please check and try again.''),
        su_submitting := False\<rparr>, NoEffect)"
| "settle_verification AttemptIncomplete act s =
     (s\<lparr>verificationError := Some ''Verification could not be completed. Invalid code or session expired.'',
        su_submitting := False\<rparr>, NoEffect)"
| "settle_verification (AttemptFailed e) act s =
     (s\<lparr>verificationError := Some (clerk_message e ''Invalid verification code. Please check and try again.''),
        su_submitting := False\<rparr>, NoEffect)"

text \<open>The resend link's handler (lines 161--172): it leaves the busy state alone.\<close>

definition onResend :: "bool \<Rightarrow> sign_up \<Rightarrow> sign_up \<times> su_request option" where
  "onResend loaded s = (if loaded then (s\<lparr>verificationError := None\<rparr>, Some ResendCode) else (s, None))"

fun settle_resend :: "clerk_call \<Rightarrow> sign_up \<Rightarrow> sign_up" where
  "settle_resend CallOk s = s"
| "settle_resend (CallFailed e) s =
     s\<lparr>verificationError := Some ''Failed to resend code. Please wait a moment and try again.''\<rparr>"

datatype sign_up_screen =
    VerifyScreen "string option" string bool bool
  | SignUpScreen "string option" string bool string string

text \<open>
  The two renders (lines 98--183 and 186--305): the error box, the submit button's
  label and loading flag, and the resend link's \<^verbatim>\<open>disabled\<close>; or the error box,
  the button, and the two password inputs' types.
\<close>

definition SignUpForm_view :: "bool \<Rightarrow> sign_up \<Rightarrow> sign_up_screen" where
  "SignUpForm_view loaded s =
     (if verifying s then
        VerifyScreen (js_truthy (verificationError s))
          (if su_submitting s then ''Verifying...'' else ''Verify Email'')
          (su_submitting s \<or> \<not> loaded) (su_submitting s)
      else
        SignUpScreen (js_truthy (su_authError s))
          (if su_submitting s then ''Creating Account...'' else ''Create Account'')
          (su_submitting s \<or> \<not> loaded)
          (if su_showPassword s then ''text'' else ''password'')
          (if showConfirmPassword s then ''text'' else ''password''))"

subsection \<open>The sign-up form with its requests in flight\<close>

text \<open>
  Events reach only what the current render shows: the sign-up form's inputs, eye
  buttons and submit exist while not \<open>verifying\<close>, the code input, its submit and the
  resend link (a native button, \<^verbatim>\<open>disabled\<close> while busy) while \<open>verifying\<close>.  A
  submit runs the form's resolver first (\<^verbatim>\<open>handleSubmit\<close>): the sign-up schema's
  verdict is the event's argument (that schema is not in the repository), the code
  schema is \<open>verificationEmailSchema_error\<close>.  Answers arrive for any request in flight,
  in any order; \<open>su_session\<close> records the session a settled handler activated.
\<close>

record sign_up_sys =
  su :: sign_up
  su_inflight :: "su_request list"
  su_session :: "string option"

datatype su_event =
    SubmitSignUp bool
  | TypeSignUp sign_up_fields
  | ToggleShowPassword
  | ToggleShowConfirm
  | TypeCode string
  | SubmitCode
  | Resend
  | AnswerCreate nat clerk_call clerk_call
  | AnswerVerify nat clerk_attempt clerk_call
  | AnswerResend nat clerk_call

definition issue :: "sign_up \<times> su_request option \<Rightarrow> sign_up_sys \<Rightarrow> sign_up_sys" where
  "issue r q =
     (case r of (s, ro) \<Rightarrow>
        q\<lparr>su := s, su_inflight := su_inflight q @ (case ro of None \<Rightarrow> [] | Some x \<Rightarrow> [x])\<rparr>)"

definition answered :: "nat \<Rightarrow> sign_up_sys \<Rightarrow> sign_up_sys" where
  "answered k q = q\<lparr>su_inflight := take k (su_inflight q) @ drop (Suc k) (su_inflight q)\<rparr>"

definition effect_session :: "auth_effect \<Rightarrow> string option \<Rightarrow> string option" where
  "effect_session eff cur = (case eff of ActivateAndGo sid _ \<Rightarrow> Some sid | NoEffect \<Rightarrow> cur)"

fun su_step :: "bool \<Rightarrow> su_event \<Rightarrow> sign_up_sys \<Rightarrow> sign_up_sys" where
  "su_step loaded (SubmitSignUp ok) q =
     (if verifying (su q) \<or> \<not> ok then q else issue (signUp_onSubmit loaded (su q)) q)"
| "su_step loaded (TypeSignUp f) q =
     (if verifying (su q) then q else q\<lparr>su := (su q)\<lparr>su_fields := f\<rparr>\<rparr>)"
| "su_step loaded ToggleShowPassword q =
     (if verifying (su q) then q else q\<lparr>su := (su q)\<lparr>su_showPassword := \<not> su_showPassword (su q)\<rparr>\<rparr>)"
| "su_step loaded ToggleShowConfirm q =
     (if verifying (su q) then q else q\<lparr>su := (su q)\<lparr>showConfirmPassword := \<not> showConfirmPassword (su q)\<rparr>\<rparr>)"
| "su_step loaded (TypeCode c) q =
     (if verifying (su q) then q\<lparr>su := (su q)\<lparr>su_code := code_input c\<rparr>\<rparr> else q)"
| "su_step loaded SubmitCode q =
     (if \<not> verifying (su q) \<or> verificationEmailSchema_error (su_code (su q)) \<noteq> None then q
      else issue (handleVerificationSubmit loaded (su q)) q)"
| "su_step loaded Resend q =
     (if \<not> verifying (su q) \<or> su_submitting (su q) then q else issue (onResend loaded (su q)) q)"
| "su_step loaded (AnswerCreate k c p) q =
     (if k < length (su_inflight q) \<and> (\<exists>e pw. su_inflight q ! k = SignUpCreate e pw)
      then (answered k q)\<lparr>su := settle_sign_up c p (su q)\<rparr> else q)"
| "su_step loaded (AnswerVerify k a act) q =
     (if k < length (su_inflight q) \<and> (\<exists>c. su_inflight q ! k = AttemptVerification c)
      then (case settle_verification a act (su q) of
              (s, eff) \<Rightarrow> (answered k q)\<lparr>su := s, su_session := effect_session eff (su_session q)\<rparr>)
      else q)"
| "su_step loaded (AnswerResend k c) q =
     (if k < length (su_inflight q) \<and> su_inflight q ! k = ResendCode
      then (answered k q)\<lparr>su := settle_resend c (su q)\<rparr> else q)"

definition sign_up_sys_init :: sign_up_sys where
  "sign_up_sys_init = \<lparr>su = sign_up_init, su_inflight = [], su_session = None\<rparr>"

inductive su_reachable :: "bool \<Rightarrow> sign_up_sys \<Rightarrow> bool" where
  init: "su_reachable loaded sign_up_sys_init"
| step: "su_reachable loaded q \<Longrightarrow> su_reachable loaded (su_step loaded e q)"

text \<open>
  The sign-up form's invariant: the verification error, the verification and resend
  requests and an activated session occur only on the verification screen; that
  screen holds no sign-up field (the form was reset); the typed code has at most six
  characters and every code sent has exactly six; and the busy flag is set only while
  a create or verification request is in flight.
\<close>

definition su_inv :: "sign_up_sys \<Rightarrow> bool" where
  "su_inv q \<longleftrightarrow>
     (verificationError (su q) \<noteq> None \<longrightarrow> verifying (su q))
   \<and> (\<forall>r \<in> set (su_inflight q). (\<forall>e pw. r \<noteq> SignUpCreate e pw) \<longrightarrow> verifying (su q))
   \<and> (su_session q \<noteq> None \<longrightarrow> verifying (su q))
   \<and> (verifying (su q) \<longrightarrow> su_fields (su q) = sign_up_defaults)
   \<and> length (su_code (su q)) \<le> 6
   \<and> (\<forall>c. AttemptVerification c \<in> set (su_inflight q) \<longrightarrow> length c = 6)
   \<and> (su_submitting (su q) \<longrightarrow> (\<exists>r \<in> set (su_inflight q). r \<noteq> ResendCode))"

subsection \<open>The dashboard page\<close>

text \<open>
  The user the identity provider returns (\<^verbatim>\<open>currentUser()\<close>): the fields the page
  reads, \<^verbatim>\<open>firstName\<close> and \<^verbatim>\<open>username\<close> nullable, and the e-mail addresses in order.
  The page hands the client \<^verbatim>\<open>Navbar\<close> a plain object, \<^verbatim>\<open>serializedUser\<close>, whose
  fields are JavaScript primitives, \<open>jprim\<close>.
\<close>

record clerk_user =
  cu_id :: string
  cu_firstName :: "string option"
  cu_lastName :: "string option"
  cu_imageUrl :: string
  cu_username :: "string option"
  cu_emails :: "string list"

datatype jprim = JStr string | JNull | JUndefined

type_synonym jobj = "(string \<times> jprim) list"

definition nullable :: "string option \<Rightarrow> jprim" where
  "nullable v = (case v of Some x \<Rightarrow> JStr x | None \<Rightarrow> JNull)"

text \<open>\<^verbatim>\<open>user.emailAddresses?.[0]?.emailAddress\<close>: undefined for an empty list.\<close>

definition first_email :: "clerk_user \<Rightarrow> string option" where
  "first_email u = (case cu_emails u of [] \<Rightarrow> None | e # _ \<Rightarrow> Some e)"

definition serializedUser :: "clerk_user option \<Rightarrow> jobj option" where
  "serializedUser user =
     (case user of None \<Rightarrow> None
      | Some u \<Rightarrow> Some
          [(''id'', JStr (cu_id u)), (''firstName'', nullable (cu_firstName u)),
           (''lastName'', nullable (cu_lastName u)), (''imageUrl'', JStr (cu_imageUrl u)),
           (''username'', nullable (cu_username u)),
           (''emailAddress'', case first_email u of Some e \<Rightarrow> JStr e | None \<Rightarrow> JUndefined)])"

text \<open>The \<^verbatim>\<open>userName\<close> prop: the first truthy of three fields, else \<^verbatim>\<open>User\<close>.\<close>

definition userName_of :: "clerk_user option \<Rightarrow> string" where
  "userName_of user =
     js_or (Option.bind user cu_firstName)
       (js_or (Option.bind user cu_username) (js_or (Option.bind user first_email) ''User''))"

datatype page_result = RedirectTo string | RenderDashboard "jobj option" user_id string

text \<open>
  \<^verbatim>\<open>Dashboard()\<close>: \<^verbatim>\<open>redirect\<close> throws, so nothing is rendered for a missing (or
  empty) \<^verbatim>\<open>userId\<close>; otherwise the navbar gets the serialized user and
  DashboardContent the id and the name.
\<close>

definition Dashboard_page :: "user_id option \<Rightarrow> clerk_user option \<Rightarrow> page_result" where
  "Dashboard_page auth_uid user =
     (case auth_uid of
        Some uid \<Rightarrow> if uid = [] then RedirectTo ''/sign-in''
                    else RenderDashboard (serializedUser user) uid (userName_of user)
      | None \<Rightarrow> RedirectTo ''/sign-in'')"

text \<open>What the rendered page shows first: DashboardContent's view and its mounted list.\<close>

definition dashboard_page_mount ::
  "string option \<Rightarrow> user_id option \<Rightarrow> clerk_user option \<Rightarrow> store \<Rightarrow> (dashboard_view \<times> dash_sys) option" where
  "dashboard_page_mount tabParam auth_uid user st =
     (case Dashboard_page auth_uid user of
        RenderDashboard _ uid nm \<Rightarrow>
          Some (DashboardContent_view nm (dashboard_init tabParam),
                \<lparr>dash = dashboard_init tabParam,
                 mounted = (if dash_tab (dashboard_init tabParam) = ''files''
                            then Some (fetchFiles uid uid st initial_list_state) else None),
                 list_deps = (0, None)\<rparr>)
      | RedirectTo _ \<Rightarrow> None)"

subsection \<open>The landing page's links\<close>

text \<open>
  The buttons of src/app/page.tsx inside \<^verbatim>\<open><SignedOut>\<close> and \<^verbatim>\<open><SignedIn>\<close>, for a
  visitor with or without a session: the hero (lines 41--64) and the closing call to
  action (lines 168--195).
\<close>

definition hero_links :: "bool \<Rightarrow> (string \<times> string) list" where
  "hero_links signed_in =
     (if signed_in then [(''Go to Dashboard'', ''/dashboard'')]
      else [(''Get Started Free'', ''/sign-up''), (''Sign In'', ''/sign-in'')])"

definition cta_links :: "bool \<Rightarrow> (string \<times> string) list" where
  "cta_links signed_in =
     (if signed_in then [(''Open Dashboard'', ''/dashboard'')] else [(''Sign Up Free'', ''/sign-up'')])"

definition Home_links :: "bool \<Rightarrow> (string \<times> string) list" where
  "Home_links signed_in = hero_links signed_in @ cta_links signed_in"

subsection \<open>Example data\<close>

text \<open>
  A user without a first name and with an empty username, known by one e-mail address;
  a sign-up run in which the user registers, receives the code, types it and submits
  it; and an error whose long message is empty.
\<close>

definition demo_user :: clerk_user where
  "demo_user = \<lparr>cu_id = ''user_1'', cu_firstName = None, cu_lastName = None, cu_imageUrl = ''img'',
                cu_username = Some [], cu_emails = [''ada@example.org'']\<rparr>"

definition demo_signup_events :: "su_event list" where
  "demo_signup_events =
     [TypeSignUp \<lparr>su_email = ''ada@example.org'', su_password = ''pw'', su_passwordConfirmation = ''pw''\<rparr>,
      SubmitSignUp True, AnswerCreate 0 CallOk CallOk, TypeCode ''1234567'', SubmitCode]"

definition demo_signup_sys :: sign_up_sys where
  "demo_signup_sys = fold (su_step True) demo_signup_events sign_up_sys_init"

definition demo_error :: clerk_error where
  "demo_error = \<lparr>err_longMessage = Some [], err_message = Some ''Password is incorrect.''\<rparr>"


subsection \<open>Lemmas\<close>

lemma js_or_ne: "b \<noteq> [] \<Longrightarrow> js_or a b \<noteq> []"
  by (simp add: js_or_def split: option.split)

lemma js_truthy_ne: "s \<noteq> [] \<Longrightarrow> js_truthy (Some s) = Some s"
  by (simp add: js_truthy_def)

lemma clerk_message_ne: "d \<noteq> [] \<Longrightarrow> clerk_message e d \<noteq> []"
  by (simp add: clerk_message_def js_or_ne)

lemma clerk_message_first:
  "clerk_message e d =
     (case js_truthy (Option.bind e err_longMessage) of Some l \<Rightarrow> l
      | None \<Rightarrow> (case js_truthy (Option.bind e err_message) of Some m \<Rightarrow> m | None \<Rightarrow> d))"
  by (simp add: clerk_message_def js_or_def js_truthy_def split: option.split)

text \<open>
  C20 (sign_in_settle_outcome). Whatever the identity provider answers, a settled
  sign-in leaves the busy state; it activates the session and goes to the dashboard
  exactly on a complete attempt whose activation succeeds; otherwise it shows a
  non-empty error, for a rejection the error's long message, else its message, else
  the default text.
\<close>

theorem sign_in_settle_outcome:
  "\<not> si_submitting (fst (settle_sign_in a act s))
   \<and> (\<forall>sid. snd (settle_sign_in a act s) = ActivateAndGo sid ''/dashboard'' \<longleftrightarrow> a = AttemptComplete sid \<and> act = CallOk)
   \<and> (snd (settle_sign_in a act s) = NoEffect \<longleftrightarrow> \<not> (\<exists>sid. a = AttemptComplete sid \<and> act = CallOk))
   \<and> (snd (settle_sign_in a act s) = NoEffect \<longrightarrow>
        (\<exists>m. si_authError (fst (settle_sign_in a act s)) = Some m \<and> m \<noteq> []
             \<and> siv_error (SignInForm_view loaded (fst (settle_sign_in a act s))) = Some m))
   \<and> (\<forall>e. a = AttemptFailed e \<longrightarrow>
        si_authError (fst (settle_sign_in a act s)) = Some (clerk_message e ''Invalid email or password. Please try again.''))"
  by (cases "(a, act, s)" rule: settle_sign_in.cases)
     (auto simp: SignInForm_view_def js_truthy_ne clerk_message_ne)

lemma verificationEmailSchema_ok: "verificationEmailSchema_error c = None \<longleftrightarrow> 6 \<le> length c"
  by (simp add: verificationEmailSchema_error_def zod_min_issues_def verificationCode_checks_def)

lemma in_answered: "x \<in> set (su_inflight (answered k q)) \<Longrightarrow> x \<in> set (su_inflight q)"
  by (auto simp: answered_def dest: in_set_takeD in_set_dropD)

lemma mem_answered:
  assumes "x \<in> set (su_inflight q)" "k < length (su_inflight q)" "x \<noteq> su_inflight q ! k"
  shows "x \<in> set (su_inflight (answered k q))"
proof -
  have "su_inflight q = take k (su_inflight q) @ su_inflight q ! k # drop (Suc k) (su_inflight q)"
    using assms(2) by (simp add: id_take_nth_drop)
  then show ?thesis using assms(1,3) unfolding answered_def
    by (metis Un_iff set_ConsD set_append sign_up_sys.select_convs(2) sign_up_sys.surjective sign_up_sys.update_convs(2))
qed

lemma answered_simps [simp]:
  "su (answered k q) = su q" "su_session (answered k q) = su_session q"
  by (simp_all add: answered_def)

lemma su_session_issue [simp]: "su_session (issue r q) = su_session q"
  by (cases r) (simp add: issue_def)

lemma issue_simps [simp]:
  "su (issue (s, ro) q) = s" "su_session (issue (s, ro) q) = su_session q"
  "su_inflight (issue (s, ro) q) = su_inflight q @ (case ro of None \<Rightarrow> [] | Some x \<Rightarrow> [x])"
  by (simp_all add: issue_def)

lemma settle_sign_up_fields:
  "verifying (settle_sign_up c p s) = (verifying s \<or> (c = CallOk \<and> p = CallOk))"
  "verificationError (settle_sign_up c p s) = verificationError s"
  "su_code (settle_sign_up c p s) = su_code s"
  "\<not> su_submitting (settle_sign_up c p s)"
  "su_fields (settle_sign_up c p s) = (if c = CallOk \<and> p = CallOk then sign_up_defaults else su_fields s)"
  by (cases "(c, p, s)" rule: settle_sign_up.cases; simp)+

lemma settle_verification_fields:
  "verifying (fst (settle_verification a act s)) = verifying s"
  "su_code (fst (settle_verification a act s)) = su_code s"
  "su_fields (fst (settle_verification a act s)) = su_fields s"
  "\<not> su_submitting (fst (settle_verification a act s))"
  by (cases "(a, act, s)" rule: settle_verification.cases; simp)+

lemma settle_resend_fields:
  "verifying (settle_resend c s) = verifying s" "su_code (settle_resend c s) = su_code s"
  "su_fields (settle_resend c s) = su_fields s" "su_submitting (settle_resend c s) = su_submitting s"
  "verificationError (settle_resend c s) \<noteq> None \<longleftrightarrow> verificationError s \<noteq> None \<or> c \<noteq> CallOk"
  by (cases c; simp)+

lemma su_inv_answered:
  assumes inv: "su_inv q" and k: "k < length (su_inflight q)"
    and err: "verificationError s \<noteq> None \<longrightarrow> verifying s"
    and mono: "verifying (su q) \<longrightarrow> verifying s"
    and reset: "verifying s \<longrightarrow> su_fields s = sign_up_defaults"
    and code: "length (su_code s) \<le> 6"
    and busy: "su_submitting s \<longrightarrow> su_submitting (su q) \<and> su_inflight q ! k = ResendCode"
    and sess: "sess \<noteq> None \<longrightarrow> verifying s"
  shows "su_inv ((answered k q)\<lparr>su := s, su_session := sess\<rparr>)"
proof -
  let ?q' = "(answered k q)\<lparr>su := s, su_session := sess\<rparr>"
  have sub: "\<And>x. x \<in> set (su_inflight ?q') \<Longrightarrow> x \<in> set (su_inflight q)"
    by (simp add: in_answered)
  have "\<forall>r \<in> set (su_inflight ?q'). (\<forall>e pw. r \<noteq> SignUpCreate e pw) \<longrightarrow> verifying s"
  proof (intro ballI impI)
    fix r assume "r \<in> set (su_inflight ?q')" "\<forall>e pw. r \<noteq> SignUpCreate e pw"
    with inv sub have "verifying (su q)" unfolding su_inv_def by blast
    with mono show "verifying s" by simp
  qed
  moreover have "\<forall>c. AttemptVerification c \<in> set (su_inflight ?q') \<longrightarrow> length c = 6"
    using inv sub unfolding su_inv_def by blast
  moreover have "su_submitting s \<longrightarrow> (\<exists>r \<in> set (su_inflight ?q'). r \<noteq> ResendCode)"
  proof
    assume "su_submitting s"
    with busy have "su_submitting (su q)" and rk: "su_inflight q ! k = ResendCode" by auto
    with inv obtain r where "r \<in> set (su_inflight q)" "r \<noteq> ResendCode" unfolding su_inv_def by auto
    with rk k have "r \<in> set (su_inflight (answered k q))" by (auto intro: mem_answered)
    with \<open>r \<noteq> ResendCode\<close> show "\<exists>r \<in> set (su_inflight ?q'). r \<noteq> ResendCode" by auto
  qed
  ultimately show ?thesis using err reset code sess unfolding su_inv_def by simp
qed

lemma su_step_inv:
  assumes inv: "su_inv q" shows "su_inv (su_step loaded e q)"
proof (cases e)
  case (SubmitSignUp ok)
  then show ?thesis using inv
    by (auto simp: su_inv_def signUp_onSubmit_def)
next
  case (TypeSignUp f)
  then show ?thesis using inv by (auto simp: su_inv_def)
next
  case ToggleShowPassword
  then show ?thesis using inv by (auto simp: su_inv_def)
next
  case ToggleShowConfirm
  then show ?thesis using inv by (auto simp: su_inv_def)
next
  case (TypeCode c)
  then show ?thesis using inv by (auto simp: su_inv_def code_input_def)
next
  case SubmitCode
  then show ?thesis using inv
    by (auto simp: su_inv_def handleVerificationSubmit_def verificationEmailSchema_ok)
next
  case Resend
  then show ?thesis using inv by (auto simp: su_inv_def onResend_def)
next
  case (AnswerCreate k c p)
  show ?thesis
  proof (cases "k < length (su_inflight q) \<and> (\<exists>e pw. su_inflight q ! k = SignUpCreate e pw)")
    case True
    then have "su_step loaded e q = (answered k q)\<lparr>su := settle_sign_up c p (su q), su_session := su_session q\<rparr>"
      using AnswerCreate by (simp add: answered_def)
    moreover have "su_inv ((answered k q)\<lparr>su := settle_sign_up c p (su q), su_session := su_session q\<rparr>)"
      using True inv by (intro su_inv_answered) (auto simp: settle_sign_up_fields su_inv_def)
    ultimately show ?thesis by simp
  qed (use AnswerCreate inv in auto)
next
  case (AnswerVerify k a act)
  show ?thesis
  proof (cases "k < length (su_inflight q) \<and> (\<exists>c. su_inflight q ! k = AttemptVerification c)")
    case True
    then have v: "verifying (su q)"
      using inv nth_mem [of k "su_inflight q"] unfolding su_inv_def by fastforce
    obtain s' eff where se: "settle_verification a act (su q) = (s', eff)" by fastforce
    then have "su_step loaded e q = (answered k q)\<lparr>su := s', su_session := effect_session eff (su_session q)\<rparr>"
      using AnswerVerify True by simp
    moreover have "su_inv ((answered k q)\<lparr>su := s', su_session := effect_session eff (su_session q)\<rparr>)"
      using True inv v settle_verification_fields [of a act "su q"] se
      by (intro su_inv_answered) (auto simp: su_inv_def)
    ultimately show ?thesis by simp
  qed (use AnswerVerify inv in auto)
next
  case (AnswerResend k c)
  show ?thesis
  proof (cases "k < length (su_inflight q) \<and> su_inflight q ! k = ResendCode")
    case True
    then have v: "verifying (su q)"
      using inv nth_mem [of k "su_inflight q"] unfolding su_inv_def by fastforce
    have "su_step loaded e q = (answered k q)\<lparr>su := settle_resend c (su q), su_session := su_session q\<rparr>"
      using AnswerResend True by (simp add: answered_def)
    moreover have "su_inv ((answered k q)\<lparr>su := settle_resend c (su q), su_session := su_session q\<rparr>)"
      using True inv v by (intro su_inv_answered) (auto simp: settle_resend_fields su_inv_def)
    ultimately show ?thesis by simp
  qed (use AnswerResend inv in auto)
qed


lemma reachable_su_inv: "su_reachable loaded q \<Longrightarrow> su_inv q"
proof (induction rule: su_reachable.induct)
  case init
  show ?case by (simp add: su_inv_def sign_up_sys_init_def sign_up_init_def)
next
  case step
  then show ?case by (simp add: su_step_inv)
qed

lemma settle_verification_verifying:
  "settle_verification a act s = (s', eff) \<Longrightarrow> verifying s' = verifying s"
  using settle_verification_fields(1) [of a act s] by simp

lemma verifying_mono: "verifying (su q) \<Longrightarrow> verifying (su (su_step loaded e q))"
  by (cases e) (auto simp: signUp_onSubmit_def handleVerificationSubmit_def onResend_def
      settle_sign_up_fields settle_resend_fields settle_verification_verifying split: prod.split)

text \<open>
  C21 (su_reachable_inv). In every state the sign-up form reaches, with requests
  answered in any order: verification errors, verification and resend requests and an
  activated session occur only on the verification screen, that screen's form holds no
  e-mail or password, every code sent has exactly six characters, and the busy flag is
  set only while a create or verification request is in flight; and from the
  verification screen no event leads back to the sign-up form.
\<close>

theorem su_reachable_inv:
  "su_reachable loaded q \<Longrightarrow>
     su_inv q \<and> (\<forall>e. verifying (su q) \<longrightarrow> verifying (su (su_step loaded e q)))"
  using reachable_su_inv verifying_mono by blast

lemma su_inv_request:
  "su_inv q \<Longrightarrow> AttemptVerification c \<in> set (su_inflight q) \<Longrightarrow> length c = 6 \<and> verifying (su q)"
  by (auto simp: su_inv_def)

text \<open>
  C22 (session_only_by_verification). In a reachable sign-up state, an event changes
  the active session only when it is the complete, successfully activated answer to a
  verification request in flight, of a six-character code sent from the verification
  screen; the form then only leaves its busy state.
\<close>

theorem session_only_by_verification:
  assumes "su_reachable loaded q" and "su_session (su_step loaded e q) \<noteq> su_session q"
  shows "\<exists>k sid c. e = AnswerVerify k (AttemptComplete sid) CallOk
           \<and> k < length (su_inflight q) \<and> su_inflight q ! k = AttemptVerification c \<and> length c = 6
           \<and> verifying (su q) \<and> su_session (su_step loaded e q) = Some sid
           \<and> su (su_step loaded e q) = (su q)\<lparr>su_submitting := False\<rparr>"
proof (cases e)
  case (AnswerVerify k a act)
  have guard: "k < length (su_inflight q) \<and> (\<exists>c. su_inflight q ! k = AttemptVerification c)"
    using assms(2) AnswerVerify by (auto split: if_splits)
  then obtain c where kc: "k < length (su_inflight q)" "su_inflight q ! k = AttemptVerification c" by blast
  obtain s' eff where se: "settle_verification a act (su q) = (s', eff)" by fastforce
  then have st: "su_step loaded e q = (answered k q)\<lparr>su := s', su_session := effect_session eff (su_session q)\<rparr>"
    using AnswerVerify guard by simp
  then obtain sid r where eff: "eff = ActivateAndGo sid r"
    using assms(2) by (cases eff) (auto simp: effect_session_def)
  with se have "a = AttemptComplete sid \<and> act = CallOk \<and> s' = (su q)\<lparr>su_submitting := False\<rparr>"
    by (cases "(a, act, su q)" rule: settle_verification.cases) auto
  moreover have "length c = 6 \<and> verifying (su q)"
    using su_inv_request [OF reachable_su_inv [OF assms(1)]] kc nth_mem [of k "su_inflight q"] by simp
  ultimately show ?thesis using AnswerVerify kc st eff by (simp add: effect_session_def)
qed (use assms(2) in \<open>auto simp: answered_def split: if_splits\<close>)

text \<open>
  C23 (verification_code_schema). Through the six-character input, the verification
  schema accepts a code exactly when at least six characters were typed, whatever they
  are (no check that they are digits); it reports an empty code as required and a
  shorter one as not of six characters.
\<close>

theorem verification_code_schema:
  "(verificationEmailSchema_error (code_input typed) = None \<longleftrightarrow> 6 \<le> length typed)
   \<and> verificationEmailSchema_error [] = Some ''Verification Code is Required''
   \<and> (0 < length c \<and> length c < 6 \<longrightarrow> verificationEmailSchema_error c = Some ''Verification code is of 6 characters'')"
proof -
  have "verificationEmailSchema_error (code_input typed) = None \<longleftrightarrow> 6 \<le> length typed"
    by (simp add: code_input_def verificationEmailSchema_ok)
  moreover have "verificationEmailSchema_error [] = Some ''Verification Code is Required''"
    by (simp add: verificationEmailSchema_error_def zod_min_issues_def verificationCode_checks_def)
  moreover have "0 < length c \<and> length c < 6 \<longrightarrow>
      verificationEmailSchema_error c = Some ''Verification code is of 6 characters''"
    by (simp add: verificationEmailSchema_error_def zod_min_issues_def verificationCode_checks_def)
  ultimately show ?thesis by blast
qed


lemma su_reachable_fold: "su_reachable loaded q \<Longrightarrow> su_reachable loaded (fold (su_step loaded) es q)"
  by (induction es arbitrary: q) (auto intro: su_reachable.step)

lemma userName_of_ne: "userName_of user \<noteq> []"
  by (simp add: userName_of_def js_or_ne)

text \<open>
  C24 (dashboard_page_admits). The dashboard page redirects to the sign-in page
  exactly when there is no (or an empty) user id and otherwise renders; what it renders
  greets a non-empty user name and, on the files section, mounts the file list fetched
  for the signed-in user.
\<close>

theorem dashboard_page_admits:
  "(dashboard_page_mount tab a user st = None \<longleftrightarrow> a = None \<or> a = Some [])
   \<and> (Dashboard_page a user = RedirectTo ''/sign-in'' \<longleftrightarrow> a = None \<or> a = Some [])
   \<and> (\<forall>v ds. dashboard_page_mount tab a user st = Some (v, ds) \<longrightarrow>
        (\<exists>uid. a = Some uid \<and> uid \<noteq> []
           \<and> dv_welcome v = ''Welcome back, '' @ userName_of user @ ''!'' \<and> userName_of user \<noteq> []
           \<and> (tab \<noteq> Some ''profile'' \<longrightarrow> mounted ds = Some (fetchFiles uid uid st initial_list_state))))"
  by (auto simp: dashboard_page_mount_def Dashboard_page_def DashboardContent_view_def dashboard_init_def
      userName_of_ne split: option.split)

text \<open>
  The landing page offers a visitor at least one link,
  each to the dashboard, sign-in or sign-up page, and links to the dashboard exactly
  when the dashboard page would render for that visitor.
\<close>

lemma landing_links_admitted:
  "a \<noteq> Some [] \<Longrightarrow>
     Home_links (a \<noteq> None) \<noteq> []
     \<and> (\<forall>(label, href) \<in> set (Home_links (a \<noteq> None)).
          href \<in> {''/dashboard'', ''/sign-in'', ''/sign-up''}
          \<and> (href = ''/dashboard'' \<longleftrightarrow> (\<exists>j uid nm. Dashboard_page a user = RenderDashboard j uid nm)))"
  by (auto simp: Home_links_def hero_links_def cta_links_def Dashboard_page_def split: option.split)


lemma demo_signup_sys_facts:
  "su_reachable True demo_signup_sys"
  "su_inflight demo_signup_sys = [AttemptVerification ''123456'']"
  "verifying (su demo_signup_sys)" "su_session demo_signup_sys = None"
proof -
  show "su_reachable True demo_signup_sys"
    unfolding demo_signup_sys_def by (rule su_reachable_fold [OF su_reachable.init])
  have d: "demo_signup_sys =
      \<lparr>su = sign_up_init\<lparr>verifying := True, su_code := ''123456'', su_submitting := True\<rparr>,
       su_inflight = [AttemptVerification ''123456''], su_session = None\<rparr>"
    by (simp add: demo_signup_sys_def demo_signup_events_def sign_up_sys_init_def sign_up_init_def
        issue_def signUp_onSubmit_def answered_def code_input_def handleVerificationSubmit_def
        verificationEmailSchema_ok sign_up_defaults_def)
  show "su_inflight demo_signup_sys = [AttemptVerification ''123456'']" by (simp add: d)
  show "verifying (su demo_signup_sys)" by (simp add: d)
  show "su_session demo_signup_sys = None" by (simp add: d)
qed

theorem su_reachable_inv_witness:
  "su_reachable True demo_signup_sys \<and> su_inv demo_signup_sys
   \<and> verifying (su (su_step True (TypeSignUp sign_up_defaults) demo_signup_sys))"
  using demo_signup_sys_facts(1,3) su_reachable_inv [OF demo_signup_sys_facts(1)] by simp

theorem session_only_by_verification_witness:
  "su_session (su_step True (AnswerVerify 0 (AttemptComplete ''sess_1'') CallOk) demo_signup_sys) = Some ''sess_1''
   \<and> verifying (su demo_signup_sys)"
proof -
  have s: "su_session (su_step True (AnswerVerify 0 (AttemptComplete ''sess_1'') CallOk) demo_signup_sys) = Some ''sess_1''"
    by (simp add: demo_signup_sys_facts(2,4) answered_def effect_session_def)
  then have "su_session (su_step True (AnswerVerify 0 (AttemptComplete ''sess_1'') CallOk) demo_signup_sys)
      \<noteq> su_session demo_signup_sys" by (simp add: demo_signup_sys_facts(4))
  from session_only_by_verification [OF demo_signup_sys_facts(1) this] s show ?thesis by auto
qed

theorem sign_in_settle_outcome_witness:
  "si_authError (fst (settle_sign_in (AttemptFailed (Some demo_error)) CallOk sign_in_init)) = Some ''Password is incorrect.''
   \<and> snd (settle_sign_in (AttemptFailed (Some demo_error)) CallOk sign_in_init) = NoEffect"
proof -
  have "clerk_message (Some demo_error) ''Invalid email or password. Please try again.'' = ''Password is incorrect.''"
    by (simp add: clerk_message_def demo_error_def js_or_def)
  then show ?thesis using sign_in_settle_outcome [of "AttemptFailed (Some demo_error)" CallOk sign_in_init] by simp
qed

theorem verification_code_schema_witness:
  "verificationEmailSchema_error ''123'' = Some ''Verification code is of 6 characters''
   \<and> verificationEmailSchema_error (code_input ''abcdefgh'') = None"
  using verification_code_schema [of "''abcdefgh''" "''123''"] by simp

theorem dashboard_page_admits_witness:
  "\<exists>v ds. dashboard_page_mount None (Some ''user_1'') (Some demo_user) demo_store = Some (v, ds)
     \<and> dv_welcome v = ''Welcome back, ada@example.org!''"
proof -
  have n: "userName_of (Some demo_user) = ''ada@example.org''"
    by (simp add: userName_of_def demo_user_def js_or_def first_email_def)
  have "dashboard_page_mount None (Some ''user_1'') (Some demo_user) demo_store \<noteq> None"
    using dashboard_page_admits [of None "Some ''user_1''" "Some demo_user" demo_store] by simp
  then obtain v ds where m: "dashboard_page_mount None (Some ''user_1'') (Some demo_user) demo_store = Some (v, ds)"
    by fastforce
  with dashboard_page_admits [of None "Some ''user_1''" "Some demo_user" demo_store] n
  show ?thesis by auto
qed

end
