(* ===== verification/Site.thy ===== *)
theory Site
  imports Auth
begin

text \<open>
  The application around the pages: the links the forms hold and where a settled
  handler's \<^verbatim>\<open>router.push\<close> and the dashboard page's \<^verbatim>\<open>redirect\<close> lead, the
  document titles of the root layout's metadata template (src/app/layout.tsx) for the
  pages of src/app, and the ImageKit wiring of src/app/providers.tsx.
\<close>

subsection \<open>Pages\<close>

text \<open>The pages of src/app: app/page.tsx, app/dashboard/page.tsx, app/sign-up/[[...sign-up]]/page.tsx.\<close>

datatype page = HomePage | DashboardPage | SignUpPage

subsection \<open>Links of the forms\<close>

text \<open>SignInForm's footer (lines 165--175).\<close>

definition SignInForm_links :: "(string \<times> string) list" where
  "SignInForm_links = [(''Sign Up Now'', ''/sign-up'')]"

text \<open>SignUpForm's terms notice (lines 269--275) and footer (lines 293--302), both on the
  sign-up screen only.\<close>

definition SignUpForm_terms_links :: "(string \<times> string) list" where
  "SignUpForm_terms_links = [(''Terms of Service'', ''/terms''), (''Privacy Policy'', ''/privacy'')]"

definition SignUpForm_footer_links :: "(string \<times> string) list" where
  "SignUpForm_footer_links = [(''Sign In'', ''/sign-in'')]"

definition SignUpForm_links :: "sign_up \<Rightarrow> (string \<times> string) list" where
  "SignUpForm_links s = (if verifying s then [] else SignUpForm_terms_links @ SignUpForm_footer_links)"

text \<open>Where a settled handler's \<^verbatim>\<open>router.push\<close> and the page's \<^verbatim>\<open>redirect\<close> lead.\<close>

definition effect_target :: "auth_effect \<Rightarrow> string option" where
  "effect_target eff = (case eff of ActivateAndGo _ r \<Rightarrow> Some r | NoEffect \<Rightarrow> None)"

definition page_redirect :: "page_result \<Rightarrow> string option" where
  "page_redirect r = (case r of RedirectTo t \<Rightarrow> Some t | RenderDashboard _ _ _ \<Rightarrow> None)"

subsection \<open>Document titles\<close>

text \<open>
  The root layout's \<^verbatim>\<open>title: {default: "EchoFiles", template: "%s - EchoFiles"}\<close>
  (layout.tsx lines 12--15) applied to each page's own \<^verbatim>\<open>metadata.title\<close>.
\<close>

definition root_title :: "string option \<Rightarrow> string" where
  "root_title t = (case t of None \<Rightarrow> ''EchoFiles'' | Some x \<Rightarrow> x @ '' - EchoFiles'')"

definition page_metadata_title :: "page \<Rightarrow> string option" where
  "page_metadata_title pg =
     (case pg of HomePage \<Rightarrow> None | DashboardPage \<Rightarrow> Some ''DashBoard'' | SignUpPage \<Rightarrow> Some ''SignUp'')"

definition document_title :: "page \<Rightarrow> string" where
  "document_title pg = root_title (page_metadata_title pg)"

subsection \<open>Providers: ImageKit\<close>

text \<open>
  The answer of \<^verbatim>\<open>fetch("/api/imagekit-auth")\<close>: a rejected fetch, or a response
  with its status and its body when that body parses as JSON.  \<^verbatim>\<open>authenticator\<close>
  (lines 25--34) returns the parsed body and rethrows any failure; it never looks at
  the status.
\<close>

datatype 'j http_answer = NetworkError | HttpResponse nat "'j option"

datatype auth_failure = FetchFailed | BodyNotJson

definition authenticator :: "'j http_answer \<Rightarrow> auth_failure + 'j" where
  "authenticator r =
     (case r of
        NetworkError \<Rightarrow> Inl FetchFailed
      | HttpResponse _ body \<Rightarrow> (case body of None \<Rightarrow> Inl BodyNotJson | Some d \<Rightarrow> Inr d))"

record imagekit_config =
  publicKey :: string
  urlEndpoint :: string

text \<open>\<^verbatim>\<open>process.env.X || ""\<close> for the two public settings (lines 43--44).\<close>

definition Providers_imagekit :: "(string \<Rightarrow> string option) \<Rightarrow> imagekit_config" where
  "Providers_imagekit env =
     \<lparr>publicKey = js_or (env ''NEXT_PUBLIC_IMAGEKIT_PUBLIC_KEY'') [],
      urlEndpoint = js_or (env ''NEXT_PUBLIC_IMAGEKIT_URL_ENDPOINT'') []\<rparr>"

subsection \<open>Lemmas\<close>

lemma settle_sign_in_target:
  "effect_target (snd (settle_sign_in att act s)) = Some r \<Longrightarrow> r = ''/dashboard''"
  by (cases "(att, act, s)" rule: settle_sign_in.cases) (simp_all add: effect_target_def)

lemma settle_verification_target:
  "effect_target (snd (settle_verification att act s)) = Some r \<Longrightarrow> r = ''/dashboard''"
  by (cases "(att, act, s)" rule: settle_verification.cases) (simp_all add: effect_target_def)

text \<open>
  The authenticator fails only when the fetch rejects or the body is not JSON; the body
  of any response, whatever its status, is handed to ImageKit as its credentials.  A
  missing public setting becomes the empty text.
\<close>

lemma authenticator_ignores_status:
  "authenticator (HttpResponse st b) = authenticator (HttpResponse 200 b)"
  "authenticator r = Inl FetchFailed \<longleftrightarrow> r = NetworkError"
  "env ''NEXT_PUBLIC_IMAGEKIT_PUBLIC_KEY'' = None \<Longrightarrow> publicKey (Providers_imagekit env) = []"
  by (auto simp: authenticator_def Providers_imagekit_def js_or_def split: http_answer.split option.split)

lemma document_titles:
  "document_title HomePage = ''EchoFiles''"
  "document_title DashboardPage = ''DashBoard - EchoFiles''"
  "document_title SignUpPage = ''SignUp - EchoFiles''"
  by (simp_all add: document_title_def root_title_def page_metadata_title_def)

end
