(* ===== verification/Relations.thy ===== *)
theory Relations
  imports Api
begin

text \<open>
  The self relation \<^verbatim>\<open>filesRelations\<close> of src/lib/db/schema.ts (lines 38--51), through
  which the ORM resolves a row's \<^verbatim>\<open>parent\<close> (\<^verbatim>\<open>one(files, {fields: [parentId],
  references: [id]})\<close>) and its \<^verbatim>\<open>children\<close> (\<^verbatim>\<open>many(files)\<close>, the rows whose
  \<^verbatim>\<open>parentId\<close> is its id), read on a store.  The lemmas relate the two directions and
  relate \<^verbatim>\<open>children\<close> to the listing route.
\<close>

definition filesRelations_parent :: "store \<Rightarrow> file_row \<Rightarrow> file_row option" where
  "filesRelations_parent st r =
     (case parentId r of None \<Rightarrow> None | Some p \<Rightarrow> find_row (rows st) p)"

definition filesRelations_children :: "store \<Rightarrow> file_row \<Rightarrow> file_row list" where
  "filesRelations_children st r = filter (\<lambda>c. parentId c = Some (row_id r)) (rows st)"

subsection \<open>Lemmas\<close>

lemma store_wf_distinct: "store_wf st \<Longrightarrow> distinct (map row_id (rows st))"
  by (simp add: store_wf_def)

lemma store_wf_parent_owner:
  "store_wf st \<Longrightarrow> p \<in> set (rows st) \<Longrightarrow> c \<in> set (rows st) \<Longrightarrow> parentId c = Some (row_id p)
   \<Longrightarrow> userId p = userId c \<and> isFolder p"
  by (simp add: store_wf_def)

lemma find_row_Some_id: "find_row rs i = Some r \<Longrightarrow> row_id r = i \<and> r \<in> set rs"
  by (auto simp: find_row_def)

text \<open>
  C25 (filesRelations_roundtrip). On a well-formed store the two directions of the
  self relation agree: a row is among a row's children exactly when that row is its
  parent; and a row's children are exactly what the listing route returns for the
  row's owner and the row as folder, in table order.
\<close>

theorem filesRelations_roundtrip:
  assumes wf: "store_wf st" and p: "p \<in> set (rows st)"
  shows "(\<forall>c \<in> set (rows st). c \<in> set (filesRelations_children st p) \<longleftrightarrow> filesRelations_parent st c = Some p)
         \<and> filesRelations_children st p = list_entries (userId p) (Some (row_id p)) st"
proof
  have d: "distinct (map row_id (rows st))" using wf by (rule store_wf_distinct)
  show "\<forall>c \<in> set (rows st). c \<in> set (filesRelations_children st p) \<longleftrightarrow> filesRelations_parent st c = Some p"
  proof
    fix c assume c: "c \<in> set (rows st)"
    show "c \<in> set (filesRelations_children st p) \<longleftrightarrow> filesRelations_parent st c = Some p"
    proof
      assume "c \<in> set (filesRelations_children st p)"
      then have "parentId c = Some (row_id p)" by (simp add: filesRelations_children_def)
      then show "filesRelations_parent st c = Some p"
        using find_row_distinct [OF d p] by (simp add: filesRelations_parent_def)
    next
      assume "filesRelations_parent st c = Some p"
      then obtain i where i: "parentId c = Some i" "find_row (rows st) i = Some p"
        by (auto simp: filesRelations_parent_def split: option.splits)
      then have "parentId c = Some (row_id p)" using find_row_Some_id [OF i(2)] by simp
      then show "c \<in> set (filesRelations_children st p)"
        using c by (simp add: filesRelations_children_def)
    qed
  qed
  show "filesRelations_children st p = list_entries (userId p) (Some (row_id p)) st"
    unfolding filesRelations_children_def list_entries_def
  proof (rule filter_cong [OF refl])
    fix c assume c: "c \<in> set (rows st)"
    show "(parentId c = Some (row_id p)) = (userId c = userId p \<and> parentId c = Some (row_id p))"
      using store_wf_parent_owner [OF wf p c] by (cases "parentId c = Some (row_id p)") simp_all
  qed
qed

theorem filesRelations_roundtrip_witness:
  "filesRelations_parent demo_store demo_file = Some demo_docs
   \<and> filesRelations_children demo_store demo_docs = list_entries ''u'' (Some 0) demo_store"
proof -
  have p: "demo_docs \<in> set (rows demo_store)" "demo_file \<in> set (rows demo_store)"
    by (simp_all add: demo_store_def)
  have ids: "userId demo_docs = ''u''" "row_id demo_docs = 0" "parentId demo_file = Some 0"
    by (simp_all add: demo_docs_def demo_file_def insert_row_def payload_def)
  have ch: "demo_file \<in> set (filesRelations_children demo_store demo_docs)"
    using p(2) ids(2,3) by (simp add: filesRelations_children_def)
  note r = filesRelations_roundtrip [OF demo_facts(1) p(1)]
  from r ch p(2) have "filesRelations_parent demo_store demo_file = Some demo_docs" by blast
  moreover from r ids(1,2) have "filesRelations_children demo_store demo_docs = list_entries ''u'' (Some 0) demo_store"
    by simp
  ultimately show ?thesis by simp
qed

end
