(* ===== verification/Spec2Isabelle.thy ===== *)
theory Spec2Isabelle
  imports Site Relations
begin

text \<open>
  \<^bold>\<open>EchoFiles: file and folder metadata, server and client.\<close>

  EchoFiles (src/) is a Next.js file manager.  Its core is a table of file and
  folder rows (src/lib/db/schema.ts) linked by \<^verbatim>\<open>parentId\<close>, changed by HTTP routes
  (list, create folder, upload, star, trash, delete permanently, empty trash) and
  shown by a React client (src/components/FileList.tsx and the components it
  renders) that updates its copy of the rows optimistically before each request
  and restores a snapshot when the request fails.  The route handlers themselves
  (app/api) are not part of src/: the server side is modelled from the
  specification, the client side from the source.

  \<^bold>\<open>Theories.\<close>
  \<^item> Prelude: identifiers, owners and timestamps as type synonyms; \<open>update_where\<close>
    (the \<^verbatim>\<open>xs.map(x => p(x) ? f(x) : x)\<close> pattern); lemmas on filters and updates of
    lists that agree under a projection; the collections \<open>row_simps\<close> and
    \<open>wf_intros\<close>.
  \<^item> Schema: the \<^verbatim>\<open>files\<close> table as the record \<open>file_row\<close>, the insert
    payload \<open>new_file\<close> and the column defaults \<open>insert_row\<close>; \<open>strip\<close>
    forgets the timestamp the server refreshes on every mutation.
  \<^item> Store (specification sections 4.1--4.3): the table as a list of rows with an
    allocator (\<open>store\<close>), lookup by owner, the toggles, permanent delete, empty
    trash, the validator (\<open>valid_name\<close>, \<open>check_parent\<close>), the walk up the
    parent chain \<open>ancestor_names\<close> with fuel, \<open>create_entry\<close> and
    \<open>upload_file\<close>; each returns \<open>api_error + _\<close>.  The invariant
    \<open>store_wf\<close> (distinct ids below the allocator, parents allocated before their
    children, folders of size 0, parents of the same owner and folders) is kept by
    every operation (\<open>wf_intros\<close>); \<open>no_orphans\<close> and \<open>paths_ok\<close> are kept by
    create and the toggles.  Claims: the toggles are involutions, delete and empty
    trash do exactly what the specification says, create fails exactly on a bad
    name or parent, never runs out of fuel, lists the new entry and derives its
    path from its parent's.
  \<^item> Views (FileList.tsx lines 79--91): the tab filter \<open>filteredFiles\<close> and the
    badge counts; the specification's flat views.  Claims: the tabs partition the
    rows; the client's tabs are the flat views restricted to the shown folder.
  \<^item> Client (FileList.tsx lines 41--176, 279): the React state, \<open>fetchFiles_with\<close>
    (\<^verbatim>\<open>fetchFiles(showLoading)\<close>), its default \<open>fetchFiles\<close> and the refresh
    button's \<open>onRefresh\<close> (no loading indicator), the
    handlers split at their await (\<open>handleStarFile\<close> and siblings before,
    \<open>settle\<close> after), the request at the server (\<open>api_request\<close>), one click
    run to completion (\<open>run_action\<close>), and a system with several requests in
    flight (\<open>sys_step\<close>).  Claims: a click run to completion keeps the client in
    sync with the server whatever the answer; on every synced client, a star and a
    trash in flight with the trash confirmed and the star failing leave the client
    showing its list from before both clicks, out of sync with the server.
  \<^item> Api (specification 4.5, 6, 7): the routes as the datatype \<open>server_op\<close>, the
    dispatch \<open>apply_op\<close>, the apply-or-reject \<open>server_step\<close>, and the inductive
    \<open>reachable_store\<close> and \<open>tree_store\<close>.  Claims by rule induction: every
    reachable store is well formed, the create-and-toggle stores also have no orphans
    and consistent paths.
  \<^item> Navigation (FileList.tsx 202--255, FolderNavigation.tsx): \<open>navigateToFolder\<close>,
    \<open>navigateUp\<close>, \<open>navigateToPathFolder\<close> (its \<^verbatim>\<open>TypeError\<close> on an empty
    slice as \<open>js_error\<close>), the row click handlers and the breadcrumb buttons.
    Claim: the shown folder stays the last breadcrumb.  Lemmas: up after enter is a
    round trip; every breadcrumb navigates to its prefix; the jump throws exactly on
    an empty path; exactly one breadcrumb is highlighted.
  \<^item> Widgets (FileTabs.tsx, FileListHeaderActions.tsx, FileActions.tsx, FileIcon.tsx):
    each component as a function of its props; \<open>string_of_nat\<close> and
    \<open>split_on\<close> stand for JavaScript's number-to-text and \<^verbatim>\<open>split\<close>.  Claim: a file
    shows a thumbnail exactly when a click opens the image viewer, except a file of the
    bare type "image".  Lemmas: the MIME-type split equals
    \<open>takeWhile\<close>/\<open>dropWhile\<close> around the slashes; each badge counts its tab's rows; Empty Trash shows exactly on a
    non-empty Trash tab; the badge text reads back as the count, capped at 99+.
  \<^item> FileListView (FileList.tsx 178--200, 257--418): the size column with
    \<^verbatim>\<open>toFixed(1)\<close> as exact rounding (\<open>fixed1\<close>), the download URL, each row's
    rendering, the whole screen \<open>FileList_view\<close>, and the callbacks of the rows,
    tabs and modals with the request each one sends (\<open>request_op\<close>).  Claims: on a
    client in sync with a well-formed store every control a row offers sends a request
    the server accepts; the Trash tab's rows offer delete and no star; size cells are
    rounded to the nearest tenth within the \<^verbatim>\<open>int4\<close> range, with 1048575 bytes
    shown as 1024.0 KB.

  \<^item> CreateFolder (CreateFolderModal.tsx): the dialog's state, \<open>js_trim\<close> for
    \<^verbatim>\<open>String.prototype.trim\<close>, the checks and request of \<open>handleCreateFolder\<close>,
    its settle, the Create button and the Enter key, and a submission against the
    server (\<open>submit_folder\<close>).  Claims: every request carries the trimmed name, which
    the server's validator accepts; a submission always leaves the creating state and
    shows an error exactly when nothing was created; whenever the button sends a
    request, the Enter key sends it again while it is in flight, and at the root the
    server creates two folders of the same name.
  \<^item> Upload (FileUploadModal.tsx): the dialog's state, \<open>validateAndSetFile\<close>, the
    picker and drop zone, \<open>handleUpload\<close> and its settle, the progress callback,
    the rendered dialog, the events as \<open>upload_step\<close> and the inductive
    \<open>upload_reachable\<close>.  Claims: the invariant of every reachable state by rule
    induction; the percentage is rounded to nearest and at most 100; the error paths
    of the checks; whenever a file is sent, a valid file dropped before the answer is
    announced as the uploaded one.
  \<^item> Dashboard (DashboardContent.tsx): the dashboard state and callbacks and its
    composition with the file list it mounts on the files section (\<open>dash_sys\<close>).
    An event is first handled by the dashboard or the list (\<open>dash_handle\<close>:
    section changes mount or unmount the list, the list reports navigation through
    \<open>onFolderChange\<close>, the dialogs' success callbacks bump
    \<open>refreshTrigger\<close>); then the mounted list's effect (\<open>list_effect\<close>,
    FileList.tsx 75--77) refetches exactly when \<open>refreshTrigger\<close> or its folder
    differs from the values of its last run (\<open>list_deps\<close>; the user id is fixed
    for a dashboard).  \<open>dash_step\<close> is the two in sequence.  Claims: while the
    section is kept, the dialogs' folder is the list's folder (inductive
    \<open>nav_reachable\<close>); a created folder is listed after the refetch its success
    triggers; from any folder, switching to Profile and back remounts the list at the
    root while the dashboard keeps the old folder, so a folder created next is missing
    from the refetched list.
  \<^item> Auth (SignInForm.tsx, SignUpForm.tsx, verificationEmailSchema.ts,
    app/dashboard/page.tsx, app/page.tsx): the identity provider's answers as the
    inputs \<open>clerk_attempt\<close> and \<open>clerk_call\<close>, JavaScript's \<^verbatim>\<open>||\<close> on texts
    (\<open>js_or\<close>) and the error text chain \<open>clerk_message\<close>; the sign-in form's state,
    its submit split at the await (\<open>signIn_onSubmit\<close>, \<open>settle_sign_in\<close>) and its
    view; the verification code schema as zod's ordered \<^verbatim>\<open>min\<close> checks with the
    input's \<^verbatim>\<open>maxLength\<close>; the sign-up form's state, its three handlers split at
    their awaits, its two renders, and \<open>su_step\<close>, the events the current render
    delivers with several identity-provider calls in flight, answered in any order,
    with the inductive \<open>su_reachable\<close>; the dashboard page (\<open>Dashboard_page\<close>:
    redirect, the \<open>serializedUser\<close> handed to the navbar, the \<open>userName\<close>
    fallback) composed with DashboardContent (\<open>dashboard_page_mount\<close>); the landing
    page's signed-in and signed-out links.  Claims: a settled sign-in always ends busy
    and shows a non-empty error unless it activated a session; the sign-up invariant by
    rule induction (errors, resends and sessions only on the verification screen, a
    reset form there, six-character codes, busy only with a request in flight, no way
    back); a session is activated only by a complete verification answer; the code
    schema accepts exactly six typed characters of any kind; the page admits exactly a
    non-empty user id and mounts that user's list.
  \<^item> Relations (schema.ts lines 38--51): the ORM's self relation
    \<open>filesRelations\<close> read on a store, \<open>filesRelations_parent\<close> and
    \<open>filesRelations_children\<close>.  Claim: on a well-formed store the two directions
    are inverse and a row's children are the listing route's answer for its folder.
  \<^item> Site (app/page.tsx, app/dashboard/page.tsx, app/sign-up/[[...sign-up]]/page.tsx,
    app/layout.tsx, app/providers.tsx): the pages, the links of the forms, where the
    handlers' \<^verbatim>\<open>router.push\<close> and the page's \<^verbatim>\<open>redirect\<close> lead, the
    layout's title template, and the ImageKit provider's \<open>authenticator\<close> and
    settings.  Lemmas: a settled sign-in or verification goes only to /dashboard; the
    authenticator ignores the response status; the document titles.  Which paths the
    App Router serves depends on the whole app directory, of which src/ holds only part
    (no /sign-in page, no API routes), so routing is not modelled.

  \<^bold>\<open>Bounds and fuel.\<close>  The parent walk is given the allocator value
  \<open>next_id\<close> as fuel: every parent was allocated before its child, so a chain from a
  row with id below \<open>next_id\<close> has fewer than \<open>next_id\<close> steps
  (\<open>ancestor_names_fuel_enough\<close>), and more fuel never changes a result
  (\<open>ancestor_names_Suc_fuel\<close>).  Sizes are \<open>int\<close>; the \<^verbatim>\<open>int4\<close> column is
  \<open>int4_range\<close>, and \<open>to_int4\<close> reads a size as a signed 32-bit word; it
  wraps where PostgreSQL would reject an out-of-range value, so it is used only in
  lemmas about sizes within \<open>int4_range\<close>, where the two agree.  The
  JavaScript number formatting (\<^verbatim>\<open>toFixed(1)\<close>, \<^verbatim>\<open>Math.round\<close>) is exact
  integer rounding, because the values rounded are exact quotients of integers.

  \<^bold>\<open>Not modelled.\<close>  Styling and CSS classes; toasts and console output; the
  fetch of a download and the browser's blob link; timers (the 300 ms dialog resets and
  the 1 s delay before \<^verbatim>\<open>onUploadSuccess\<close>); the identity provider (Clerk) and
  the storage collaborator (ImageKit), which appear only through their answers (the
  owner passed to each operation, the sign-in and sign-up results, the optional result
  of an upload, the JSON answer of the ImageKit authentication route); the rest of the
  layout and providers (ClerkProvider, HeroUI, themes, toasts), library wiring with no
  state; the markup of the pages beyond their links and titles; the schemas signInSchema and signUpSchema,
  which are not in the repository, so their verdict is an input of the submit event;
  react-hook-form's field errors and revalidation, which hold no state the handlers
  read.  Components imported from outside src/
  (ConfirmationModal, FileEmptyState, FileLoadingState, UserProfile, Navbar) appear only
  through the props FileList and the dashboard pass them.  Uuid keys are allocator
  numbers.  JavaScript strings are lists of byte characters, so \<open>js_trim\<close> strips
  the white space a byte can hold.

  The sign-in form is modelled with one submission at a time: whether a second
  submission can start while one is in flight depends on the button library's
  treatment of \<^verbatim>\<open>isLoading\<close>, which is outside the repository.  Every part of
  src/ is now represented; what remains unmapped are imports, prop interfaces and
  markup.
\<close>

end
